theory Spec2Isabelle
  imports Main "HOL-Library.Word"
begin

unbundle bit_operations_syntax

section \<open>Values shared by the buffer layer\<close>

text \<open>
  A Node \<open>Buffer\<close> is a sequence of bytes; JavaScript numbers that the buffer layer
  uses as positions, sizes and integer payloads are modelled as \<open>int\<close>.  A JavaScript
  string is modelled by the list of the bytes of its UTF-8 encoding.
\<close>

type_synonym byte = "8 word"

datatype error =
    BufferError string
  | RangeError string
  | Error string
  | ClientConnectionError string
  | RingBufferError string

text \<open>
  \<open>Buffer.allocUnsafe(n)\<close> returns \<open>n\<close> bytes that are not initialised.  The bytes
  that happen to be there are the parameter \<open>junk\<close> of every function that allocates.
\<close>

definition allocUnsafe :: "(nat \<Rightarrow> byte) \<Rightarrow> nat \<Rightarrow> byte list" where
  "allocUnsafe junk n = map junk [0..<n]"

definition EMPTY_BUFFER :: "byte list" where
  "EMPTY_BUFFER = []"

definition BUFFER_INC_SIZE :: nat where
  "BUFFER_INC_SIZE = 4096"

definition BUFFER_RING_CAPACITY :: nat where
  "BUFFER_RING_CAPACITY = 1024"

subsection \<open>The methods of Node's Buffer that the sources call\<close>

text \<open>
  \<open>source.copy(target, targetStart, sourceStart, sourceEnd)\<close>: a negative index and a
  \<open>sourceStart\<close> beyond the source raise; nothing is copied when \<open>targetStart\<close> is
  beyond the target or \<open>sourceStart \<ge> sourceEnd\<close>; otherwise the bytes
  \<open>[sourceStart, sourceEnd)\<close> of the source, cut to what the source holds and to what
  the target has room for, replace the bytes of the target from \<open>targetStart\<close> on.
  The result is the target after the call.
\<close>

definition Buffer_copy :: "byte list \<Rightarrow> byte list \<Rightarrow> int \<Rightarrow> int \<Rightarrow> int \<Rightarrow> error + byte list" where
  "Buffer_copy source target targetStart sourceStart sourceEnd =
     (if targetStart < 0 \<or> sourceStart < 0 \<or> int (length source) < sourceStart \<or> sourceEnd < 0
      then Inl (RangeError ''ERR_OUT_OF_RANGE'')
      else if int (length target) \<le> targetStart \<or> sourceEnd \<le> sourceStart then Inr target
      else
        let nb = min (min (nat (sourceEnd - sourceStart)) (length target - nat targetStart))
                     (length source - nat sourceStart)
        in Inr (take (nat targetStart) target
                @ take nb (drop (nat sourceStart) source)
                @ drop (nat targetStart + nb) target))"

text \<open>
  \<open>buf.slice(start, end)\<close>: a negative index counts from the end, both indices are
  clamped to the buffer, and an empty range gives the empty buffer.
\<close>

definition clamp_index :: "nat \<Rightarrow> int \<Rightarrow> nat" where
  "clamp_index n i = (if i < 0 then nat (int n + i) else min n (nat i))"

definition Buffer_slice :: "byte list \<Rightarrow> int \<Rightarrow> int \<Rightarrow> byte list" where
  "Buffer_slice b start end' =
     (let s = clamp_index (length b) start; e = clamp_index (length b) end'
      in take (e - s) (drop s b))"

text \<open>Big-endian bytes of an integer, and the integer of big-endian bytes.\<close>

fun be_bytes :: "nat \<Rightarrow> int \<Rightarrow> byte list" where
  "be_bytes 0 v = []"
| "be_bytes (Suc n) v = be_bytes n (v div 256) @ [word_of_int v]"

fun be_uint :: "byte list \<Rightarrow> int" where
  "be_uint [] = 0"
| "be_uint (b # bs) = uint b * 256 ^ length bs + be_uint bs"

definition be_sint :: "byte list \<Rightarrow> int" where
  "be_sint bs = (let u = be_uint bs in if 2 ^ (8 * length bs - 1) \<le> u then u - 2 ^ (8 * length bs) else u)"

text \<open>
  The integer writers of Buffer raise ERR_OUT_OF_RANGE when the value does not fit the
  width.  When the bytes do not fit the buffer at the offset they raise
  ERR_BUFFER_OUT_OF_BOUNDS if the buffer is shorter than the width, and
  ERR_OUT_OF_RANGE otherwise.
\<close>

definition Buffer_write :: "nat \<Rightarrow> int \<Rightarrow> int \<Rightarrow> byte list \<Rightarrow> int \<Rightarrow> int \<Rightarrow> error + byte list" where
  "Buffer_write n lo hi b v offset =
     (if v < lo \<or> hi < v then Inl (RangeError ''ERR_OUT_OF_RANGE'')
      else if offset < 0 \<or> int (length b) < offset + int n
      then (if length b < n then Inl (RangeError ''ERR_BUFFER_OUT_OF_BOUNDS'')
            else Inl (RangeError ''ERR_OUT_OF_RANGE''))
      else Inr (take (nat offset) b @ be_bytes n v @ drop (nat offset + n) b))"

definition writeUInt8 :: "byte list \<Rightarrow> int \<Rightarrow> int \<Rightarrow> error + byte list" where
  "writeUInt8 = Buffer_write 1 0 255"

definition writeInt16BE :: "byte list \<Rightarrow> int \<Rightarrow> int \<Rightarrow> error + byte list" where
  "writeInt16BE = Buffer_write 2 (- 32768) 32767"

definition writeUInt16BE :: "byte list \<Rightarrow> int \<Rightarrow> int \<Rightarrow> error + byte list" where
  "writeUInt16BE = Buffer_write 2 0 65535"

definition writeInt32BE :: "byte list \<Rightarrow> int \<Rightarrow> int \<Rightarrow> error + byte list" where
  "writeInt32BE = Buffer_write 4 (- 2147483648) 2147483647"

definition writeUInt32BE :: "byte list \<Rightarrow> int \<Rightarrow> int \<Rightarrow> error + byte list" where
  "writeUInt32BE = Buffer_write 4 0 4294967295"

text \<open>
  When the bytes are not all inside the buffer, the integer readers raise
  ERR_BUFFER_OUT_OF_BOUNDS if the buffer is shorter than the width, and
  ERR_OUT_OF_RANGE otherwise.
\<close>

definition Buffer_read :: "nat \<Rightarrow> byte list \<Rightarrow> int \<Rightarrow> error + byte list" where
  "Buffer_read n b offset =
     (if offset < 0 \<or> int (length b) < offset + int n
      then (if length b < n then Inl (RangeError ''ERR_BUFFER_OUT_OF_BOUNDS'')
            else Inl (RangeError ''ERR_OUT_OF_RANGE''))
      else Inr (take n (drop (nat offset) b)))"

definition readUInt8 :: "byte list \<Rightarrow> int \<Rightarrow> error + int" where
  "readUInt8 b offset = map_sum id be_uint (Buffer_read 1 b offset)"

definition readInt8 :: "byte list \<Rightarrow> int \<Rightarrow> error + int" where
  "readInt8 b offset = map_sum id be_sint (Buffer_read 1 b offset)"

definition readInt16BE :: "byte list \<Rightarrow> int \<Rightarrow> error + int" where
  "readInt16BE b offset = map_sum id be_sint (Buffer_read 2 b offset)"

definition readUInt16BE :: "byte list \<Rightarrow> int \<Rightarrow> error + int" where
  "readUInt16BE b offset = map_sum id be_uint (Buffer_read 2 b offset)"

definition readInt32BE :: "byte list \<Rightarrow> int \<Rightarrow> error + int" where
  "readInt32BE b offset = map_sum id be_sint (Buffer_read 4 b offset)"

definition readUInt32BE :: "byte list \<Rightarrow> int \<Rightarrow> error + int" where
  "readUInt32BE b offset = map_sum id be_uint (Buffer_read 4 b offset)"

section \<open>WriteBuffer (buffer.ts)\<close>

record WriteBuffer =
  wb_buffer :: "byte list"
  wb_size :: nat
  wb_pos :: nat

definition new_WriteBuffer :: "(nat \<Rightarrow> byte) \<Rightarrow> WriteBuffer" where
  "new_WriteBuffer junk =
     \<lparr>wb_buffer = allocUnsafe junk BUFFER_INC_SIZE, wb_size = BUFFER_INC_SIZE, wb_pos = 0\<rparr>"

definition wb_position :: "WriteBuffer \<Rightarrow> nat" where
  "wb_position wb = wb_pos wb"

definition wb_reset :: "WriteBuffer \<Rightarrow> WriteBuffer" where
  "wb_reset wb = wb\<lparr>wb_pos := 0\<rparr>"

text \<open>\<open>__realloc\<close> replaces the buffer and leaves the field \<open>size\<close> as it was.\<close>

definition wb_realloc :: "(nat \<Rightarrow> byte) \<Rightarrow> nat \<Rightarrow> WriteBuffer \<Rightarrow> (error + unit) \<times> WriteBuffer" where
  "wb_realloc junk newSize wb =
     (let newBuffer = allocUnsafe junk (newSize + BUFFER_INC_SIZE)
      in case Buffer_copy (wb_buffer wb) newBuffer 0 0 (int (wb_pos wb)) of
           Inl e \<Rightarrow> (Inl e, wb)
         | Inr nb \<Rightarrow> (Inr (), wb\<lparr>wb_buffer := nb\<rparr>))"

definition ensureAlloced :: "(nat \<Rightarrow> byte) \<Rightarrow> nat \<Rightarrow> WriteBuffer \<Rightarrow> (error + unit) \<times> WriteBuffer" where
  "ensureAlloced junk extraLength wb =
     (let newSize = wb_pos wb + extraLength
      in if wb_size wb < newSize then wb_realloc junk newSize wb else (Inr (), wb))"

text \<open>
  The integer writers of WriteBuffer share one shape: make room, write at \<open>pos\<close> with
  the Buffer method, advance \<open>pos\<close> by the width.
\<close>

definition wb_put :: "(nat \<Rightarrow> byte) \<Rightarrow> nat \<Rightarrow> (byte list \<Rightarrow> int \<Rightarrow> int \<Rightarrow> error + byte list) \<Rightarrow> int
    \<Rightarrow> WriteBuffer \<Rightarrow> (error + unit) \<times> WriteBuffer" where
  "wb_put junk n writer v wb0 =
     (case ensureAlloced junk n wb0 of
        (Inl e, wb) \<Rightarrow> (Inl e, wb)
      | (Inr _, wb) \<Rightarrow>
          (case writer (wb_buffer wb) v (int (wb_pos wb)) of
             Inl e \<Rightarrow> (Inl e, wb)
           | Inr b \<Rightarrow> (Inr (), wb\<lparr>wb_buffer := b, wb_pos := wb_pos wb + n\<rparr>)))"

definition wb_writeChar :: "(nat \<Rightarrow> byte) \<Rightarrow> int \<Rightarrow> WriteBuffer \<Rightarrow> (error + unit) \<times> WriteBuffer" where
  "wb_writeChar junk ch = wb_put junk 1 writeUInt8 ch"

definition wb_writeInt16 :: "(nat \<Rightarrow> byte) \<Rightarrow> int \<Rightarrow> WriteBuffer \<Rightarrow> (error + unit) \<times> WriteBuffer" where
  "wb_writeInt16 junk i = wb_put junk 2 writeInt16BE i"

definition wb_writeInt32 :: "(nat \<Rightarrow> byte) \<Rightarrow> int \<Rightarrow> WriteBuffer \<Rightarrow> (error + unit) \<times> WriteBuffer" where
  "wb_writeInt32 junk i = wb_put junk 4 writeInt32BE i"

definition wb_writeUInt16 :: "(nat \<Rightarrow> byte) \<Rightarrow> int \<Rightarrow> WriteBuffer \<Rightarrow> (error + unit) \<times> WriteBuffer" where
  "wb_writeUInt16 junk i = wb_put junk 2 writeUInt16BE i"

definition wb_writeUInt32 :: "(nat \<Rightarrow> byte) \<Rightarrow> int \<Rightarrow> WriteBuffer \<Rightarrow> (error + unit) \<times> WriteBuffer" where
  "wb_writeUInt32 junk i = wb_put junk 4 writeUInt32BE i"

definition wb_writeBuffer :: "(nat \<Rightarrow> byte) \<Rightarrow> byte list \<Rightarrow> WriteBuffer \<Rightarrow> (error + unit) \<times> WriteBuffer" where
  "wb_writeBuffer junk buf wb0 =
     (case ensureAlloced junk (length buf) wb0 of
        (Inl e, wb) \<Rightarrow> (Inl e, wb)
      | (Inr _, wb) \<Rightarrow>
          (case Buffer_copy buf (wb_buffer wb) (int (wb_pos wb)) 0 (int (length buf)) of
             Inl e \<Rightarrow> (Inl e, wb)
           | Inr b \<Rightarrow> (Inr (), wb\<lparr>wb_buffer := b, wb_pos := wb_pos wb + length buf\<rparr>)))"

text \<open>\<open>writeString\<close> gets the string as the bytes \<open>Buffer.from(s, "utf-8")\<close> makes of it.\<close>

definition wb_writeString :: "(nat \<Rightarrow> byte) \<Rightarrow> byte list \<Rightarrow> WriteBuffer \<Rightarrow> (error + unit) \<times> WriteBuffer" where
  "wb_writeString junk buf wb0 =
     (case ensureAlloced junk (length buf + 4) wb0 of
        (Inl e, wb) \<Rightarrow> (Inl e, wb)
      | (Inr _, wb) \<Rightarrow>
          (case writeInt32BE (wb_buffer wb) (int (length buf)) (int (wb_pos wb)) of
             Inl e \<Rightarrow> (Inl e, wb)
           | Inr b \<Rightarrow>
               (let wb1 = wb\<lparr>wb_buffer := b, wb_pos := wb_pos wb + 4\<rparr>
                in case Buffer_copy buf (wb_buffer wb1) (int (wb_pos wb1)) 0 (int (length buf)) of
                     Inl e \<Rightarrow> (Inl e, wb1)
                   | Inr b' \<Rightarrow> (Inr (), wb1\<lparr>wb_buffer := b', wb_pos := wb_pos wb1 + length buf\<rparr>))))"

definition wb_unwrap :: "WriteBuffer \<Rightarrow> byte list" where
  "wb_unwrap wb = Buffer_slice (wb_buffer wb) 0 (int (wb_pos wb))"

section \<open>WriteMessageBuffer (buffer.ts)\<close>

text \<open>The character codes of \<open>./chars\<close> that the sources name.\<close>

definition chr_S :: int where "chr_S = 83"
definition chr_H :: int where "chr_H = 72"
definition chr_P :: int where "chr_P = 80"

record WriteMessageBuffer =
  wm_buffer :: WriteBuffer
  messagePos :: int

definition new_WriteMessageBuffer :: "(nat \<Rightarrow> byte) \<Rightarrow> WriteMessageBuffer" where
  "new_WriteMessageBuffer junk = \<lparr>wm_buffer = new_WriteBuffer junk, messagePos = - 1\<rparr>"

definition wm_reset :: "WriteMessageBuffer \<Rightarrow> WriteMessageBuffer" where
  "wm_reset wm = wm\<lparr>wm_buffer := wb_reset (wm_buffer wm)\<rparr>"

text \<open>A method of the inner WriteBuffer, run on the field \<open>buffer\<close>.\<close>

definition on_buffer :: "(WriteBuffer \<Rightarrow> (error + unit) \<times> WriteBuffer)
    \<Rightarrow> WriteMessageBuffer \<Rightarrow> (error + unit) \<times> WriteMessageBuffer" where
  "on_buffer f wm = (case f (wm_buffer wm) of (r, wb) \<Rightarrow> (r, wm\<lparr>wm_buffer := wb\<rparr>))"

definition beginMessage :: "(nat \<Rightarrow> byte) \<Rightarrow> int \<Rightarrow> WriteMessageBuffer \<Rightarrow> (error + unit) \<times> WriteMessageBuffer" where
  "beginMessage junk mtype wm =
     (if 0 \<le> messagePos wm
      then (Inl (BufferError ''cannot begin a new message: the previous message is not finished''), wm)
      else
        let wm1 = wm\<lparr>messagePos := int (wb_position (wm_buffer wm))\<rparr>
        in case on_buffer (wb_writeChar junk mtype) wm1 of
             (Inl e, wm2) \<Rightarrow> (Inl e, wm2)
           | (Inr _, wm2) \<Rightarrow> on_buffer (wb_writeInt32 junk 0) wm2)"

definition endMessage :: "WriteMessageBuffer \<Rightarrow> (error + unit) \<times> WriteMessageBuffer" where
  "endMessage wm =
     (if messagePos wm < 0
      then (Inl (BufferError ''cannot end the message: no current message''), wm)
      else
        case writeInt32BE (wb_buffer (wm_buffer wm))
               (int (wb_position (wm_buffer wm)) - messagePos wm - 1) (messagePos wm + 1) of
          Inl e \<Rightarrow> (Inl e, wm)
        | Inr b \<Rightarrow> (Inr (), wm\<lparr>wm_buffer := (wm_buffer wm)\<lparr>wb_buffer := b\<rparr>, messagePos := - 1\<rparr>))"

definition in_message :: "string \<Rightarrow> (WriteBuffer \<Rightarrow> (error + unit) \<times> WriteBuffer)
    \<Rightarrow> WriteMessageBuffer \<Rightarrow> (error + unit) \<times> WriteMessageBuffer" where
  "in_message msg f wm =
     (if messagePos wm < 0 then (Inl (BufferError msg), wm) else on_buffer f wm)"

definition wm_writeChar :: "(nat \<Rightarrow> byte) \<Rightarrow> int \<Rightarrow> WriteMessageBuffer \<Rightarrow> (error + unit) \<times> WriteMessageBuffer" where
  "wm_writeChar junk ch = in_message ''cannot writeChar: no current message'' (wb_writeChar junk ch)"

definition wm_writeString :: "(nat \<Rightarrow> byte) \<Rightarrow> byte list \<Rightarrow> WriteMessageBuffer \<Rightarrow> (error + unit) \<times> WriteMessageBuffer" where
  "wm_writeString junk s = in_message ''cannot writeString: no current message'' (wb_writeString junk s)"

definition wm_writeInt16 :: "(nat \<Rightarrow> byte) \<Rightarrow> int \<Rightarrow> WriteMessageBuffer \<Rightarrow> (error + unit) \<times> WriteMessageBuffer" where
  "wm_writeInt16 junk i = in_message ''cannot writeInt16: no current message'' (wb_writeInt16 junk i)"

definition wm_writeInt32 :: "(nat \<Rightarrow> byte) \<Rightarrow> int \<Rightarrow> WriteMessageBuffer \<Rightarrow> (error + unit) \<times> WriteMessageBuffer" where
  "wm_writeInt32 junk i = in_message ''cannot writeInt32: no current message'' (wb_writeInt32 junk i)"

definition wm_writeUInt16 :: "(nat \<Rightarrow> byte) \<Rightarrow> int \<Rightarrow> WriteMessageBuffer \<Rightarrow> (error + unit) \<times> WriteMessageBuffer" where
  "wm_writeUInt16 junk i = in_message ''cannot writeInt16: no current message'' (wb_writeUInt16 junk i)"

definition wm_writeUInt32 :: "(nat \<Rightarrow> byte) \<Rightarrow> int \<Rightarrow> WriteMessageBuffer \<Rightarrow> (error + unit) \<times> WriteMessageBuffer" where
  "wm_writeUInt32 junk i = in_message ''cannot writeInt32: no current message'' (wb_writeUInt32 junk i)"

definition wm_writeBuffer :: "(nat \<Rightarrow> byte) \<Rightarrow> byte list \<Rightarrow> WriteMessageBuffer \<Rightarrow> (error + unit) \<times> WriteMessageBuffer" where
  "wm_writeBuffer junk buf = in_message ''cannot writeBuffer: no current message'' (wb_writeBuffer junk buf)"

definition wm_unwrap :: "WriteMessageBuffer \<Rightarrow> error + byte list" where
  "wm_unwrap wm =
     (if 0 \<le> messagePos wm
      then Inl (BufferError ''cannot unwrap: an unfinished message is in the buffer'')
      else Inr (wb_unwrap (wm_buffer wm)))"

text \<open>
  \<open>SYNC_MESSAGE\<close> and \<open>FLUSH_MESSAGE\<close> are built once, with a fresh WriteMessageBuffer,
  as \<open>beginMessage(tag).endMessage().unwrap()\<close>.
\<close>

definition empty_message :: "(nat \<Rightarrow> byte) \<Rightarrow> int \<Rightarrow> error + byte list" where
  "empty_message junk tag =
     (case beginMessage junk tag (new_WriteMessageBuffer junk) of
        (Inl e, _) \<Rightarrow> Inl e
      | (Inr _, wm) \<Rightarrow> (case endMessage wm of (Inl e, _) \<Rightarrow> Inl e | (Inr _, wm') \<Rightarrow> wm_unwrap wm'))"

definition SYNC_MESSAGE :: "(nat \<Rightarrow> byte) \<Rightarrow> error + byte list" where
  "SYNC_MESSAGE junk = empty_message junk chr_S"

definition FLUSH_MESSAGE :: "(nat \<Rightarrow> byte) \<Rightarrow> error + byte list" where
  "FLUSH_MESSAGE junk = empty_message junk chr_H"

definition writeSync :: "(nat \<Rightarrow> byte) \<Rightarrow> WriteMessageBuffer \<Rightarrow> (error + unit) \<times> WriteMessageBuffer" where
  "writeSync junk wm =
     (if 0 \<le> messagePos wm
      then (Inl (BufferError ''cannot writeSync: the previous message is not finished''), wm)
      else case SYNC_MESSAGE junk of
             Inl e \<Rightarrow> (Inl e, wm)
           | Inr m \<Rightarrow> on_buffer (wb_writeBuffer junk m) wm)"

definition writeFlush :: "(nat \<Rightarrow> byte) \<Rightarrow> WriteMessageBuffer \<Rightarrow> (error + unit) \<times> WriteMessageBuffer" where
  "writeFlush junk wm =
     (if 0 \<le> messagePos wm
      then (Inl (BufferError ''cannot writeFlush: the previous message is not finished''), wm)
      else case FLUSH_MESSAGE junk of
             Inl e \<Rightarrow> (Inl e, wm)
           | Inr m \<Rightarrow> on_buffer (wb_writeBuffer junk m) wm)"

text \<open>
  A message as a caller builds it: \<open>beginMessage(tag)\<close>, typed writes in order, then
  \<open>endMessage()\<close>.  The first call that raises ends the sequence.
\<close>

datatype typed_write =
    WriteChar int
  | WriteString "byte list"
  | WriteInt16 int
  | WriteInt32 int
  | WriteUInt16 int
  | WriteUInt32 int
  | WriteBuffer "byte list"

fun typed_write_call :: "(nat \<Rightarrow> byte) \<Rightarrow> typed_write \<Rightarrow> WriteMessageBuffer \<Rightarrow> (error + unit) \<times> WriteMessageBuffer" where
  "typed_write_call junk (WriteChar ch) = wm_writeChar junk ch"
| "typed_write_call junk (WriteString s) = wm_writeString junk s"
| "typed_write_call junk (WriteInt16 i) = wm_writeInt16 junk i"
| "typed_write_call junk (WriteInt32 i) = wm_writeInt32 junk i"
| "typed_write_call junk (WriteUInt16 i) = wm_writeUInt16 junk i"
| "typed_write_call junk (WriteUInt32 i) = wm_writeUInt32 junk i"
| "typed_write_call junk (WriteBuffer b) = wm_writeBuffer junk b"

fun typed_writes :: "(nat \<Rightarrow> byte) \<Rightarrow> typed_write list \<Rightarrow> WriteMessageBuffer \<Rightarrow> (error + unit) \<times> WriteMessageBuffer" where
  "typed_writes junk [] wm = (Inr (), wm)"
| "typed_writes junk (w # ws) wm =
     (case typed_write_call junk w wm of
        (Inl e, wm') \<Rightarrow> (Inl e, wm')
      | (Inr _, wm') \<Rightarrow> typed_writes junk ws wm')"

definition build_message :: "(nat \<Rightarrow> byte) \<Rightarrow> int \<Rightarrow> typed_write list \<Rightarrow> WriteMessageBuffer \<Rightarrow> (error + unit) \<times> WriteMessageBuffer" where
  "build_message junk tag ws wm =
     (case beginMessage junk tag wm of
        (Inl e, wm1) \<Rightarrow> (Inl e, wm1)
      | (Inr _, wm1) \<Rightarrow>
          (case typed_writes junk ws wm1 of
             (Inl e, wm2) \<Rightarrow> (Inl e, wm2)
           | (Inr _, wm2) \<Rightarrow> endMessage wm2))"

text \<open>The values each typed write accepts, and the bytes it appends.\<close>

fun typed_write_ok :: "typed_write \<Rightarrow> bool" where
  "typed_write_ok (WriteChar ch) = (0 \<le> ch \<and> ch \<le> 255)"
| "typed_write_ok (WriteString s) = (int (length s) \<le> 2147483647)"
| "typed_write_ok (WriteInt16 i) = (- 32768 \<le> i \<and> i \<le> 32767)"
| "typed_write_ok (WriteInt32 i) = (- 2147483648 \<le> i \<and> i \<le> 2147483647)"
| "typed_write_ok (WriteUInt16 i) = (0 \<le> i \<and> i \<le> 65535)"
| "typed_write_ok (WriteUInt32 i) = (0 \<le> i \<and> i \<le> 4294967295)"
| "typed_write_ok (WriteBuffer b) = True"

fun typed_write_bytes :: "typed_write \<Rightarrow> byte list" where
  "typed_write_bytes (WriteChar ch) = be_bytes 1 ch"
| "typed_write_bytes (WriteString s) = be_bytes 4 (int (length s)) @ s"
| "typed_write_bytes (WriteInt16 i) = be_bytes 2 i"
| "typed_write_bytes (WriteInt32 i) = be_bytes 4 i"
| "typed_write_bytes (WriteUInt16 i) = be_bytes 2 i"
| "typed_write_bytes (WriteUInt32 i) = be_bytes 4 i"
| "typed_write_bytes (WriteBuffer b) = b"

text \<open>A message on the wire: the tag, the length of what follows the tag, the payload.\<close>

definition message_frame :: "int \<Rightarrow> byte list \<Rightarrow> byte list" where
  "message_frame tag payload = be_bytes 1 tag @ be_bytes 4 (4 + int (length payload)) @ payload"

definition wb_inv :: "WriteBuffer \<Rightarrow> bool" where
  "wb_inv wb = (wb_pos wb \<le> length (wb_buffer wb) \<and> wb_size wb \<le> length (wb_buffer wb))"

section \<open>ReadMessageBuffer (buffer.ts)\<close>

text \<open>
  Modelled from the spec: the \<open>RingBuffer\<close> of \<open>./ring\<close> is not among the sources.  The
  spec calls it a bounded queue of capacity 1024 that reports when it is full: a list
  of the queued chunks, oldest first, full when it holds \<open>BUFFER_RING_CAPACITY\<close> of them.
  \<open>deq\<close> on an empty ring gives no chunk; \<open>enq\<close> on a full ring raises.
\<close>

definition ring_full :: "'a list \<Rightarrow> bool" where
  "ring_full q = (BUFFER_RING_CAPACITY \<le> length q)"

definition ring_enq :: "'a \<Rightarrow> 'a list \<Rightarrow> error + 'a list" where
  "ring_enq x q = (if ring_full q then Inl (RingBufferError ''ring buffer is full'') else Inr (q @ [x]))"

definition ring_deq :: "'a list \<Rightarrow> 'a option \<times> 'a list" where
  "ring_deq q = (case q of [] \<Rightarrow> (None, []) | x # xs \<Rightarrow> (Some x, xs))"

record ReadMessageBuffer =
  bufs :: "byte list list"
  len :: int
  buf0 :: "byte list option"
  pos0 :: int
  len0 :: int
  curMessageType :: int
  curMessageLen :: int
  curMessageLenUnread :: int
  curMessageReady :: bool

definition new_ReadMessageBuffer :: ReadMessageBuffer where
  "new_ReadMessageBuffer =
     \<lparr>bufs = [], len = 0, buf0 = None, pos0 = 0, len0 = 0,
      curMessageType = 0, curMessageLen = 0, curMessageLenUnread = 0, curMessageReady = False\<rparr>"

definition feed :: "byte list \<Rightarrow> ReadMessageBuffer \<Rightarrow> (error + bool) \<times> ReadMessageBuffer" where
  "feed buf s =
     (if buf0 s = None \<or> (pos0 s = len0 s \<and> length (bufs s) = 0)
      then (Inr (ring_full (bufs s)),
            s\<lparr>buf0 := Some buf, len0 := int (length buf), pos0 := 0, len := int (length buf)\<rparr>)
      else case ring_enq buf (bufs s) of
             Inl e \<Rightarrow> (Inl e, s)
           | Inr q \<Rightarrow> (Inr (ring_full q), s\<lparr>bufs := q, len := len s + int (length buf)\<rparr>))"

definition nextBuf :: "ReadMessageBuffer \<Rightarrow> (error + unit) \<times> ReadMessageBuffer" where
  "nextBuf s =
     (case ring_deq (bufs s) of
        (None, q) \<Rightarrow> (Inl (BufferError ''buffer overread''), s\<lparr>bufs := q\<rparr>)
      | (Some nb, q) \<Rightarrow> (Inr (), s\<lparr>bufs := q, buf0 := Some nb, pos0 := 0, len0 := int (length nb)\<rparr>))"

definition ensureFirstBuf :: "ReadMessageBuffer \<Rightarrow> (error + byte list) \<times> ReadMessageBuffer" where
  "ensureFirstBuf s0 =
     (case (if pos0 s0 = len0 s0 then nextBuf s0 else (Inr (), s0)) of
        (Inl e, s) \<Rightarrow> (Inl e, s)
      | (Inr _, s) \<Rightarrow>
          (case buf0 s of
             None \<Rightarrow> (Inl (BufferError ''empty buffer''), s)
           | Some b \<Rightarrow> if length b < 1 then (Inl (BufferError ''empty buffer''), s) else (Inr b, s)))"

definition checkOverread :: "int \<Rightarrow> ReadMessageBuffer \<Rightarrow> error + unit" where
  "checkOverread size' s =
     (if curMessageLenUnread s < size' \<or> len s < size' then Inl (BufferError ''buffer overread'')
      else Inr ())"

lemma ensureFirstBuf_dequeues:
  "pos0 s = len0 s \<Longrightarrow> ensureFirstBuf s = (Inr b, s') \<Longrightarrow> length (bufs s') < length (bufs s)"
  by (auto simp: ensureFirstBuf_def nextBuf_def ring_deq_def split: list.splits option.splits if_splits)

lemma ensureFirstBuf_at_end:
  "(Inr b, s') = ensureFirstBuf (s\<lparr>pos0 := len0 s, len := l\<rparr>) \<Longrightarrow> length (bufs s') < length (bufs s)"
  using ensureFirstBuf_dequeues[of "s\<lparr>pos0 := len0 s, len := l\<rparr>" b s'] by simp



definition priv_finishMessage :: "ReadMessageBuffer \<Rightarrow> ReadMessageBuffer" where
  "priv_finishMessage s =
     s\<lparr>curMessageLen := 0, curMessageLenUnread := 0, curMessageReady := False, curMessageType := 0\<rparr>"

text \<open>
  The loop of \<open>__readBufferCopy\<close>.  Both calls of \<open>copy\<close> pass a byte count where
  \<open>Buffer.copy\<close> takes the end index in the source: \<open>nread\<close>, then \<open>size\<close>.
\<close>

function readBufferCopy_loop ::
    "byte list \<Rightarrow> int \<Rightarrow> byte list \<Rightarrow> int \<Rightarrow> ReadMessageBuffer \<Rightarrow> (error + byte list) \<times> ReadMessageBuffer" where
  "readBufferCopy_loop ret retPos b size' s =
     (if len0 s < pos0 s + size'
      then
        let nread = len0 s - pos0 s
        in case Buffer_copy b ret retPos (pos0 s) nread of
             Inl e \<Rightarrow> (Inl e, s)
           | Inr ret' \<Rightarrow>
               (case ensureFirstBuf (s\<lparr>pos0 := len0 s, len := len s - nread\<rparr>) of
                  (Inl e, s2) \<Rightarrow> (Inl e, s2)
                | (Inr b', s2) \<Rightarrow> readBufferCopy_loop ret' (retPos + nread) b' (size' - nread) s2)
      else
        case Buffer_copy b ret retPos (pos0 s) size' of
          Inl e \<Rightarrow> (Inl e, s)
        | Inr ret' \<Rightarrow> (Inr ret', s\<lparr>pos0 := pos0 s + size', len := len s - size'\<rparr>))"
  by pat_completeness auto
termination
  by (relation "measure (\<lambda>(ret, retPos, b, size', s). length (bufs s))")
     (auto dest: ensureFirstBuf_at_end)

text \<open>\<open>Buffer.allocUnsafe\<close> raises on a negative size.\<close>

definition readBufferCopy ::
    "(nat \<Rightarrow> byte) \<Rightarrow> byte list \<Rightarrow> int \<Rightarrow> ReadMessageBuffer \<Rightarrow> (error + byte list) \<times> ReadMessageBuffer" where
  "readBufferCopy junk b size' s =
     (if size' < 0 then (Inl (RangeError ''ERR_INVALID_ARG_VALUE''), s)
      else readBufferCopy_loop (allocUnsafe junk (nat size')) 0 b size' s)"

definition priv_readBuffer ::
    "(nat \<Rightarrow> byte) \<Rightarrow> int \<Rightarrow> ReadMessageBuffer \<Rightarrow> (error + byte list) \<times> ReadMessageBuffer" where
  "priv_readBuffer junk size' s0 =
     (case ensureFirstBuf s0 of
        (Inl e, s) \<Rightarrow> (Inl e, s)
      | (Inr b, s) \<Rightarrow>
          if size' = 0 then (Inr EMPTY_BUFFER, s)
          else if pos0 s + size' < len0 s
          then (Inr (Buffer_slice b (pos0 s) (pos0 s + size')),
                s\<lparr>pos0 := pos0 s + size', len := len s - size'\<rparr>)
          else readBufferCopy junk b size' s)"

definition readBuffer ::
    "(nat \<Rightarrow> byte) \<Rightarrow> int \<Rightarrow> ReadMessageBuffer \<Rightarrow> (error + byte list) \<times> ReadMessageBuffer" where
  "readBuffer junk size' s0 =
     (case checkOverread size' s0 of
        Inl e \<Rightarrow> (Inl e, s0)
      | Inr _ \<Rightarrow>
          (case priv_readBuffer junk size' s0 of
             (Inl e, s) \<Rightarrow> (Inl e, s)
           | (Inr buf, s) \<Rightarrow> (Inr buf, s\<lparr>curMessageLenUnread := curMessageLenUnread s - size'\<rparr>)))"

text \<open>\<open>readUUID\<close> gives the sixteen bytes; the source renders them as 32 hex digits.\<close>

definition readUUID :: "(nat \<Rightarrow> byte) \<Rightarrow> ReadMessageBuffer \<Rightarrow> (error + byte list) \<times> ReadMessageBuffer" where
  "readUUID junk s = readBuffer junk 16 s"

definition readChar :: "ReadMessageBuffer \<Rightarrow> (error + int) \<times> ReadMessageBuffer" where
  "readChar s0 =
     (case checkOverread 1 s0 of
        Inl e \<Rightarrow> (Inl e, s0)
      | Inr _ \<Rightarrow>
          (case ensureFirstBuf s0 of
             (Inl e, s) \<Rightarrow> (Inl e, s)
           | (Inr b, s) \<Rightarrow>
               (case readUInt8 b (pos0 s) of
                  Inl e \<Rightarrow> (Inl e, s)
                | Inr ret \<Rightarrow>
                    (Inr ret, s\<lparr>pos0 := pos0 s + 1,
                                curMessageLenUnread := curMessageLenUnread s - 1,
                                len := len s - 1\<rparr>))))"

text \<open>
  \<open>readInt16\<close>, \<open>readInt32\<close>, \<open>readUInt16\<close> and \<open>readUInt32\<close> share one shape: the
  overread check, then the Buffer reader on the first chunk when the bytes end strictly
  before the end of that chunk, and \<open>_readBuffer\<close> otherwise.
\<close>

definition rm_readNumber :: "(nat \<Rightarrow> byte) \<Rightarrow> int \<Rightarrow> (byte list \<Rightarrow> int \<Rightarrow> error + int)
    \<Rightarrow> ReadMessageBuffer \<Rightarrow> (error + int) \<times> ReadMessageBuffer" where
  "rm_readNumber junk n reader s0 =
     (case checkOverread n s0 of
        Inl e \<Rightarrow> (Inl e, s0)
      | Inr _ \<Rightarrow>
          (case ensureFirstBuf s0 of
             (Inl e, s) \<Rightarrow> (Inl e, s)
           | (Inr b, s) \<Rightarrow>
               if pos0 s + n < len0 s
               then (case reader b (pos0 s) of
                       Inl e \<Rightarrow> (Inl e, s)
                     | Inr ret \<Rightarrow>
                         (Inr ret, s\<lparr>pos0 := pos0 s + n,
                                     curMessageLenUnread := curMessageLenUnread s - n,
                                     len := len s - n\<rparr>))
               else (case priv_readBuffer junk n s of
                       (Inl e, s1) \<Rightarrow> (Inl e, s1)
                     | (Inr buf, s1) \<Rightarrow>
                         (let s2 = s1\<lparr>curMessageLenUnread := curMessageLenUnread s1 - n\<rparr>
                          in case reader buf 0 of Inl e \<Rightarrow> (Inl e, s2) | Inr ret \<Rightarrow> (Inr ret, s2)))))"

definition readInt16 :: "(nat \<Rightarrow> byte) \<Rightarrow> ReadMessageBuffer \<Rightarrow> (error + int) \<times> ReadMessageBuffer" where
  "readInt16 junk = rm_readNumber junk 2 readInt16BE"

definition readInt32 :: "(nat \<Rightarrow> byte) \<Rightarrow> ReadMessageBuffer \<Rightarrow> (error + int) \<times> ReadMessageBuffer" where
  "readInt32 junk = rm_readNumber junk 4 readInt32BE"

definition readUInt16 :: "(nat \<Rightarrow> byte) \<Rightarrow> ReadMessageBuffer \<Rightarrow> (error + int) \<times> ReadMessageBuffer" where
  "readUInt16 junk = rm_readNumber junk 2 readUInt16BE"

definition readUInt32 :: "(nat \<Rightarrow> byte) \<Rightarrow> ReadMessageBuffer \<Rightarrow> (error + int) \<times> ReadMessageBuffer" where
  "readUInt32 junk = rm_readNumber junk 4 readUInt32BE"

text \<open>\<open>readString\<close> gives the bytes of the string; the source decodes them as UTF-8.\<close>

definition readString :: "(nat \<Rightarrow> byte) \<Rightarrow> ReadMessageBuffer \<Rightarrow> (error + byte list) \<times> ReadMessageBuffer" where
  "readString junk s0 =
     (case readInt32 junk s0 of
        (Inl e, s) \<Rightarrow> (Inl e, s)
      | (Inr n, s) \<Rightarrow> readBuffer junk n s)"

definition readLenPrefixedBuffer :: "(nat \<Rightarrow> byte) \<Rightarrow> ReadMessageBuffer \<Rightarrow> (error + byte list) \<times> ReadMessageBuffer" where
  "readLenPrefixedBuffer junk s0 =
     (case readInt32 junk s0 of
        (Inl e, s) \<Rightarrow> (Inl e, s)
      | (Inr n, s) \<Rightarrow> readBuffer junk n s)"

text \<open>\<open>takeMessage\<close>, in its three steps: the tag, the length, the readiness test.\<close>

definition takeMessage_type :: "ReadMessageBuffer \<Rightarrow> (error + bool) \<times> ReadMessageBuffer" where
  "takeMessage_type s0 =
     (if curMessageType s0 = 0
      then
        if len s0 < 1 then (Inr False, s0)
        else (case ensureFirstBuf s0 of
                (Inl e, s) \<Rightarrow> (Inl e, s)
              | (Inr b, s) \<Rightarrow>
                  (case readUInt8 b (pos0 s) of
                     Inl e \<Rightarrow> (Inl e, s)
                   | Inr t \<Rightarrow> (Inr True, s\<lparr>curMessageType := t, pos0 := pos0 s + 1, len := len s - 1\<rparr>)))
      else (Inr True, s0))"

definition takeMessage_length :: "(nat \<Rightarrow> byte) \<Rightarrow> ReadMessageBuffer \<Rightarrow> (error + bool) \<times> ReadMessageBuffer" where
  "takeMessage_length junk s0 =
     (if curMessageLen s0 = 0
      then
        if len s0 < 4 then (Inr False, s0)
        else (case ensureFirstBuf s0 of
                (Inl e, s) \<Rightarrow> (Inl e, s)
              | (Inr b, s) \<Rightarrow>
                  (case (if pos0 s + 4 < len0 s
                         then (case readInt32BE b (pos0 s) of
                                 Inl e \<Rightarrow> (Inl e, s)
                               | Inr n \<Rightarrow> (Inr (), s\<lparr>curMessageLen := n, pos0 := pos0 s + 4, len := len s - 4\<rparr>))
                         else (case priv_readBuffer junk 4 s of
                                 (Inl e, s1) \<Rightarrow> (Inl e, s1)
                               | (Inr buf, s1) \<Rightarrow>
                                   (case readInt32BE buf 0 of
                                      Inl e \<Rightarrow> (Inl e, s1)
                                    | Inr n \<Rightarrow> (Inr (), s1\<lparr>curMessageLen := n\<rparr>)))) of
                     (Inl e, s2) \<Rightarrow> (Inl e, s2)
                   | (Inr _, s2) \<Rightarrow> (Inr True, s2\<lparr>curMessageLenUnread := curMessageLen s2 - 4\<rparr>)))
      else (Inr True, s0))"

definition takeMessage :: "(nat \<Rightarrow> byte) \<Rightarrow> ReadMessageBuffer \<Rightarrow> (error + bool) \<times> ReadMessageBuffer" where
  "takeMessage junk s0 =
     (if curMessageReady s0 then (Inr True, s0)
      else
        case takeMessage_type s0 of
          (Inl e, s1) \<Rightarrow> (Inl e, s1)
        | (Inr False, s1) \<Rightarrow> (Inr False, s1)
        | (Inr True, s1) \<Rightarrow>
            (case takeMessage_length junk s1 of
               (Inl e, s2) \<Rightarrow> (Inl e, s2)
             | (Inr False, s2) \<Rightarrow> (Inr False, s2)
             | (Inr True, s2) \<Rightarrow>
                 if len s2 < curMessageLenUnread s2 then (Inr False, s2)
                 else (Inr True, s2\<lparr>curMessageReady := True\<rparr>)))"

definition getMessageType :: "ReadMessageBuffer \<Rightarrow> int" where
  "getMessageType s = curMessageType s"

definition takeMessageType :: "(nat \<Rightarrow> byte) \<Rightarrow> int \<Rightarrow> ReadMessageBuffer \<Rightarrow> (error + bool) \<times> ReadMessageBuffer" where
  "takeMessageType junk mtype s0 =
     (if curMessageReady s0 then (Inr (curMessageType s0 = mtype), s0)
      else if 1 \<le> len s0
      then (case ensureFirstBuf s0 of
              (Inl e, s) \<Rightarrow> (Inl e, s)
            | (Inr b, s) \<Rightarrow>
                (case readUInt8 b (pos0 s) of
                   Inl e \<Rightarrow> (Inl e, s)
                 | Inr unreadMessageType \<Rightarrow>
                     if mtype = unreadMessageType then takeMessage junk s else (Inr False, s)))
      else (Inr False, s0))"

definition putMessage :: "ReadMessageBuffer \<Rightarrow> (error + unit) \<times> ReadMessageBuffer" where
  "putMessage s =
     (if \<not> curMessageReady s then (Inl (BufferError ''cannot put message: no message taken''), s)
      else if curMessageLenUnread s \<noteq> curMessageLen s - 4
      then (Inl (BufferError ''cannot put message: message is partially read''), s)
      else (Inr (), s\<lparr>curMessageReady := False\<rparr>))"


definition consumeMessage :: "(nat \<Rightarrow> byte) \<Rightarrow> ReadMessageBuffer \<Rightarrow> (error + byte list) \<times> ReadMessageBuffer" where
  "consumeMessage junk s0 =
     (if \<not> curMessageReady s0 then (Inl (BufferError ''no message to consume''), s0)
      else
        case (if 0 < curMessageLenUnread s0
              then (case priv_readBuffer junk (curMessageLenUnread s0) s0 of
                      (Inl e, s) \<Rightarrow> (Inl e, s)
                    | (Inr buf, s) \<Rightarrow> (Inr buf, s\<lparr>curMessageLenUnread := 0\<rparr>))
              else (Inr EMPTY_BUFFER, s0)) of
          (Inl e, s) \<Rightarrow> (Inl e, s)
        | (Inr buf, s) \<Rightarrow> (Inr buf, priv_finishMessage s))"

definition finishMessage :: "ReadMessageBuffer \<Rightarrow> (error + unit) \<times> ReadMessageBuffer" where
  "finishMessage s =
     (if curMessageType s = 0 \<or> \<not> curMessageReady s then (Inr (), s)
      else if curMessageLenUnread s \<noteq> 0
      then (Inl (BufferError (''cannot finishMessage: unread data in message '' @ [CHR 0x22]
                    @ [char_of (curMessageType s)] @ [CHR 0x22])), s)
      else (Inr (), priv_finishMessage s))"

declare readBufferCopy_loop.simps [simp del]

text \<open>
  Chunks arriving one at a time, as in \<open>onData\<close> of client.ts: each chunk is fed, then
  \<open>takeMessage()\<close> is tried.  The answers of \<open>takeMessage\<close> are collected in order.
\<close>

fun feed_and_take :: "(nat \<Rightarrow> byte) \<Rightarrow> byte list list \<Rightarrow> ReadMessageBuffer
    \<Rightarrow> (error + bool) list \<times> ReadMessageBuffer" where
  "feed_and_take junk [] s = ([], s)"
| "feed_and_take junk (c # cs) s =
     (case feed c s of
        (Inl e, s1) \<Rightarrow> ([Inl e], s1)
      | (Inr _, s1) \<Rightarrow>
          (case takeMessage junk s1 of
             (r, s2) \<Rightarrow> (case feed_and_take junk cs s2 of (rs, s3) \<Rightarrow> (r # rs, s3))))"

section \<open>ReadBuffer (buffer.ts)\<close>

record ReadBuffer =
  rb_buffer :: "byte list"
  rb_pos :: int
  rb_len :: int

definition new_ReadBuffer :: "byte list \<Rightarrow> ReadBuffer" where
  "new_ReadBuffer buf = \<lparr>rb_buffer = buf, rb_pos = 0, rb_len = int (length buf)\<rparr>"

definition rb_length :: "ReadBuffer \<Rightarrow> int" where
  "rb_length rb = rb_len rb - rb_pos rb"

definition rb_discard :: "int \<Rightarrow> ReadBuffer \<Rightarrow> (error + unit) \<times> ReadBuffer" where
  "rb_discard size' rb =
     (if rb_len rb < rb_pos rb + size' then (Inl (BufferError ''buffer overread''), rb)
      else (Inr (), rb\<lparr>rb_pos := rb_pos rb + size'\<rparr>))"

text \<open>
  The integer readers of ReadBuffer share one shape: the overread check against
  \<open>len\<close>, the Buffer reader at \<open>pos\<close>, then \<open>pos\<close> advanced by the width.
\<close>

definition rb_readNumber :: "int \<Rightarrow> (byte list \<Rightarrow> int \<Rightarrow> error + int) \<Rightarrow> ReadBuffer \<Rightarrow> (error + int) \<times> ReadBuffer" where
  "rb_readNumber n reader rb =
     (if rb_len rb < rb_pos rb + n then (Inl (BufferError ''buffer overread''), rb)
      else case reader (rb_buffer rb) (rb_pos rb) of
             Inl e \<Rightarrow> (Inl e, rb)
           | Inr num \<Rightarrow> (Inr num, rb\<lparr>rb_pos := rb_pos rb + n\<rparr>))"

definition rb_readUInt8 :: "ReadBuffer \<Rightarrow> (error + int) \<times> ReadBuffer" where
  "rb_readUInt8 = rb_readNumber 1 readUInt8"

definition rb_readUInt16 :: "ReadBuffer \<Rightarrow> (error + int) \<times> ReadBuffer" where
  "rb_readUInt16 = rb_readNumber 2 readUInt16BE"

definition rb_readInt8 :: "ReadBuffer \<Rightarrow> (error + int) \<times> ReadBuffer" where
  "rb_readInt8 = rb_readNumber 1 readInt8"

definition rb_readInt16 :: "ReadBuffer \<Rightarrow> (error + int) \<times> ReadBuffer" where
  "rb_readInt16 = rb_readNumber 2 readInt16BE"

definition rb_readInt32 :: "ReadBuffer \<Rightarrow> (error + int) \<times> ReadBuffer" where
  "rb_readInt32 = rb_readNumber 4 readInt32BE"

definition rb_readUInt32 :: "ReadBuffer \<Rightarrow> (error + int) \<times> ReadBuffer" where
  "rb_readUInt32 = rb_readNumber 4 readUInt32BE"

definition rb_readUUID :: "ReadBuffer \<Rightarrow> (error + byte list) \<times> ReadBuffer" where
  "rb_readUUID rb =
     (if rb_len rb < rb_pos rb + 16 then (Inl (BufferError ''buffer overread''), rb)
      else (Inr (Buffer_slice (rb_buffer rb) (rb_pos rb) (rb_pos rb + 16)), rb\<lparr>rb_pos := rb_pos rb + 16\<rparr>))"


text \<open>\<open>consumeInto(frb, size)\<close>: the narrowed reader \<open>frb\<close> and the reader itself after the call.\<close>

definition rb_consumeInto :: "int \<Rightarrow> ReadBuffer \<Rightarrow> ReadBuffer \<times> ReadBuffer" where
  "rb_consumeInto size' rb =
     (\<lparr>rb_buffer = rb_buffer rb, rb_pos = rb_pos rb, rb_len = rb_pos rb + size'\<rparr>,
      rb\<lparr>rb_pos := rb_pos rb + size'\<rparr>)"

definition ReadBuffer_init :: "byte list \<Rightarrow> ReadBuffer" where
  "ReadBuffer_init buffer = \<lparr>rb_buffer = buffer, rb_pos = 0, rb_len = int (length buffer)\<rparr>"

definition ReadBuffer_slice :: "byte list \<Rightarrow> int \<Rightarrow> int \<Rightarrow> ReadBuffer" where
  "ReadBuffer_slice buffer pos' len' = \<lparr>rb_buffer = buffer, rb_pos = pos', rb_len = len'\<rparr>"

definition ReadBuffer_alloc :: ReadBuffer where
  "ReadBuffer_alloc = new_ReadBuffer EMPTY_BUFFER"

definition consumeMessageInto :: "(nat \<Rightarrow> byte) \<Rightarrow> ReadMessageBuffer \<Rightarrow> (error + ReadBuffer) \<times> ReadMessageBuffer" where
  "consumeMessageInto junk s0 =
     (if \<not> curMessageReady s0 then (Inl (BufferError ''no message to consume''), s0)
      else
        case (if 0 < curMessageLenUnread s0
              then
                (case (if pos0 s0 + curMessageLenUnread s0 < len0 s0
                       then (let len' = pos0 s0 + curMessageLenUnread s0
                             in (Inr (ReadBuffer_slice (case buf0 s0 of Some b \<Rightarrow> b | None \<Rightarrow> []) (pos0 s0) len'),
                                 s0\<lparr>pos0 := len', len := len s0 - curMessageLenUnread s0\<rparr>))
                       else (case priv_readBuffer junk (curMessageLenUnread s0) s0 of
                               (Inl e, s) \<Rightarrow> (Inl e, s)
                             | (Inr buf, s) \<Rightarrow> (Inr (ReadBuffer_init buf), s))) of
                   (Inl e, s) \<Rightarrow> (Inl e, s)
                 | (Inr frb, s) \<Rightarrow> (Inr frb, s\<lparr>curMessageLenUnread := 0\<rparr>))
              else (Inr (ReadBuffer_init EMPTY_BUFFER), s0)) of
          (Inl e, s) \<Rightarrow> (Inl e, s)
        | (Inr frb, s) \<Rightarrow> (Inr frb, priv_finishMessage s))"

section \<open>The integer codecs (codecs/numbers.ts)\<close>

text \<open>
  JavaScript's \<open>a >> n\<close> and \<open>a & b\<close> work on the operands taken to signed 32-bit
  integers; \<open>>>\<close> uses the shift count modulo 32.
\<close>

definition js_shr :: "int \<Rightarrow> int \<Rightarrow> int" where
  "js_shr a n = sint (signed_drop_bit (nat (n mod 32)) (word_of_int a :: 32 word))"

definition js_and :: "int \<Rightarrow> int \<Rightarrow> int" where
  "js_and a b = sint ((word_of_int a :: 32 word) AND word_of_int b)"

text \<open>
  \<open>Number(x)\<close> of a BigInt: the nearest double, ties to even.  An integer of at most 53
  bits is kept; a longer one keeps its 53 leading bits, rounded.
\<close>

function bit_length :: "int \<Rightarrow> nat" where
  "bit_length n = (if n \<le> 0 then 0 else Suc (bit_length (n div 2)))"
  by pat_completeness auto
termination
  by (relation "measure nat") auto

declare bit_length.simps [simp del]

definition Number_of_BigInt :: "int \<Rightarrow> int" where
  "Number_of_BigInt x =
     (let a = \<bar>x\<bar>; n = bit_length a
      in if n \<le> 53 then x
         else
           let sh = n - 53; q = a div 2 ^ sh; r = a mod 2 ^ sh; h = 2 ^ (sh - 1);
               q' = (if h < r \<or> (r = h \<and> odd q) then q + 1 else q)
           in sgn x * (q' * 2 ^ sh))"

definition Int64Codec_encode :: "(nat \<Rightarrow> byte) \<Rightarrow> int \<Rightarrow> WriteBuffer \<Rightarrow> (error + unit) \<times> WriteBuffer" where
  "Int64Codec_encode junk val b0 =
     (case wb_writeInt32 junk 8 b0 of
        (Inl e, b1) \<Rightarrow> (Inl e, b1)
      | (Inr _, b1) \<Rightarrow>
          (case wb_writeInt32 junk (js_shr val 32) b1 of
             (Inl e, b2) \<Rightarrow> (Inl e, b2)
           | (Inr _, b2) \<Rightarrow> wb_writeInt32 junk (js_and val 4294967295) b2))"

definition Int64Codec_decode :: "ReadBuffer \<Rightarrow> (error + int) \<times> ReadBuffer" where
  "Int64Codec_decode b0 =
     (case rb_readInt32 b0 of
        (Inl e, b1) \<Rightarrow> (Inl e, b1)
      | (Inr hi, b1) \<Rightarrow>
          (case rb_readInt32 b1 of
             (Inl e, b2) \<Rightarrow> (Inl e, b2)
           | (Inr lo, b2) \<Rightarrow>
               if hi = 0 then (Inr lo, b2)
               else (Inr (Number_of_BigInt (push_bit 32 hi OR lo)), b2)))"

definition Int32Codec_encode :: "(nat \<Rightarrow> byte) \<Rightarrow> int \<Rightarrow> WriteBuffer \<Rightarrow> (error + unit) \<times> WriteBuffer" where
  "Int32Codec_encode junk object b0 =
     (case wb_writeInt32 junk 4 b0 of
        (Inl e, b1) \<Rightarrow> (Inl e, b1)
      | (Inr _, b1) \<Rightarrow> wb_writeInt32 junk object b1)"

definition Int32Codec_decode :: "ReadBuffer \<Rightarrow> (error + int) \<times> ReadBuffer" where
  "Int32Codec_decode buf = rb_readInt32 buf"

definition Int16Codec_encode :: "(nat \<Rightarrow> byte) \<Rightarrow> int \<Rightarrow> WriteBuffer \<Rightarrow> (error + unit) \<times> WriteBuffer" where
  "Int16Codec_encode junk object b0 =
     (case wb_writeInt32 junk 2 b0 of
        (Inl e, b1) \<Rightarrow> (Inl e, b1)
      | (Inr _, b1) \<Rightarrow> wb_writeInt16 junk object b1)"

definition Int16Codec_decode :: "ReadBuffer \<Rightarrow> (error + int) \<times> ReadBuffer" where
  "Int16Codec_decode buf = rb_readInt16 buf"

text \<open>
  A round trip: the codec encodes into a fresh WriteBuffer; the bytes written
  (\<open>unwrap()\<close>) go to a ReadBuffer, the caller consumes the four-byte length prefix and
  narrows the reader to that many bytes (\<open>consumeInto\<close>), and the codec decodes from the
  narrowed reader.
\<close>

definition encoded :: "(WriteBuffer \<Rightarrow> (error + unit) \<times> WriteBuffer) \<Rightarrow> (nat \<Rightarrow> byte) \<Rightarrow> error + byte list" where
  "encoded enc junk =
     (case enc (new_WriteBuffer junk) of
        (Inl e, _) \<Rightarrow> Inl e
      | (Inr _, wb) \<Rightarrow> Inr (wb_unwrap wb))"

definition decode_value :: "(ReadBuffer \<Rightarrow> (error + int) \<times> ReadBuffer) \<Rightarrow> byte list \<Rightarrow> error + int" where
  "decode_value dec bytes =
     (case rb_readInt32 (new_ReadBuffer bytes) of
        (Inl e, _) \<Rightarrow> Inl e
      | (Inr n, rb) \<Rightarrow> fst (dec (fst (rb_consumeInto n rb))))"

definition round_trip :: "(WriteBuffer \<Rightarrow> (error + unit) \<times> WriteBuffer)
    \<Rightarrow> (ReadBuffer \<Rightarrow> (error + int) \<times> ReadBuffer) \<Rightarrow> (nat \<Rightarrow> byte) \<Rightarrow> error + int" where
  "round_trip enc dec junk =
     (case encoded enc junk of Inl e \<Rightarrow> Inl e | Inr bytes \<Rightarrow> decode_value dec bytes)"

section \<open>The connection-configuration resolver (con_utils.ts)\<close>

text \<open>
  What the resolver takes from outside the repository's sources is gathered in one
  record: the process environment, the file system, the URL parser of the platform, and
  the helpers of \<open>./credentials\<close> and \<open>./platform\<close>.  \<open>new_URL\<close> gives no URL where
  the constructor raises.  \<open>findProjectDir\<close> is the directory the upward search for
  \<open>edgedb.toml\<close> ends with.  Numbers are integers; output to the console is left out.
\<close>

record URL =
  url_protocol :: string
  url_username :: string
  url_password :: string
  url_hostname :: string
  url_port :: string
  url_pathname :: string
  url_searchParams :: "(string \<times> string) list"

record Credentials =
  cr_host :: "string option"
  cr_port :: "int option"
  cr_database :: "string option"
  cr_user :: "string option"
  cr_password :: "string option"
  cr_tlsCAData :: "string option"
  cr_tlsVerifyHostname :: "bool option"

record World =
  process_env :: "string \<Rightarrow> string option"
  readFileUtf8Sync :: "string \<Rightarrow> error + string"
  new_URL :: "string \<Rightarrow> URL option"
  getCredentialsPath :: "string \<Rightarrow> string"
  readCredentialsFile :: "string \<Rightarrow> error + Credentials"
  findProjectDir :: "string option"
  stashPath :: "string \<Rightarrow> string"
  existsSync :: "string \<Rightarrow> bool"
  path_join :: "string \<Rightarrow> string \<Rightarrow> string"

datatype port_value = PortNumber int | PortString string

datatype verify_value = VerifyBool bool | VerifyString string

record ConnectConfig =
  cc_dsn :: "string option"
  cc_credentialsFile :: "string option"
  cc_host :: "string option"
  cc_port :: "int option"
  cc_database :: "string option"
  cc_user :: "string option"
  cc_password :: "string option"
  cc_serverSettings :: "(string \<rightharpoonup> string) option"
  cc_tlsCAFile :: "string option"
  cc_tlsVerifyHostname :: "bool option"
  cc_timeout :: "int option"
  cc_commandTimeout :: "int option"
  cc_waitUntilAvailable :: "int option"
  cc_logging :: "bool option"

text \<open>
  ResolvedConnectConfig: the field \<open>_host\<close> is \<open>u_host\<close> here, and so on.  \<open>None\<close> is
  \<open>null\<close> (for a source label also \<open>undefined\<close>).
\<close>

record ResolvedConnectConfig =
  u_host :: "string option"
  u_hostSource :: "string option"
  u_port :: "int option"
  u_portSource :: "string option"
  u_database :: "string option"
  u_databaseSource :: "string option"
  u_user :: "string option"
  u_userSource :: "string option"
  u_password :: "string option"
  u_passwordSource :: "string option"
  u_tlsCAData :: "string option"
  u_tlsCADataSource :: "string option"
  u_tlsVerifyHostname :: "bool option"
  u_tlsVerifyHostnameSource :: "string option"
  serverSettings :: "string \<rightharpoonup> string"

definition new_ResolvedConnectConfig :: ResolvedConnectConfig where
  "new_ResolvedConnectConfig =
     \<lparr>u_host = None, u_hostSource = None, u_port = None, u_portSource = None,
      u_database = None, u_databaseSource = None, u_user = None, u_userSource = None,
      u_password = None, u_passwordSource = None, u_tlsCAData = None, u_tlsCADataSource = None,
      u_tlsVerifyHostname = None, u_tlsVerifyHostnameSource = None, serverSettings = Map.empty\<rparr>"

definition quoted :: "string \<Rightarrow> string" where
  "quoted s = [CHR 0x27] @ s @ [CHR 0x27]"

text \<open>
  \<open>_setParam(param, value, source, validator)\<close>: the field is given by its selector and
  its two update functions.  The source label is stored before the validator runs.
\<close>

definition setParam ::
    "(ResolvedConnectConfig \<Rightarrow> 'a option)
     \<Rightarrow> (('a option \<Rightarrow> 'a option) \<Rightarrow> ResolvedConnectConfig \<Rightarrow> ResolvedConnectConfig)
     \<Rightarrow> ((string option \<Rightarrow> string option) \<Rightarrow> ResolvedConnectConfig \<Rightarrow> ResolvedConnectConfig)
     \<Rightarrow> 'v option \<Rightarrow> string option \<Rightarrow> ('v \<Rightarrow> error + 'a)
     \<Rightarrow> ResolvedConnectConfig \<Rightarrow> (error + bool) \<times> ResolvedConnectConfig" where
  "setParam param param_update source_update v source validator c =
     (if param c = None
      then
        let c1 = source_update (\<lambda>_. source) c
        in case v of
             None \<Rightarrow> (Inr False, c1)
           | Some x \<Rightarrow>
               (case validator x of
                  Inl e \<Rightarrow> (Inl e, c1)
                | Inr y \<Rightarrow> (Inr True, param_update (\<lambda>_. Some y) c1))
      else (Inr False, c))"

definition toLowerCase :: "string \<Rightarrow> string" where
  "toLowerCase s =
     map (\<lambda>c. if 65 \<le> (of_char c :: nat) \<and> (of_char c :: nat) \<le> 90
              then char_of (of_char c + (32::nat)) else c) s"

definition parseVerifyHostname :: "string \<Rightarrow> error + bool" where
  "parseVerifyHostname s =
     (let l = toLowerCase s
      in if l \<in> set [''true'', ''t'', ''yes'', ''y'', ''on'', ''1''] then Inr True
         else if l \<in> set [''false'', ''f'', ''no'', ''n'', ''off'', ''0''] then Inr False
         else Inl (Error (''invalid tls_verify_hostname value: '' @ s)))"

definition is_digit :: "char \<Rightarrow> bool" where
  "is_digit c = (48 \<le> (of_char c :: nat) \<and> (of_char c :: nat) \<le> 57)"

definition is_alpha :: "char \<Rightarrow> bool" where
  "is_alpha c =
     ((97 \<le> (of_char c :: nat) \<and> (of_char c :: nat) \<le> 122) \<or> (65 \<le> (of_char c :: nat) \<and> (of_char c :: nat) \<le> 90))"

text \<open>\<open>parseInt(s, 10)\<close> of a string of decimal digits.\<close>

definition parseInt :: "string \<Rightarrow> int" where
  "parseInt s = foldl (\<lambda>acc c. 10 * acc + (int (of_char c) - 48)) 0 s"

text \<open>The decimal text of an integer, as a template string renders a number.\<close>

function decimal_nat :: "nat \<Rightarrow> string" where
  "decimal_nat n =
     (if n < 10 then [char_of (48 + n)] else decimal_nat (n div 10) @ [char_of (48 + n mod 10)])"
  by pat_completeness auto
termination
  by (relation "measure id") auto

declare decimal_nat.simps [simp del]

definition decimal :: "int \<Rightarrow> string" where
  "decimal i = (if i < 0 then ''-'' @ decimal_nat (nat (- i)) else decimal_nat (nat i))"

definition port_text :: "port_value \<Rightarrow> string" where
  "port_text p = (case p of PortString s \<Rightarrow> s | PortNumber n \<Rightarrow> decimal n)"

definition parseValidatePort :: "port_value \<Rightarrow> error + int" where
  "parseValidatePort port' =
     (case (case port' of
              PortString s \<Rightarrow>
                if \<not> list_all is_digit s then Inl (Error (''invalid port: '' @ s))
                else if s = [] then Inl (Error (''invalid port: '' @ s))
                else Inr (parseInt s)
            | PortNumber n \<Rightarrow> Inr n) of
        Inl e \<Rightarrow> Inl e
      | Inr parsedPort \<Rightarrow>
          if parsedPort < 1 \<or> 65535 < parsedPort then Inl (Error (''invalid port: '' @ port_text port'))
          else Inr parsedPort)"

definition validateHost :: "string \<Rightarrow> error + string" where
  "validateHost host =
     (if CHR ''/'' \<in> set host then Inl (Error ''unix socket paths not supported'')
      else if length host = 0 \<or> CHR '','' \<in> set host then Inl (Error (''invalid host: '' @ quoted host))
      else Inr host)"

definition setHost :: "string option \<Rightarrow> string option \<Rightarrow> ResolvedConnectConfig \<Rightarrow> (error + bool) \<times> ResolvedConnectConfig" where
  "setHost host source = setParam u_host u_host_update u_hostSource_update host source validateHost"

definition setPort :: "port_value option \<Rightarrow> string option \<Rightarrow> ResolvedConnectConfig \<Rightarrow> (error + bool) \<times> ResolvedConnectConfig" where
  "setPort port' source = setParam u_port u_port_update u_portSource_update port' source parseValidatePort"

definition setDatabase :: "string option \<Rightarrow> string option \<Rightarrow> ResolvedConnectConfig \<Rightarrow> (error + bool) \<times> ResolvedConnectConfig" where
  "setDatabase database' source =
     setParam u_database u_database_update u_databaseSource_update database' source
       (\<lambda>db. if db = [] then Inl (Error (''invalid database name: '' @ quoted db)) else Inr db)"

definition setUser :: "string option \<Rightarrow> string option \<Rightarrow> ResolvedConnectConfig \<Rightarrow> (error + bool) \<times> ResolvedConnectConfig" where
  "setUser user' source =
     setParam u_user u_user_update u_userSource_update user' source
       (\<lambda>u. if u = [] then Inl (Error (''invalid user name: '' @ quoted u)) else Inr u)"

definition setPassword :: "string option \<Rightarrow> string option \<Rightarrow> ResolvedConnectConfig \<Rightarrow> (error + bool) \<times> ResolvedConnectConfig" where
  "setPassword password' source =
     setParam u_password u_password_update u_passwordSource_update password' source Inr"

definition setTlsCAData :: "string option \<Rightarrow> string option \<Rightarrow> ResolvedConnectConfig \<Rightarrow> (error + bool) \<times> ResolvedConnectConfig" where
  "setTlsCAData caData source =
     setParam u_tlsCAData u_tlsCAData_update u_tlsCADataSource_update caData source Inr"

definition setTlsCAFile :: "World \<Rightarrow> string option \<Rightarrow> string option \<Rightarrow> ResolvedConnectConfig \<Rightarrow> (error + bool) \<times> ResolvedConnectConfig" where
  "setTlsCAFile w caFile source =
     setParam u_tlsCAData u_tlsCAData_update u_tlsCADataSource_update caFile source (readFileUtf8Sync w)"

definition setTlsVerifyHostname :: "verify_value option \<Rightarrow> string option \<Rightarrow> ResolvedConnectConfig \<Rightarrow> (error + bool) \<times> ResolvedConnectConfig" where
  "setTlsVerifyHostname verifyHostname source =
     setParam u_tlsVerifyHostname u_tlsVerifyHostname_update u_tlsVerifyHostnameSource_update
       verifyHostname source
       (\<lambda>verifyHN. case verifyHN of VerifyBool b \<Rightarrow> Inr b | VerifyString s \<Rightarrow> parseVerifyHostname s)"

text \<open>
  An object with string keys is a map from keys to values.  The spread
  \<open>{...settings, ...this.serverSettings}\<close> takes each key from \<open>this.serverSettings\<close>
  where it has it, and from \<open>settings\<close> otherwise.
\<close>

definition addServerSettings :: "(string \<rightharpoonup> string) \<Rightarrow> ResolvedConnectConfig \<Rightarrow> ResolvedConnectConfig" where
  "addServerSettings settings c = c\<lparr>serverSettings := settings ++ serverSettings c\<rparr>"

definition address :: "ResolvedConnectConfig \<Rightarrow> string \<times> int" where
  "address c =
     (case u_host c of None \<Rightarrow> ''localhost'' | Some h \<Rightarrow> h,
      case u_port c of None \<Rightarrow> 5656 | Some p \<Rightarrow> p)"

definition database :: "ResolvedConnectConfig \<Rightarrow> string" where
  "database c = (case u_database c of None \<Rightarrow> ''edgedb'' | Some d \<Rightarrow> d)"

definition user :: "ResolvedConnectConfig \<Rightarrow> string" where
  "user c = (case u_user c of None \<Rightarrow> ''edgedb'' | Some u \<Rightarrow> u)"

definition password :: "ResolvedConnectConfig \<Rightarrow> string option" where
  "password c = u_password c"

definition tlsVerifyHostname :: "ResolvedConnectConfig \<Rightarrow> bool" where
  "tlsVerifyHostname c =
     (case u_tlsVerifyHostname c of
        None \<Rightarrow> (if u_tlsCAData c = None then True else False)
      | Some b \<Rightarrow> b)"

text \<open>
  \<open>parseDSNIntoConfig\<close>.  The state of \<open>handleDSNPart\<close> is the map \<open>searchParams\<close>
  (key-value pairs in insertion order) and the config.  \<open>value || null\<close> takes the empty
  string to \<open>null\<close>.  The parameters left at the end are assigned, in order, to the keys
  of a fresh object, which is added to the server settings.
\<close>

definition or_null :: "string option \<Rightarrow> string option" where
  "or_null v = (case v of None \<Rightarrow> None | Some s \<Rightarrow> if s = [] then None else Some s)"

definition map_delete :: "string \<Rightarrow> (string \<times> string) list \<Rightarrow> (string \<times> string) list" where
  "map_delete k kvs = filter (\<lambda>(k', v). k' \<noteq> k) kvs"

fun collect_searchParams :: "(string \<times> string) list \<Rightarrow> (string \<times> string) list \<Rightarrow> error + (string \<times> string) list" where
  "collect_searchParams [] acc = Inr acc"
| "collect_searchParams ((key, v) # rest) acc =
     (if map_of acc key \<noteq> None then Inl (Error (''invalid DSN: duplicate query parameter '' @ quoted key))
      else collect_searchParams rest (acc @ [(key, v)]))"

definition source_text :: "string option \<Rightarrow> string" where
  "source_text source = (case source of None \<Rightarrow> ''undefined'' | Some s \<Rightarrow> s)"

definition dsn_param_env ::
    "World \<Rightarrow> string \<Rightarrow> (string \<times> string) list \<Rightarrow> string option \<times> string option
     \<Rightarrow> error + string option \<times> string option" where
  "dsn_param_env w paramName searchParams ps =
     (case ps of (param, paramSource) \<Rightarrow>
        if param = None
        then (case map_of searchParams (paramName @ ''_env'') of
                Some env \<Rightarrow>
                  (case process_env w env of
                     None \<Rightarrow> Inl (Error (quoted (paramName @ ''_env'') @ '' environment variable ''
                                @ quoted env @ '' doesn'' @ [CHR 0x27] @ ''t exist''))
                   | Some p \<Rightarrow>
                       Inr (Some p, Some (source_text paramSource @ '' ('' @ paramName @ ''_env: '' @ env @ '')'')))
              | None \<Rightarrow> Inr ps)
        else Inr ps)"

definition dsn_param_file ::
    "World \<Rightarrow> string \<Rightarrow> (string \<times> string) list \<Rightarrow> string option \<times> string option
     \<Rightarrow> error + string option \<times> string option" where
  "dsn_param_file w paramName searchParams ps =
     (case ps of (param, paramSource) \<Rightarrow>
        if param = None
        then (case map_of searchParams (paramName @ ''_file'') of
                Some file \<Rightarrow>
                  (case readFileUtf8Sync w file of
                     Inl e \<Rightarrow> Inl e
                   | Inr p \<Rightarrow>
                       Inr (Some p, Some (source_text paramSource @ '' ('' @ paramName @ ''_file: '' @ file @ '')'')))
              | None \<Rightarrow> Inr ps)
        else Inr ps)"

definition handleDSNPart ::
    "World \<Rightarrow> string \<Rightarrow> string option \<Rightarrow> string \<Rightarrow> string option \<Rightarrow> (ResolvedConnectConfig \<Rightarrow> bool)
     \<Rightarrow> (string option \<Rightarrow> string option \<Rightarrow> ResolvedConnectConfig \<Rightarrow> (error + bool) \<times> ResolvedConnectConfig)
     \<Rightarrow> (string \<Rightarrow> string)
     \<Rightarrow> (string \<times> string) list \<times> ResolvedConnectConfig
     \<Rightarrow> (error + unit) \<times> ((string \<times> string) list \<times> ResolvedConnectConfig)" where
  "handleDSNPart w dsnString source paramName v currentValue_is_null setter formatter st =
     (case st of (searchParams, config) \<Rightarrow>
        if 1 < length (filter (\<lambda>p. p \<noteq> None)
                 [or_null v, map_of searchParams paramName,
                  map_of searchParams (paramName @ ''_env''),
                  map_of searchParams (paramName @ ''_file'')])
        then (Inl (Error (''invalid DSN: more than one of ''
                 @ (if v \<noteq> None then quoted paramName @ '', '' else [])
                 @ quoted (''?'' @ paramName @ ''='') @ '', ''
                 @ quoted (''?'' @ paramName @ ''_env='') @ '' or ''
                 @ quoted (''?'' @ paramName @ ''_file='') @ '' was specified '' @ dsnString)), st)
        else
          case (if currentValue_is_null config
                then
                  (let param0 = (case or_null v of Some s \<Rightarrow> Some s | None \<Rightarrow> map_of searchParams paramName)
                   in case dsn_param_env w paramName searchParams (param0, source) of
                        Inl e \<Rightarrow> (Inl e, config)
                      | Inr ps1 \<Rightarrow>
                          (case dsn_param_file w paramName searchParams ps1 of
                             Inl e \<Rightarrow> (Inl e, config)
                           | Inr (param, paramSource) \<Rightarrow>
                               (case setter (map_option formatter param) paramSource config of
                                  (Inl e, config') \<Rightarrow> (Inl e, config')
                                | (Inr _, config') \<Rightarrow> (Inr (), config'))))
                else (Inr (), config)) of
            (Inl e, config') \<Rightarrow> (Inl e, (searchParams, config'))
          | (Inr _, config') \<Rightarrow>
              (Inr (), (map_delete (paramName @ ''_file'')
                          (map_delete (paramName @ ''_env'') (map_delete paramName searchParams)),
                        config')))"

definition stripLeadingSlash :: "string \<Rightarrow> string" where
  "stripLeadingSlash str = (case str of c # rest \<Rightarrow> if c = CHR ''/'' then rest else str | [] \<Rightarrow> [])"

text \<open>Sequencing of steps that may raise, over any state.\<close>

definition bindE :: "('s \<Rightarrow> (error + 'a) \<times> 's) \<Rightarrow> ('a \<Rightarrow> 's \<Rightarrow> (error + 'b) \<times> 's) \<Rightarrow> 's \<Rightarrow> (error + 'b) \<times> 's" where
  "bindE m f s = (case m s of (Inl e, s') \<Rightarrow> (Inl e, s') | (Inr x, s') \<Rightarrow> f x s')"

definition parseDSNIntoConfig ::
    "World \<Rightarrow> string \<Rightarrow> string option \<Rightarrow> ResolvedConnectConfig \<Rightarrow> (error + unit) \<times> ResolvedConnectConfig" where
  "parseDSNIntoConfig w dsnString source config =
     (case new_URL w dsnString of
        None \<Rightarrow> (Inl (Error (''invalid DSN or instance name: '' @ quoted dsnString)), config)
      | Some parsed \<Rightarrow>
          if url_protocol parsed \<noteq> ''edgedb:''
          then (Inl (Error (''invalid DSN: scheme is expected to be '' @ quoted ''edgedb'' @ '', got ''
                       @ quoted (butlast (url_protocol parsed)))), config)
          else
            case collect_searchParams (url_searchParams parsed) [] of
              Inl e \<Rightarrow> (Inl e, config)
            | Inr searchParams \<Rightarrow>
                (case bindE (handleDSNPart w dsnString source ''host'' (Some (url_hostname parsed))
                               (\<lambda>c. u_host c = None) setHost id)
                      (\<lambda>_. bindE (handleDSNPart w dsnString source ''port'' (Some (url_port parsed))
                               (\<lambda>c. u_port c = None) (\<lambda>p. setPort (map_option PortString p)) id)
                      (\<lambda>_. bindE (handleDSNPart w dsnString source ''database''
                               (Some (stripLeadingSlash (url_pathname parsed)))
                               (\<lambda>c. u_database c = None) setDatabase stripLeadingSlash)
                      (\<lambda>_. bindE (handleDSNPart w dsnString source ''user'' (Some (url_username parsed))
                               (\<lambda>c. u_user c = None) setUser id)
                      (\<lambda>_. bindE (handleDSNPart w dsnString source ''password'' (Some (url_password parsed))
                               (\<lambda>c. u_password c = None) setPassword id)
                      (\<lambda>_. bindE (handleDSNPart w dsnString source ''tls_cert_file'' None
                               (\<lambda>c. u_tlsCAData c = None) (setTlsCAFile w) id)
                      (\<lambda>_. handleDSNPart w dsnString source ''tls_verify_hostname'' None
                               (\<lambda>c. u_tlsVerifyHostname c = None)
                               (\<lambda>v. setTlsVerifyHostname (map_option VerifyString v)) id))))))
                      (searchParams, config) of
                   (Inl e, (_, config')) \<Rightarrow> (Inl e, config')
                 | (Inr _, (rest, config')) \<Rightarrow>
                     (Inr (), addServerSettings
                                (map_of (rev (filter (\<lambda>(key, v). key \<noteq> ''__proto__'') rest))) config')))"

text \<open>\<open>resolveConfigOptions\<close>: the options of one level, their source labels, and the error text.\<close>

record ResolveConfigOptionsConfig =
  rc_dsn :: "string option"
  rc_instanceName :: "string option"
  rc_credentialsFile :: "string option"
  rc_host :: "string option"
  rc_port :: "port_value option"
  rc_database :: "string option"
  rc_user :: "string option"
  rc_password :: "string option"
  rc_tlsCAFile :: "string option"
  rc_tlsVerifyHostname :: "verify_value option"
  rc_serverSettings :: "(string \<rightharpoonup> string) option"

record Sources =
  src_dsn :: "string option"
  src_instanceName :: "string option"
  src_credentialsFile :: "string option"
  src_host :: "string option"
  src_port :: "string option"
  src_database :: "string option"
  src_user :: "string option"
  src_password :: "string option"
  src_tlsCAFile :: "string option"
  src_tlsVerifyHostname :: "string option"
  src_serverSettings :: "string option"

text \<open>The instance-name pattern \<open>/^[A-Za-z_][A-Za-z_0-9]*$/\<close>.\<close>

definition is_instance_name :: "string \<Rightarrow> bool" where
  "is_instance_name s =
     (case s of
        [] \<Rightarrow> False
      | c # rest \<Rightarrow> (is_alpha c \<or> c = CHR ''_'') \<and> list_all (\<lambda>d. is_alpha d \<or> d = CHR ''_'' \<or> is_digit d) rest)"

definition compoundParamsCount :: "ResolveConfigOptionsConfig \<Rightarrow> nat" where
  "compoundParamsCount config =
     length (filter (\<lambda>param. param)
       [rc_dsn config \<noteq> None, rc_instanceName config \<noteq> None, rc_credentialsFile config \<noteq> None,
        (case rc_host config of Some h \<Rightarrow> True | None \<Rightarrow> rc_port config \<noteq> None)])"

definition useCredentials ::
    "World \<Rightarrow> ResolveConfigOptionsConfig \<Rightarrow> Sources \<Rightarrow> ResolvedConnectConfig \<Rightarrow> (error + unit) \<times> ResolvedConnectConfig" where
  "useCredentials w config sources resolvedConfig =
     (case (case rc_credentialsFile config of
              Some f \<Rightarrow> Inr f
            | None \<Rightarrow>
                (let instanceName = (case rc_instanceName config of Some n \<Rightarrow> n | None \<Rightarrow> ''undefined'')
                 in if \<not> is_instance_name instanceName
                    then Inl (Error (''invalid DSN or instance name: '' @ quoted instanceName))
                    else Inr (getCredentialsPath w instanceName))) of
        Inl e \<Rightarrow> (Inl e, resolvedConfig)
      | Inr credentialsFile \<Rightarrow>
          (case readCredentialsFile w credentialsFile of
             Inl e \<Rightarrow> (Inl e, resolvedConfig)
           | Inr creds \<Rightarrow>
               (let source = (if or_null (rc_credentialsFile config) \<noteq> None
                              then src_credentialsFile sources else src_instanceName sources)
                in bindE (setHost (cr_host creds) source)
                     (\<lambda>_. bindE (setPort (map_option PortNumber (cr_port creds)) source)
                     (\<lambda>_. bindE (setDatabase (cr_database creds) source)
                     (\<lambda>_. bindE (setUser (cr_user creds) source)
                     (\<lambda>_. bindE (setPassword (cr_password creds) source)
                     (\<lambda>_. bindE (setTlsCAData (cr_tlsCAData creds) source)
                     (\<lambda>_. bindE (setTlsVerifyHostname (map_option VerifyBool (cr_tlsVerifyHostname creds)) source)
                     (\<lambda>_ c. (Inr (), c)))))))) resolvedConfig)))"

definition useDSN ::
    "World \<Rightarrow> ResolveConfigOptionsConfig \<Rightarrow> Sources \<Rightarrow> ResolvedConnectConfig \<Rightarrow> (error + unit) \<times> ResolvedConnectConfig" where
  "useDSN w config sources resolvedConfig =
     (case (case rc_dsn config of
              Some d \<Rightarrow> (Inr d, resolvedConfig)
            | None \<Rightarrow>
                (case (case rc_port config of
                         Some p \<Rightarrow> setPort (Some p) (src_port sources) resolvedConfig
                       | None \<Rightarrow> (Inr False, resolvedConfig)) of
                   (Inl e, c) \<Rightarrow> (Inl e, c)
                 | (Inr _, c) \<Rightarrow>
                     (case rc_host config of
                        Some h \<Rightarrow> (case validateHost h of Inl e \<Rightarrow> (Inl e, c) | Inr h' \<Rightarrow> (Inr (''edgedb://'' @ h'), c))
                      | None \<Rightarrow> (Inr ''edgedb://'', c)))) of
        (Inl e, c) \<Rightarrow> (Inl e, c)
      | (Inr dsn, c) \<Rightarrow>
          parseDSNIntoConfig w dsn
            (if or_null (rc_dsn config) \<noteq> None then src_dsn sources
             else if rc_host config \<noteq> None then src_host sources else src_port sources) c)"

definition resolveConfigOptions ::
    "World \<Rightarrow> ResolveConfigOptionsConfig \<Rightarrow> Sources \<Rightarrow> string \<Rightarrow> ResolvedConnectConfig
     \<Rightarrow> (error + bool \<times> bool) \<times> ResolvedConnectConfig" where
  "resolveConfigOptions w config sources compoundParamsError =
     bindE (setDatabase (rc_database config) (src_database sources))
       (\<lambda>used1. bindE (setUser (rc_user config) (src_user sources))
       (\<lambda>used2. bindE (setPassword (rc_password config) (src_password sources))
       (\<lambda>used3. bindE (setTlsCAFile w (rc_tlsCAFile config) (src_tlsCAFile sources))
       (\<lambda>used4. bindE (setTlsVerifyHostname (rc_tlsVerifyHostname config) (src_tlsVerifyHostname sources))
       (\<lambda>used5 c0.
          let anyOptionsUsed = (used5 \<or> used4 \<or> used3 \<or> used2 \<or> used1);
              c = addServerSettings (case rc_serverSettings config of None \<Rightarrow> Map.empty | Some ss \<Rightarrow> ss) c0
          in if 1 < compoundParamsCount config then (Inl (Error compoundParamsError), c)
             else if compoundParamsCount config = 1
             then
               (case (if rc_dsn config \<noteq> None \<or> rc_host config \<noteq> None \<or> rc_port config \<noteq> None
                      then useDSN w config sources c
                      else useCredentials w config sources c) of
                  (Inl e, c') \<Rightarrow> (Inl e, c')
                | (Inr _, c') \<Rightarrow> (Inr (True, True), c'))
             else (Inr (False, anyOptionsUsed), c))))))"

text \<open>The DSN pattern \<open>/^[a-z]+:\/\//i\<close>: letters, at least one, then \<open>://\<close>.\<close>

definition is_dsn :: "string \<Rightarrow> bool" where
  "is_dsn s = (takeWhile is_alpha s \<noteq> [] \<and> take 3 (dropWhile is_alpha s) = ''://'')"

definition is_space :: "char \<Rightarrow> bool" where
  "is_space c = ((of_char c :: nat) \<in> set [32, 9, 10, 11, 12, 13])"

definition trim :: "string \<Rightarrow> string" where
  "trim s = rev (dropWhile is_space (rev (dropWhile is_space s)))"

record PartiallyNormalizedConfig =
  connectionParams :: ResolvedConnectConfig
  inProject :: bool
  fromProject :: bool
  fromEnv :: bool

definition explicit_sources :: Sources where
  "explicit_sources =
     \<lparr>src_dsn = Some (quoted ''dsnOrInstanceName'' @ '' option (parsed as dsn)''),
      src_instanceName = Some (quoted ''dsnOrInstanceName'' @ '' option (parsed as instance name)''),
      src_credentialsFile = Some (quoted ''credentialsFile'' @ '' option''),
      src_host = Some (quoted ''host'' @ '' option''),
      src_port = Some (quoted ''port'' @ '' option''),
      src_database = Some (quoted ''database'' @ '' option''),
      src_user = Some (quoted ''user'' @ '' option''),
      src_password = Some (quoted ''password'' @ '' option''),
      src_tlsCAFile = Some (quoted ''tlsCAFile'' @ '' option''),
      src_tlsVerifyHostname = Some (quoted ''tlsVerifyHostname'' @ '' option''),
      src_serverSettings = Some (quoted ''serverSettings'' @ '' option'')\<rparr>"

definition env_sources :: Sources where
  "env_sources =
     \<lparr>src_dsn = Some (quoted ''EDGEDB_DSN'' @ '' environment variable''),
      src_instanceName = Some (quoted ''EDGEDB_INSTANCE'' @ '' environment variable''),
      src_credentialsFile = Some (quoted ''EDGEDB_CREDENTIALS_FILE'' @ '' environment variable''),
      src_host = Some (quoted ''EDGEDB_HOST'' @ '' environment variable''),
      src_port = Some (quoted ''EDGEDB_PORT'' @ '' environment variable''),
      src_database = Some (quoted ''EDGEDB_DATABASE'' @ '' environment variable''),
      src_user = Some (quoted ''EDGEDB_USER'' @ '' environment variable''),
      src_password = Some (quoted ''EDGEDB_PASSWORD'' @ '' environment variable''),
      src_tlsCAFile = Some (quoted ''EDGEDB_TLS_CA_FILE'' @ '' environment variable''),
      src_tlsVerifyHostname = Some (quoted ''EDGEDB_TLS_VERIFY_HOSTNAME'' @ '' environment variable''),
      src_serverSettings = None\<rparr>"

definition explicit_compound_error :: string where
  "explicit_compound_error =
     ''Cannot have more than one of the following connection options: ''
     @ quoted ''dsnOrInstanceName'' @ '', '' @ quoted ''credentialsFile'' @ '' or ''
     @ quoted ''host'' @ ''/'' @ quoted ''port''"

definition env_compound_error :: string where
  "env_compound_error =
     ''Cannot have more than one of the following connection environment variables: ''
     @ quoted ''EDGEDB_DSN'' @ '', '' @ quoted ''EDGEDB_INSTANCE'' @ '', ''
     @ quoted ''EDGEDB_CREDENTIALS_FILE'' @ '' or '' @ quoted ''EDGEDB_HOST''"

definition explicit_options :: "ConnectConfig \<Rightarrow> ResolveConfigOptionsConfig" where
  "explicit_options config =
     (let is_dsn_option = (or_null (cc_dsn config) \<noteq> None \<and> is_dsn (case cc_dsn config of Some d \<Rightarrow> d | None \<Rightarrow> []))
      in \<lparr>rc_dsn = (if is_dsn_option then cc_dsn config else None),
          rc_instanceName = (if is_dsn_option then None else cc_dsn config),
          rc_credentialsFile = cc_credentialsFile config,
          rc_host = cc_host config,
          rc_port = map_option PortNumber (cc_port config),
          rc_database = cc_database config,
          rc_user = cc_user config,
          rc_password = cc_password config,
          rc_tlsCAFile = cc_tlsCAFile config,
          rc_tlsVerifyHostname = map_option VerifyBool (cc_tlsVerifyHostname config),
          rc_serverSettings = cc_serverSettings config\<rparr>)"

text \<open>An \<open>EDGEDB_PORT\<close> of the form \<open>tcp://...\<close> is dropped while no port is resolved yet.\<close>

definition env_options :: "World \<Rightarrow> ResolvedConnectConfig \<Rightarrow> ResolveConfigOptionsConfig" where
  "env_options w resolvedConfig =
     (let port0 = process_env w ''EDGEDB_PORT'';
          port' = (if u_port resolvedConfig = None
                      \<and> (case port0 of Some p \<Rightarrow> take 6 p = ''tcp://'' | None \<Rightarrow> False)
                   then None else port0)
      in \<lparr>rc_dsn = process_env w ''EDGEDB_DSN'',
          rc_instanceName = process_env w ''EDGEDB_INSTANCE'',
          rc_credentialsFile = process_env w ''EDGEDB_CREDENTIALS_FILE'',
          rc_host = process_env w ''EDGEDB_HOST'',
          rc_port = map_option PortString port',
          rc_database = process_env w ''EDGEDB_DATABASE'',
          rc_user = process_env w ''EDGEDB_USER'',
          rc_password = process_env w ''EDGEDB_PASSWORD'',
          rc_tlsCAFile = process_env w ''EDGEDB_TLS_CA_FILE'',
          rc_tlsVerifyHostname = map_option VerifyString (process_env w ''EDGEDB_TLS_VERIFY_HOSTNAME''),
          rc_serverSettings = None\<rparr>)"

definition project_options :: "string \<Rightarrow> ResolveConfigOptionsConfig" where
  "project_options instName =
     \<lparr>rc_dsn = None, rc_instanceName = Some instName, rc_credentialsFile = None, rc_host = None,
      rc_port = None, rc_database = None, rc_user = None, rc_password = None, rc_tlsCAFile = None,
      rc_tlsVerifyHostname = None, rc_serverSettings = None\<rparr>"

definition project_sources :: "string \<Rightarrow> Sources" where
  "project_sources instName =
     \<lparr>src_dsn = None,
      src_instanceName = Some (''project linked instance ('' @ quoted instName @ '')''),
      src_credentialsFile = None, src_host = None, src_port = None, src_database = None,
      src_user = None, src_password = None, src_tlsCAFile = None, src_tlsVerifyHostname = None,
      src_serverSettings = None\<rparr>"

definition resolve_from_project ::
    "World \<Rightarrow> string option \<Rightarrow> ResolvedConnectConfig \<Rightarrow> (error + unit) \<times> ResolvedConnectConfig" where
  "resolve_from_project w projectDir resolvedConfig =
     (case or_null projectDir of
        None \<Rightarrow>
          (Inl (ClientConnectionError
             (''no '' @ quoted ''edgedb.toml'' @ '' found and no connection options specified''
              @ '' either via arguments to `connect()` API or via environment''
              @ '' variables EDGEDB_HOST, EDGEDB_INSTANCE, EDGEDB_DSN or EDGEDB_CREDENTIALS_FILE'')),
           resolvedConfig)
      | Some dir \<Rightarrow>
          (let stashDir = stashPath w dir
           in if existsSync w stashDir
              then (case readFileUtf8Sync w (path_join w stashDir ''instance-name'') of
                      Inl e \<Rightarrow> (Inl e, resolvedConfig)
                    | Inr text \<Rightarrow>
                        (case resolveConfigOptions w (project_options (trim text))
                                (project_sources (trim text)) [] resolvedConfig of
                           (Inl e, c) \<Rightarrow> (Inl e, c)
                         | (Inr _, c) \<Rightarrow> (Inr (), c)))
              else (Inl (ClientConnectionError
                      (''Found '' @ quoted ''edgedb.toml'' @ '' but the project is not initialized. ''
                       @ ''Run `edgedb project init`.'')), resolvedConfig)))"

definition parseConnectDsnAndArgs ::
    "World \<Rightarrow> ConnectConfig \<Rightarrow> string option \<Rightarrow> error + PartiallyNormalizedConfig" where
  "parseConnectDsnAndArgs w config projectDir =
     (case resolveConfigOptions w (explicit_options config) explicit_sources explicit_compound_error
             new_ResolvedConnectConfig of
        (Inl e, _) \<Rightarrow> Inl e
      | (Inr (hasCompoundOptions1, _), c1) \<Rightarrow>
          (case (if \<not> hasCompoundOptions1
                 then resolveConfigOptions w (env_options w c1) env_sources env_compound_error c1
                 else (Inr (hasCompoundOptions1, False), c1)) of
             (Inl e, _) \<Rightarrow> Inl e
           | (Inr (hasCompoundOptions, fromEnv'), c2) \<Rightarrow>
               (case (if \<not> hasCompoundOptions
                      then (case resolve_from_project w projectDir c2 of
                              (Inl e, c3) \<Rightarrow> (Inl e, c3)
                            | (Inr _, c3) \<Rightarrow> (Inr True, c3))
                      else (Inr False, c2)) of
                  (Inl e, _) \<Rightarrow> Inl e
                | (Inr fromProject', c3) \<Rightarrow>
                    Inr \<lparr>connectionParams = c3, inProject = (or_null projectDir \<noteq> None),
                         fromProject = fromProject', fromEnv = fromEnv'\<rparr>)))"

record NormalizedConnectConfig = PartiallyNormalizedConfig +
  connectTimeout :: "int option"
  commandTimeout :: "int option"
  waitUntilAvailable :: int
  logging :: bool

definition parseConnectArguments :: "World \<Rightarrow> ConnectConfig \<Rightarrow> error + NormalizedConnectConfig" where
  "parseConnectArguments w opts =
     (if (case cc_commandTimeout opts of Some t \<Rightarrow> t < 0 | None \<Rightarrow> False)
      then Inl (Error (''invalid commandTimeout value: expected greater than 0 float (got ''
                 @ decimal (case cc_commandTimeout opts of Some t \<Rightarrow> t | None \<Rightarrow> 0) @ '')''))
      else
        case parseConnectDsnAndArgs w opts (findProjectDir w) of
          Inl e \<Rightarrow> Inl e
        | Inr p \<Rightarrow>
            Inr \<lparr>connectionParams = connectionParams p, inProject = inProject p,
                 fromProject = fromProject p, fromEnv = fromEnv p,
                 connectTimeout = cc_timeout opts,
                 commandTimeout = cc_commandTimeout opts,
                 waitUntilAvailable = (case cc_waitUntilAvailable opts of Some t \<Rightarrow> t | None \<Rightarrow> 30000),
                 logging = (case cc_logging opts of Some l \<Rightarrow> l | None \<Rightarrow> True)\<rparr>)"

text \<open>The options object with no option given.\<close>

definition no_options :: ConnectConfig where
  "no_options =
     \<lparr>cc_dsn = None, cc_credentialsFile = None, cc_host = None, cc_port = None, cc_database = None,
      cc_user = None, cc_password = None, cc_serverSettings = None, cc_tlsCAFile = None,
      cc_tlsVerifyHostname = None, cc_timeout = None, cc_commandTimeout = None,
      cc_waitUntilAvailable = None, cc_logging = None\<rparr>"

text \<open>One field given by a first source and then by a second one, both with a value.\<close>

definition two_sources ::
    "('v option \<Rightarrow> string option \<Rightarrow> ResolvedConnectConfig \<Rightarrow> (error + bool) \<times> ResolvedConnectConfig)
     \<Rightarrow> 'v \<Rightarrow> string \<Rightarrow> 'v \<Rightarrow> string \<Rightarrow> ResolvedConnectConfig \<Rightarrow> (error + bool) \<times> ResolvedConnectConfig" where
  "two_sources setter a label1 b label2 c =
     (case setter (Some a) (Some label1) c of
        (Inl e, c1) \<Rightarrow> (Inl e, c1)
      | (Inr _, c1) \<Rightarrow> setter (Some b) (Some label2) c1)"

text \<open>
  A world with the given environment variables and the given results of the URL
  constructor, without files, credentials or project directory.
\<close>

definition bare_world :: "(string \<Rightarrow> string option) \<Rightarrow> (string \<Rightarrow> URL option) \<Rightarrow> World" where
  "bare_world env urls =
     \<lparr>process_env = env, readFileUtf8Sync = (\<lambda>p. Inl (Error ''ENOENT'')), new_URL = urls,
      getCredentialsPath = (\<lambda>n. n), readCredentialsFile = (\<lambda>p. Inl (Error ''ENOENT'')),
      findProjectDir = None, stashPath = (\<lambda>d. d), existsSync = (\<lambda>p. False),
      path_join = (\<lambda>a b. a @ ''/'' @ b)\<rparr>"

text \<open>The components the URL constructor gives for \<open>edgedb://u:p@h:1234/db\<close> and for \<open>edgedb://h\<close>.\<close>

definition url_full :: URL where
  "url_full =
     \<lparr>url_protocol = ''edgedb:'', url_username = ''u'', url_password = ''p'', url_hostname = ''h'',
      url_port = ''1234'', url_pathname = ''/db'', url_searchParams = []\<rparr>"

definition url_host_only :: URL where
  "url_host_only =
     \<lparr>url_protocol = ''edgedb:'', url_username = [], url_password = [], url_hostname = ''h'',
      url_port = [], url_pathname = [], url_searchParams = []\<rparr>"

definition example_urls :: "string \<Rightarrow> URL option" where
  "example_urls s =
     (if s = ''edgedb://u:p@h:1234/db'' then Some url_full
      else if s = ''edgedb://h'' then Some url_host_only
      else None)"

definition env_dsn_and_host :: "string \<Rightarrow> string option" where
  "env_dsn_and_host k =
     (if k = ''EDGEDB_DSN'' then Some ''edgedb://a''
      else if k = ''EDGEDB_HOST'' then Some ''b''
      else None)"

definition env_instance_and_credentials :: "string \<Rightarrow> string option" where
  "env_instance_and_credentials k =
     (if k = ''EDGEDB_INSTANCE'' then Some ''inst''
      else if k = ''EDGEDB_CREDENTIALS_FILE'' then Some ''/c.json''
      else None)"

section \<open>The connection (client.ts)\<close>

definition chr_E :: int where "chr_E = 69"
definition chr_Z :: int where "chr_Z = 90"
definition chr_L :: int where "chr_L = 76"
definition chr_1 :: int where "chr_1 = 49"
definition chr_T :: int where "chr_T = 84"
definition chr_D :: int where "chr_D = 68"
definition chr_C :: int where "chr_C = 67"
definition chr_I :: int where "chr_I = 73"
definition chr_j :: int where "chr_j = 106"
definition chr_b :: int where "chr_b = 98"
definition chr_o :: int where "chr_o = 111"
definition chr_m :: int where "chr_m = 109"

datatype TransactionStatus = TRANS_IDLE | TRANS_ACTIVE | TRANS_INTRANS | TRANS_INERROR | TRANS_UNKNOWN

record 'v ICodec =
  ic_encode :: "(nat \<Rightarrow> byte) \<Rightarrow> WriteMessageBuffer \<Rightarrow> (error + unit) \<times> WriteMessageBuffer"
  ic_decode :: "ReadBuffer \<Rightarrow> (error + 'v) \<times> ReadBuffer"

record ('v, 'reg) CodecsRegistry =
  getCodec :: "byte list \<Rightarrow> 'reg \<Rightarrow> 'v ICodec option"
  buildCodec :: "byte list \<Rightarrow> 'reg \<Rightarrow> (error + 'v ICodec) \<times> 'reg"

datatype sock_event = SockConnect | SockData "byte list" | SockError error

record 'reg AwaitConnection =
  buffer :: ReadMessageBuffer
  incoming :: "sock_event list"
  sent :: "byte list list"
  sock_port :: int
  sock_host :: string
  paused :: bool
  lastStatus :: "byte list option"
  codecsRegistry :: 'reg
  serverSecret :: int
  conn_serverSettings :: "byte list \<rightharpoonup> byte list"
  serverXactStatus :: TransactionStatus

type_synonym ('a, 'reg) io = "'reg AwaitConnection \<Rightarrow> ((error + 'a) \<times> 'reg AwaitConnection) option"

definition io_return :: "'a \<Rightarrow> ('a, 'reg) io" where
  "io_return x c = Some (Inr x, c)"

definition io_throw :: "error \<Rightarrow> ('a, 'reg) io" where
  "io_throw e c = Some (Inl e, c)"

definition io_bind :: "('a, 'reg) io \<Rightarrow> ('a \<Rightarrow> ('b, 'reg) io) \<Rightarrow> ('b, 'reg) io" where
  "io_bind m f c =
     (case m c of
        None \<Rightarrow> None
      | Some (Inl e, c') \<Rightarrow> Some (Inl e, c')
      | Some (Inr x, c') \<Rightarrow> f x c')"

text \<open>
  Modelled from the spec: the class \<open>ReadBuffer\<close> that client.ts imports, by the methods
  of ReadMessageBuffer.  A method of the read buffer is run on the field \<open>buffer\<close> of
  the connection.
\<close>

definition on_read :: "(ReadMessageBuffer \<Rightarrow> (error + 'a) \<times> ReadMessageBuffer) \<Rightarrow> ('a, 'reg) io" where
  "on_read f c = (case f (buffer c) of (r, b) \<Rightarrow> Some (r, c\<lparr>buffer := b\<rparr>))"

text \<open>
  Modelled from the spec: the class \<open>WriteBuffer\<close> that client.ts imports, by the
  methods of WriteMessageBuffer.  A step on a local write buffer of a method; an error
  ends the method.
\<close>

definition on_write :: "(WriteMessageBuffer \<Rightarrow> (error + 'a) \<times> WriteMessageBuffer) \<Rightarrow> WriteMessageBuffer
    \<Rightarrow> ('a \<times> WriteMessageBuffer, 'reg) io" where
  "on_write f wb c = (case f wb of (Inl e, _) \<Rightarrow> Some (Inl e, c) | (Inr x, wb') \<Rightarrow> Some (Inr (x, wb'), c))"

definition sock_write :: "WriteMessageBuffer \<Rightarrow> (unit, 'reg) io" where
  "sock_write wb c =
     (case wm_unwrap wb of
        Inl e \<Rightarrow> Some (Inl e, c)
      | Inr bytes \<Rightarrow> Some (Inr (), c\<lparr>sent := sent c @ [bytes]\<rparr>))"

text \<open>
  The events while \<open>waitForMessage\<close> awaits.  \<open>onData\<close> feeds the chunk, pauses the
  socket when the ring is full, and resolves the waiter when \<open>takeMessage()\<close> answers
  true.  \<open>onError\<close> rejects the waiter.  \<open>held\<close> are the \<open>data\<close> events a paused socket
  keeps back.
\<close>

fun await_data :: "(nat \<Rightarrow> byte) \<Rightarrow> sock_event list \<Rightarrow> sock_event list \<Rightarrow> (unit, 'reg) io" where
  "await_data junk held [] c = None"
| "await_data junk held (SockConnect # rest) c = await_data junk held rest c"
| "await_data junk held (SockError e # rest) c = Some (Inl e, c\<lparr>incoming := held @ rest\<rparr>)"
| "await_data junk held (SockData data # rest) c =
     (if paused c then await_data junk (held @ [SockData data]) rest c
      else case feed data (buffer c) of
             (Inl e, b) \<Rightarrow> None
           | (Inr pause, b) \<Rightarrow>
               (case takeMessage junk b of
                  (Inl e, b') \<Rightarrow> None
                | (Inr True, b') \<Rightarrow> Some (Inr (), c\<lparr>buffer := b', incoming := held @ rest, paused := pause\<rparr>)
                | (Inr False, b') \<Rightarrow> await_data junk held rest (c\<lparr>buffer := b', paused := pause\<rparr>)))"

definition waitForMessage :: "(nat \<Rightarrow> byte) \<Rightarrow> (unit, 'reg) io" where
  "waitForMessage junk =
     io_bind (on_read (takeMessage junk))
       (\<lambda>taken c. if taken then Some (Inr (), c)
                   else await_data junk [] (incoming c) (c\<lparr>paused := False\<rparr>))"


text \<open>\<open>if (!this.buffer.takeMessage()) await this.waitForMessage()\<close>, then the message type.\<close>

definition next_message :: "(nat \<Rightarrow> byte) \<Rightarrow> (int, 'reg) io" where
  "next_message junk =
     io_bind (on_read (takeMessage junk))
       (\<lambda>taken. io_bind (if taken then io_return () else waitForMessage junk)
       (\<lambda>_ c. Some (Inr (getMessageType (buffer c)), c)))"

definition rejectHeaders :: "(nat \<Rightarrow> byte) \<Rightarrow> (unit, 'reg) io" where
  "rejectHeaders junk =
     io_bind (on_read (readInt16 junk))
       (\<lambda>nheaders. if nheaders \<noteq> 0 then io_throw (Error ''unexpected headers'') else io_return ())"

fun parseHeaders_loop :: "(nat \<Rightarrow> byte) \<Rightarrow> nat \<Rightarrow> int \<Rightarrow> (int \<rightharpoonup> byte list) \<Rightarrow> (int \<rightharpoonup> byte list, 'reg) io" where
  "parseHeaders_loop junk fuel numFields ret c =
     (if numFields = 0 then Some (Inr ret, c)
      else case fuel of
             0 \<Rightarrow> None
           | Suc fuel' \<Rightarrow>
               io_bind (on_read (readInt16 junk))
                 (\<lambda>key. io_bind (on_read (readLenPrefixedBuffer junk))
                 (\<lambda>v. parseHeaders_loop junk fuel' (numFields - 1) (ret(key \<mapsto> v)))) c)"

definition parseHeaders :: "(nat \<Rightarrow> byte) \<Rightarrow> nat \<Rightarrow> (int \<rightharpoonup> byte list, 'reg) io" where
  "parseHeaders junk fuel =
     io_bind (on_read (readInt16 junk)) (\<lambda>numFields. parseHeaders_loop junk fuel numFields Map.empty)"

definition use_codec :: "('v, 'reg) CodecsRegistry \<Rightarrow> byte list \<Rightarrow> byte list \<Rightarrow> ('v ICodec, 'reg) io" where
  "use_codec registry typeId typeData c =
     (case getCodec registry typeId (codecsRegistry c) of
        Some codec \<Rightarrow> Some (Inr codec, c)
      | None \<Rightarrow>
          (case buildCodec registry typeData (codecsRegistry c) of
             (r, reg') \<Rightarrow> Some (r, c\<lparr>codecsRegistry := reg'\<rparr>)))"

definition parseDescribeTypeMessage ::
    "(nat \<Rightarrow> byte) \<Rightarrow> ('v, 'reg) CodecsRegistry \<Rightarrow> (int \<times> 'v ICodec \<times> 'v ICodec, 'reg) io" where
  "parseDescribeTypeMessage junk registry =
     io_bind (rejectHeaders junk)
       (\<lambda>_. io_bind (on_read readChar)
       (\<lambda>cardinality. io_bind (on_read (readUUID junk))
       (\<lambda>inTypeId. io_bind (on_read (readLenPrefixedBuffer junk))
       (\<lambda>inTypeData. io_bind (use_codec registry inTypeId inTypeData)
       (\<lambda>inCodec. io_bind (on_read (readUUID junk))
       (\<lambda>outTypeId. io_bind (on_read (readLenPrefixedBuffer junk))
       (\<lambda>outTypeData. io_bind (use_codec registry outTypeId outTypeData)
       (\<lambda>outCodec. io_bind (on_read finishMessage)
       (\<lambda>_. io_return (cardinality, inCodec, outCodec))))))))))"

definition parseCommandCompleteMessage :: "(nat \<Rightarrow> byte) \<Rightarrow> (byte list, 'reg) io" where
  "parseCommandCompleteMessage junk =
     io_bind (rejectHeaders junk)
       (\<lambda>_. io_bind (on_read (readString junk))
       (\<lambda>status. io_bind (on_read finishMessage)
       (\<lambda>_. io_return status)))"

text \<open>\<open>parseErrorMessage\<close> gives the error made of the message text.\<close>

definition parseErrorMessage :: "(nat \<Rightarrow> byte) \<Rightarrow> nat \<Rightarrow> (error, 'reg) io" where
  "parseErrorMessage junk fuel =
     io_bind (on_read readChar)
       (\<lambda>severity. io_bind (on_read (readUInt32 junk))
       (\<lambda>code. io_bind (on_read (readString junk))
       (\<lambda>message. io_bind (parseHeaders junk fuel)
       (\<lambda>attrs. io_bind (on_read finishMessage)
       (\<lambda>_. io_return (Error (map (\<lambda>b. char_of (unat b)) message)))))))"

text \<open>The \<open>switch (status)\<close> of \<open>parseSyncMessage\<close>.\<close>

definition xact_status :: "int \<Rightarrow> TransactionStatus" where
  "xact_status status =
     (if status = chr_I then TRANS_IDLE
      else if status = chr_T then TRANS_INTRANS
      else if status = chr_E then TRANS_INERROR
      else TRANS_UNKNOWN)"

definition parseSyncMessage :: "(nat \<Rightarrow> byte) \<Rightarrow> nat \<Rightarrow> (unit, 'reg) io" where
  "parseSyncMessage junk fuel =
     io_bind (parseHeaders junk fuel)
       (\<lambda>_. io_bind (on_read readChar)
       (\<lambda>status. io_bind (\<lambda>c. Some (Inr (), c\<lparr>serverXactStatus := xact_status status\<rparr>))
       (\<lambda>_. on_read finishMessage)))"

text \<open>
  Modelled from the spec: the class \<open>FastReadBuffer\<close> that client.ts imports, by the
  methods of ReadBuffer.  One row of \<open>parseDataMessages\<close>: a FastReadBuffer on the
  consumed message, \<open>frb.discard(6)\<close>, then \<open>codec.decode(frb)\<close>.
\<close>

definition decode_row :: "'v ICodec \<Rightarrow> byte list \<Rightarrow> error + 'v" where
  "decode_row codec msg =
     (case rb_discard 6 (ReadBuffer_init msg) of
        (Inl e, _) \<Rightarrow> Inl e
      | (Inr _, frb) \<Rightarrow> (case ic_decode codec frb of (Inl e, _) \<Rightarrow> Inl e | (Inr row, _) \<Rightarrow> Inr row))"

text \<open>The loop of \<open>parseDataMessages\<close>; \<open>result\<close> is the array the rows are pushed to.\<close>

fun parseDataMessages :: "(nat \<Rightarrow> byte) \<Rightarrow> nat \<Rightarrow> 'v ICodec \<Rightarrow> 'v list \<Rightarrow> ('v list, 'reg) io" where
  "parseDataMessages junk 0 codec result c = None"
| "parseDataMessages junk (Suc fuel) codec result c =
     io_bind (on_read (takeMessageType junk chr_D))
       (\<lambda>more.
          if \<not> more then io_return result
          else io_bind (on_read (consumeMessage junk))
            (\<lambda>msg c1.
               case decode_row codec msg of
                 Inl e \<Rightarrow> Some (Inl e, c1)
               | Inr row \<Rightarrow> parseDataMessages junk fuel codec (result @ [row]) c1)) c"

definition fallthrough :: "(nat \<Rightarrow> byte) \<Rightarrow> nat \<Rightarrow> (unit, 'reg) io" where
  "fallthrough junk fuel c0 =
     (let mtype = getMessageType (buffer c0)
      in if mtype = chr_S
         then io_bind (on_read (readString junk))
                (\<lambda>name. io_bind (on_read (readString junk))
                (\<lambda>v. io_bind (\<lambda>c. Some (Inr (), c\<lparr>conn_serverSettings := (conn_serverSettings c)(name \<mapsto> v)\<rparr>))
                (\<lambda>_. on_read finishMessage))) c0
         else if mtype = chr_L
         then io_bind (on_read readChar)
                (\<lambda>severity. io_bind (on_read (readUInt32 junk))
                (\<lambda>code. io_bind (on_read (readString junk))
                (\<lambda>message. io_bind (parseHeaders junk fuel)
                (\<lambda>_. on_read finishMessage)))) c0
         else Some (Inl (Error (''unexpected message type '' @ decimal mtype @ '' ('' @ [CHR 0x22]
                      @ [char_of mtype] @ [CHR 0x22] @ '')'')), c0))"









text \<open>\<open>parse(query, asJson, expectOne)\<close>.  The query is given by its UTF-8 bytes.\<close>

definition parse_message :: "(nat \<Rightarrow> byte) \<Rightarrow> byte list \<Rightarrow> bool \<Rightarrow> bool \<Rightarrow> (error + unit) \<times> WriteMessageBuffer" where
  "parse_message junk query asJson expectOne =
     (case build_message junk chr_P
             [WriteInt16 0, WriteChar (if asJson then chr_j else chr_b),
              WriteChar (if expectOne then chr_o else chr_m), WriteString [], WriteString query]
             (new_WriteMessageBuffer junk) of
        (Inl e, wb) \<Rightarrow> (Inl e, wb)
      | (Inr _, wb) \<Rightarrow> writeSync junk wb)"

definition describe_message :: "(nat \<Rightarrow> byte) \<Rightarrow> WriteMessageBuffer \<Rightarrow> (error + unit) \<times> WriteMessageBuffer" where
  "describe_message junk wb =
     (case build_message junk chr_D [WriteInt16 0, WriteChar chr_T, WriteString []] (wm_reset wb) of
        (Inl e, wb') \<Rightarrow> (Inl e, wb')
      | (Inr _, wb') \<Rightarrow> writeSync junk wb')"

definition send_message :: "(error + unit) \<times> WriteMessageBuffer \<Rightarrow> (WriteMessageBuffer, 'reg) io" where
  "send_message built c =
     (case built of
        (Inl e, _) \<Rightarrow> Some (Inl e, c)
      | (Inr _, wb) \<Rightarrow> io_bind (sock_write wb) (\<lambda>_. io_return wb) c)"

record parse_vars =
  pv_cardinality :: "int option"
  pv_inTypeId :: "byte list option"
  pv_outTypeId :: "byte list option"
  pv_error :: "error option"

fun parse_loop :: "(nat \<Rightarrow> byte) \<Rightarrow> nat \<Rightarrow> parse_vars \<Rightarrow> (parse_vars, 'reg) io" where
  "parse_loop junk 0 vars c = None"
| "parse_loop junk (Suc fuel) vars c =
     io_bind (next_message junk)
       (\<lambda>mtype.
          if mtype = chr_1
          then io_bind (rejectHeaders junk)
                 (\<lambda>_. io_bind (on_read readChar)
                 (\<lambda>cardinality. io_bind (on_read (readUUID junk))
                 (\<lambda>inTypeId. io_bind (on_read (readUUID junk))
                 (\<lambda>outTypeId. io_bind (on_read finishMessage)
                 (\<lambda>_. parse_loop junk fuel
                        (vars\<lparr>pv_cardinality := Some cardinality, pv_inTypeId := Some inTypeId,
                               pv_outTypeId := Some outTypeId\<rparr>))))))
          else if mtype = chr_E
          then io_bind (parseErrorMessage junk fuel)
                 (\<lambda>e. parse_loop junk fuel (vars\<lparr>pv_error := Some e\<rparr>))
          else if mtype = chr_Z
          then io_bind (parseSyncMessage junk fuel) (\<lambda>_. io_return vars)
          else io_bind (fallthrough junk fuel) (\<lambda>_. parse_loop junk fuel vars)) c"

record 'v describe_vars =
  dv_cardinality :: "int option"
  dv_inCodec :: "'v ICodec option"
  dv_outCodec :: "'v ICodec option"
  dv_error :: "error option"

fun describe_loop :: "(nat \<Rightarrow> byte) \<Rightarrow> nat \<Rightarrow> ('v, 'reg) CodecsRegistry \<Rightarrow> 'v describe_vars
    \<Rightarrow> ('v describe_vars, 'reg) io" where
  "describe_loop junk 0 registry vars c = None"
| "describe_loop junk (Suc fuel) registry vars c =
     io_bind (next_message junk)
       (\<lambda>mtype.
          if mtype = chr_T
          then io_bind (parseDescribeTypeMessage junk registry)
                 (\<lambda>(cardinality, inCodec, outCodec).
                    describe_loop junk fuel registry
                      (vars\<lparr>dv_cardinality := Some cardinality, dv_inCodec := Some inCodec,
                             dv_outCodec := Some outCodec\<rparr>))
          else if mtype = chr_E
          then io_bind (parseErrorMessage junk fuel)
                 (\<lambda>e. describe_loop junk fuel registry (vars\<lparr>dv_error := Some e\<rparr>))
          else if mtype = chr_Z
          then io_bind (parseSyncMessage junk fuel) (\<lambda>_. io_return vars)
          else io_bind (fallthrough junk fuel) (\<lambda>_. describe_loop junk fuel registry vars)) c"

definition parse :: "(nat \<Rightarrow> byte) \<Rightarrow> nat \<Rightarrow> ('v, 'reg) CodecsRegistry \<Rightarrow> byte list \<Rightarrow> bool \<Rightarrow> bool
    \<Rightarrow> (int \<times> 'v ICodec \<times> 'v ICodec, 'reg) io" where
  "parse junk fuel registry query asJson expectOne =
     io_bind (send_message (parse_message junk query asJson expectOne))
       (\<lambda>wb. io_bind (parse_loop junk fuel
                 \<lparr>pv_cardinality = None, pv_inTypeId = None, pv_outTypeId = None, pv_error = None\<rparr>)
       (\<lambda>vars.
          case pv_error vars of
            Some e \<Rightarrow> io_throw e
          | None \<Rightarrow>
              (case (pv_inTypeId vars, pv_outTypeId vars) of
                 (Some inTypeId, Some outTypeId) \<Rightarrow>
                   io_bind (\<lambda>c. Some (Inr (getCodec registry inTypeId (codecsRegistry c),
                                           getCodec registry outTypeId (codecsRegistry c)), c))
                     (\<lambda>(inCodec, outCodec).
                        io_bind
                          (if inCodec = None \<or> outCodec = None
                           then io_bind (send_message (describe_message junk wb))
                                  (\<lambda>_. io_bind (describe_loop junk fuel registry
                                            \<lparr>dv_cardinality = pv_cardinality vars, dv_inCodec = inCodec,
                                             dv_outCodec = outCodec, dv_error = None\<rparr>)
                                  (\<lambda>dvars. case dv_error dvars of
                                              Some e \<Rightarrow> io_throw e
                                            | None \<Rightarrow> io_return dvars))
                           else io_return \<lparr>dv_cardinality = pv_cardinality vars, dv_inCodec = inCodec,
                                           dv_outCodec = outCodec, dv_error = None\<rparr>)
                          (\<lambda>dvars.
                             case (dv_cardinality dvars, dv_inCodec dvars, dv_outCodec dvars) of
                               (Some cardinality, Some ic, Some oc) \<Rightarrow> io_return (cardinality, ic, oc)
                             | _ \<Rightarrow> io_throw (Error
                                 ''failed to receive type information in response to a Parse message'')))
               | _ \<Rightarrow> io_throw (Error ''did not receive in/out type ids in Parse response''))))"

text \<open>\<open>execute(inCodec, outCodec)\<close>.\<close>

definition execute_message :: "(nat \<Rightarrow> byte) \<Rightarrow> 'v ICodec \<Rightarrow> (error + unit) \<times> WriteMessageBuffer" where
  "execute_message junk inCodec =
     (case beginMessage junk chr_E (new_WriteMessageBuffer junk) of
        (Inl e, wb) \<Rightarrow> (Inl e, wb)
      | (Inr _, wb) \<Rightarrow>
          (case typed_writes junk [WriteInt16 0, WriteString []] wb of
             (Inl e, wb1) \<Rightarrow> (Inl e, wb1)
           | (Inr _, wb1) \<Rightarrow>
               (case ic_encode inCodec junk wb1 of
                  (Inl e, wb2) \<Rightarrow> (Inl e, wb2)
                | (Inr _, wb2) \<Rightarrow>
                    (case endMessage wb2 of
                       (Inl e, wb3) \<Rightarrow> (Inl e, wb3)
                     | (Inr _, wb3) \<Rightarrow> writeSync junk wb3))))"

fun execute_loop :: "(nat \<Rightarrow> byte) \<Rightarrow> nat \<Rightarrow> 'v ICodec \<Rightarrow> 'v list \<Rightarrow> error option
    \<Rightarrow> ('v list \<times> error option, 'reg) io" where
  "execute_loop junk 0 outCodec result err c = None"
| "execute_loop junk (Suc fuel) outCodec result err c =
     io_bind (next_message junk)
       (\<lambda>mtype.
          if mtype = chr_D
          then io_bind (parseDataMessages junk fuel outCodec result)
                 (\<lambda>result'. execute_loop junk fuel outCodec result' err)
          else if mtype = chr_C
          then io_bind (parseCommandCompleteMessage junk)
                 (\<lambda>status. io_bind (\<lambda>c'. Some (Inr (), c'\<lparr>lastStatus := Some status\<rparr>))
                 (\<lambda>_. execute_loop junk fuel outCodec result err))
          else if mtype = chr_E
          then io_bind (parseErrorMessage junk fuel)
                 (\<lambda>e. execute_loop junk fuel outCodec result (Some e))
          else if mtype = chr_Z
          then io_bind (parseSyncMessage junk fuel) (\<lambda>_. io_return (result, err))
          else io_bind (fallthrough junk fuel) (\<lambda>_. execute_loop junk fuel outCodec result err)) c"

definition execute :: "(nat \<Rightarrow> byte) \<Rightarrow> nat \<Rightarrow> 'v ICodec \<Rightarrow> 'v ICodec \<Rightarrow> ('v list, 'reg) io" where
  "execute junk fuel inCodec outCodec =
     io_bind (send_message (execute_message junk inCodec))
       (\<lambda>_. io_bind (execute_loop junk fuel outCodec [] None)
       (\<lambda>(result, err). case err of Some e \<Rightarrow> io_throw e | None \<Rightarrow> io_return result))"

text \<open>\<open>result[0]\<close>: the first element, \<open>undefined\<close> (here \<open>None\<close>) for an empty array.\<close>

definition element0 :: "'v list \<Rightarrow> 'v option" where
  "element0 result = (case result of [] \<Rightarrow> None | x # _ \<Rightarrow> Some x)"

definition fetchAll :: "(nat \<Rightarrow> byte) \<Rightarrow> nat \<Rightarrow> ('v, 'reg) CodecsRegistry \<Rightarrow> byte list \<Rightarrow> ('v list, 'reg) io" where
  "fetchAll junk fuel registry query =
     io_bind (parse junk fuel registry query False False)
       (\<lambda>(card, inCodec, outCodec). execute junk fuel inCodec outCodec)"


definition fetchAllJSON :: "(nat \<Rightarrow> byte) \<Rightarrow> nat \<Rightarrow> ('v, 'reg) CodecsRegistry \<Rightarrow> byte list \<Rightarrow> ('v option, 'reg) io" where
  "fetchAllJSON junk fuel registry query =
     io_bind (parse junk fuel registry query True False)
       (\<lambda>(card, inCodec, outCodec). io_bind (execute junk fuel inCodec outCodec)
       (\<lambda>result. io_return (element0 result)))"

definition fetchOneJSON :: "(nat \<Rightarrow> byte) \<Rightarrow> nat \<Rightarrow> ('v, 'reg) CodecsRegistry \<Rightarrow> byte list \<Rightarrow> ('v option, 'reg) io" where
  "fetchOneJSON junk fuel registry query =
     io_bind (parse junk fuel registry query True True)
       (\<lambda>(card, inCodec, outCodec). io_bind (execute junk fuel inCodec outCodec)
       (\<lambda>result. io_return (element0 result)))"

text \<open>
  Two shapes of the read buffer.  \<open>at_buffer b q t l n r\<close> holds the single chunk \<open>b\<close>
  with the cursor at \<open>q\<close>, nothing queued, and the given current-message fields.  A
  buffer is drained when it has no current message and no unread byte.
\<close>

definition at_buffer :: "byte list \<Rightarrow> nat \<Rightarrow> int \<Rightarrow> int \<Rightarrow> int \<Rightarrow> bool \<Rightarrow> ReadMessageBuffer" where
  "at_buffer b q t l n r =
     \<lparr>bufs = [], len = int (length b) - int q, buf0 = Some b, pos0 = int q, len0 = int (length b),
      curMessageType = t, curMessageLen = l, curMessageLenUnread = n, curMessageReady = r\<rparr>"










section \<open>Properties of the write buffers\<close>

lemma length_be_bytes [simp]: "length (be_bytes n v) = n"
  by (induction n arbitrary: v) auto

lemma be_uint_append: "be_uint (xs @ [b]) = be_uint xs * 256 + uint b"
  by (induction xs) (auto simp: algebra_simps)

lemma be_uint_be_bytes: "be_uint (be_bytes n v) = v mod 256 ^ n"
proof (induction n arbitrary: v)
  case 0 show ?case by simp
next
  case (Suc n)
  have "be_uint (be_bytes (Suc n) v) = (v div 256) mod 256 ^ n * 256 + v mod 256"
    by (simp add: be_uint_append Suc uint_word_of_int)
  also have "\<dots> = v mod 256 ^ Suc n"
    using zmod_zmult2_eq[of "256 ^ n" v 256] by simp
  finally show ?case .
qed

lemma wb_unwrap_take: "wb_unwrap wb = take (wb_pos wb) (wb_buffer wb)"
  by (simp add: wb_unwrap_def Buffer_slice_def clamp_index_def min_def)

lemma new_WriteBuffer_inv: "wb_inv (new_WriteBuffer junk)"
  by (simp add: wb_inv_def new_WriteBuffer_def allocUnsafe_def)

lemma Buffer_copy_whole:
  "p + length src \<le> length tgt \<Longrightarrow>
   Buffer_copy src tgt (int p) 0 (int (length src)) = Inr (take p tgt @ src @ drop (p + length src) tgt)"
  by (auto simp: Buffer_copy_def Let_def min_def)

lemma Buffer_copy_prefix:
  "p \<le> length src \<Longrightarrow> p \<le> length tgt \<Longrightarrow>
   Buffer_copy src tgt 0 0 (int p) = Inr (take p src @ drop p tgt)"
  by (auto simp: Buffer_copy_def Let_def min_def)

lemma Buffer_write_ok:
  "lo \<le> v \<Longrightarrow> v \<le> hi \<Longrightarrow> p + n \<le> length b \<Longrightarrow>
   Buffer_write n lo hi b v (int p) = Inr (take p b @ be_bytes n v @ drop (p + n) b)"
  by (auto simp: Buffer_write_def)

lemma ensureAlloced_ok:
  assumes "wb_inv wb"
  shows "\<exists>wb'. ensureAlloced junk n wb = (Inr (), wb') \<and> wb_pos wb' = wb_pos wb \<and> wb_size wb' = wb_size wb
           \<and> take (wb_pos wb) (wb_buffer wb') = take (wb_pos wb) (wb_buffer wb)
           \<and> wb_pos wb + n \<le> length (wb_buffer wb') \<and> wb_size wb \<le> length (wb_buffer wb')"
proof (cases "wb_size wb < wb_pos wb + n")
  case True
  let ?new = "allocUnsafe junk (wb_pos wb + n + BUFFER_INC_SIZE)"
  have len: "length ?new = wb_pos wb + n + BUFFER_INC_SIZE" by (simp add: allocUnsafe_def)
  have "Buffer_copy (wb_buffer wb) ?new 0 0 (int (wb_pos wb)) = Inr (take (wb_pos wb) (wb_buffer wb) @ drop (wb_pos wb) ?new)"
    using assms by (intro Buffer_copy_prefix) (auto simp: wb_inv_def len)
  then show ?thesis using True assms
    by (auto simp: ensureAlloced_def wb_realloc_def Let_def wb_inv_def len)
next
  case False
  then show ?thesis using assms by (auto simp: ensureAlloced_def wb_inv_def)
qed

lemma wb_put_ok:
  assumes "wb_inv wb" "lo \<le> v" "v \<le> hi"
  shows "\<exists>wb'. wb_put junk n (Buffer_write n lo hi) v wb = (Inr (), wb') \<and> wb_inv wb'
           \<and> wb_pos wb' = wb_pos wb + n
           \<and> wb_unwrap wb' = wb_unwrap wb @ be_bytes n v"
proof -
  obtain wb1 where e: "ensureAlloced junk n wb = (Inr (), wb1)" and p: "wb_pos wb1 = wb_pos wb"
    and s: "wb_size wb1 = wb_size wb"
    and t: "take (wb_pos wb) (wb_buffer wb1) = take (wb_pos wb) (wb_buffer wb)"
    and l: "wb_pos wb + n \<le> length (wb_buffer wb1)" and l2: "wb_size wb \<le> length (wb_buffer wb1)"
    using ensureAlloced_ok[OF assms(1)] by blast
  have w: "Buffer_write n lo hi (wb_buffer wb1) v (int (wb_pos wb1))
      = Inr (take (wb_pos wb) (wb_buffer wb1) @ be_bytes n v @ drop (wb_pos wb + n) (wb_buffer wb1))"
    using Buffer_write_ok[OF assms(2,3), of "wb_pos wb" n "wb_buffer wb1"] l p by simp
  show ?thesis
    using e w p s t l l2 assms(1) by (auto simp: wb_put_def wb_inv_def wb_unwrap_take)
qed


lemma wb_writeBuffer_ok:
  assumes "wb_inv wb"
  shows "\<exists>wb'. wb_writeBuffer junk buf wb = (Inr (), wb') \<and> wb_inv wb'
           \<and> wb_pos wb' = wb_pos wb + length buf
           \<and> wb_unwrap wb' = wb_unwrap wb @ buf"
proof -
  obtain wb1 where e: "ensureAlloced junk (length buf) wb = (Inr (), wb1)" and p: "wb_pos wb1 = wb_pos wb"
    and s: "wb_size wb1 = wb_size wb"
    and t: "take (wb_pos wb) (wb_buffer wb1) = take (wb_pos wb) (wb_buffer wb)"
    and l: "wb_pos wb + length buf \<le> length (wb_buffer wb1)" and l2: "wb_size wb \<le> length (wb_buffer wb1)"
    using ensureAlloced_ok[OF assms] by blast
  have w: "Buffer_copy buf (wb_buffer wb1) (int (wb_pos wb1)) 0 (int (length buf))
      = Inr (take (wb_pos wb) (wb_buffer wb1) @ buf @ drop (wb_pos wb + length buf) (wb_buffer wb1))"
    using Buffer_copy_whole[OF l] p by simp
  show ?thesis
    using e w p s t l l2 assms by (auto simp: wb_writeBuffer_def wb_inv_def wb_unwrap_take)
qed

lemma wb_writeString_ok:
  assumes "wb_inv wb" "int (length buf) \<le> 2147483647"
  shows "\<exists>wb'. wb_writeString junk buf wb = (Inr (), wb') \<and> wb_inv wb'
           \<and> wb_pos wb' = wb_pos wb + (4 + length buf)
           \<and> wb_unwrap wb' = wb_unwrap wb @ be_bytes 4 (int (length buf)) @ buf"
proof -
  obtain wb1 where e: "ensureAlloced junk (length buf + 4) wb = (Inr (), wb1)" and p: "wb_pos wb1 = wb_pos wb"
    and s: "wb_size wb1 = wb_size wb"
    and t: "take (wb_pos wb) (wb_buffer wb1) = take (wb_pos wb) (wb_buffer wb)"
    and l: "wb_pos wb + (length buf + 4) \<le> length (wb_buffer wb1)" and l2: "wb_size wb \<le> length (wb_buffer wb1)"
    using ensureAlloced_ok[OF assms(1)] by blast
  define b where "b = take (wb_pos wb) (wb_buffer wb1) @ be_bytes 4 (int (length buf)) @ drop (wb_pos wb + 4) (wb_buffer wb1)"
  have w: "writeInt32BE (wb_buffer wb1) (int (length buf)) (int (wb_pos wb1)) = Inr b"
    unfolding writeInt32BE_def b_def p
    using assms(2) l by (intro Buffer_write_ok) auto
  have lb: "length b = length (wb_buffer wb1)" using l by (simp add: b_def)
  have c: "Buffer_copy buf b (int (wb_pos wb + 4)) 0 (int (length buf))
      = Inr (take (wb_pos wb + 4) b @ buf @ drop (wb_pos wb + 4 + length buf) b)"
    using l lb by (intro Buffer_copy_whole) simp
  have tb: "take (wb_pos wb + 4) b = take (wb_pos wb) (wb_buffer wb) @ be_bytes 4 (int (length buf))"
    using l t assms(1) by (simp add: b_def wb_inv_def)
  show ?thesis
    using e w c p s l l2 lb tb assms(1)
    by (auto simp: wb_writeString_def wb_inv_def wb_unwrap_take Let_def)
qed

lemma typed_write_call_ok:
  assumes "0 \<le> messagePos wm" "wb_inv (wm_buffer wm)" "typed_write_ok w"
  shows "\<exists>wm'. typed_write_call junk w wm = (Inr (), wm') \<and> messagePos wm' = messagePos wm
           \<and> wb_inv (wm_buffer wm')
           \<and> wb_pos (wm_buffer wm') = wb_pos (wm_buffer wm) + length (typed_write_bytes w)
           \<and> wb_unwrap (wm_buffer wm') = wb_unwrap (wm_buffer wm) @ typed_write_bytes w"
proof (cases w)
  case (WriteChar ch)
  then show ?thesis
    using assms wb_put_ok[OF assms(2), of 0 ch 255 junk 1]
    by (auto simp: wm_writeChar_def in_message_def on_buffer_def wb_writeChar_def writeUInt8_def)
next
  case (WriteString s)
  then show ?thesis
    using assms wb_writeString_ok[OF assms(2), of s junk]
    by (auto simp: wm_writeString_def in_message_def on_buffer_def)
next
  case (WriteInt16 i)
  then show ?thesis
    using assms wb_put_ok[OF assms(2), of "- 32768" i 32767 junk 2]
    by (auto simp: wm_writeInt16_def in_message_def on_buffer_def wb_writeInt16_def writeInt16BE_def)
next
  case (WriteInt32 i)
  then show ?thesis
    using assms wb_put_ok[OF assms(2), of "- 2147483648" i 2147483647 junk 4]
    by (auto simp: wm_writeInt32_def in_message_def on_buffer_def wb_writeInt32_def writeInt32BE_def)
next
  case (WriteUInt16 i)
  then show ?thesis
    using assms wb_put_ok[OF assms(2), of 0 i 65535 junk 2]
    by (auto simp: wm_writeUInt16_def in_message_def on_buffer_def wb_writeUInt16_def writeUInt16BE_def)
next
  case (WriteUInt32 i)
  then show ?thesis
    using assms wb_put_ok[OF assms(2), of 0 i 4294967295 junk 4]
    by (auto simp: wm_writeUInt32_def in_message_def on_buffer_def wb_writeUInt32_def writeUInt32BE_def)
next
  case (WriteBuffer b)
  then show ?thesis
    using assms wb_writeBuffer_ok[OF assms(2), of junk b]
    by (auto simp: wm_writeBuffer_def in_message_def on_buffer_def)
qed

lemma typed_writes_ok:
  assumes "0 \<le> messagePos wm" "wb_inv (wm_buffer wm)" "list_all typed_write_ok ws"
  shows "\<exists>wm'. typed_writes junk ws wm = (Inr (), wm') \<and> messagePos wm' = messagePos wm
           \<and> wb_inv (wm_buffer wm')
           \<and> wb_pos (wm_buffer wm') = wb_pos (wm_buffer wm) + length (concat (map typed_write_bytes ws))
           \<and> wb_unwrap (wm_buffer wm') = wb_unwrap (wm_buffer wm) @ concat (map typed_write_bytes ws)"
  using assms
proof (induction ws arbitrary: wm)
  case Nil
  then show ?case by simp
next
  case (Cons w ws)
  obtain wm1 where 1: "typed_write_call junk w wm = (Inr (), wm1)" "messagePos wm1 = messagePos wm"
      "wb_inv (wm_buffer wm1)"
      "wb_pos (wm_buffer wm1) = wb_pos (wm_buffer wm) + length (typed_write_bytes w)"
      "wb_unwrap (wm_buffer wm1) = wb_unwrap (wm_buffer wm) @ typed_write_bytes w"
    using typed_write_call_ok[of wm w junk] Cons.prems by auto
  obtain wm2 where 2: "typed_writes junk ws wm1 = (Inr (), wm2)" "messagePos wm2 = messagePos wm1"
      "wb_inv (wm_buffer wm2)"
      "wb_pos (wm_buffer wm2) = wb_pos (wm_buffer wm1) + length (concat (map typed_write_bytes ws))"
      "wb_unwrap (wm_buffer wm2) = wb_unwrap (wm_buffer wm1) @ concat (map typed_write_bytes ws)"
    using Cons.IH[of wm1] 1 Cons.prems by auto
  show ?case using 1 2 by simp
qed


lemma be_sint_be_bytes4:
  assumes "- 2147483648 \<le> v" "v \<le> 2147483647"
  shows "be_sint (be_bytes 4 v) = v"
proof (cases "0 \<le> v")
  case True
  then have "v mod 4294967296 = v" using assms by simp
  then show ?thesis using assms True by (simp add: be_sint_def be_uint_be_bytes Let_def)
next
  case False
  have "v mod 4294967296 = (v + 4294967296) mod 4294967296" by simp
  also have "\<dots> = v + 4294967296" using assms False by (intro mod_pos_pos_trivial) auto
  finally have "v mod 4294967296 = v + 4294967296" .
  then show ?thesis using assms False by (simp add: be_sint_def be_uint_be_bytes Let_def)
qed

lemma be_bytes_numeral:
  "be_bytes (numeral k) v = be_bytes (pred_numeral k) (v div 256) @ [word_of_int v]"
  by (simp add: numeral_eq_Suc)

lemma take_patch:
  "length A = a \<Longrightarrow> length B = k \<Longrightarrow> take (a + k + n) (A @ B @ C) = A @ B @ take n C"
  by simp

lemma beginMessage_ok:
  assumes "messagePos wm < 0" "wb_inv (wm_buffer wm)" "0 \<le> tag" "tag \<le> 255"
  shows "\<exists>wm'. beginMessage junk tag wm = (Inr (), wm') \<and> messagePos wm' = int (wb_pos (wm_buffer wm))
           \<and> wb_inv (wm_buffer wm')
           \<and> wb_pos (wm_buffer wm') = wb_pos (wm_buffer wm) + 5
           \<and> wb_unwrap (wm_buffer wm') = wb_unwrap (wm_buffer wm) @ be_bytes 1 tag @ be_bytes 4 0"
proof -
  obtain b1 where 1: "wb_put junk 1 (Buffer_write 1 0 255) tag (wm_buffer wm) = (Inr (), b1)" "wb_inv b1"
      "wb_pos b1 = wb_pos (wm_buffer wm) + 1" "wb_unwrap b1 = wb_unwrap (wm_buffer wm) @ be_bytes 1 tag"
    using wb_put_ok[OF assms(2,3,4), of junk 1] by blast
  obtain b2 where 2: "wb_put junk 4 (Buffer_write 4 (- 2147483648) 2147483647) 0 b1 = (Inr (), b2)" "wb_inv b2"
      "wb_pos b2 = wb_pos b1 + 4" "wb_unwrap b2 = wb_unwrap b1 @ be_bytes 4 0"
    using wb_put_ok[OF 1(2), of "- 2147483648" 0 2147483647 junk 4] by auto
  show ?thesis
    using assms(1) 1 2
    by (simp add: beginMessage_def Let_def on_buffer_def wb_writeChar_def wb_writeInt32_def
        writeUInt8_def writeInt32BE_def wb_position_def)
qed

lemma endMessage_ok:
  assumes pos: "messagePos wm = int p" and inv: "wb_inv (wm_buffer wm)"
    and wpos: "wb_pos (wm_buffer wm) = p + 5 + length P"
    and view: "wb_unwrap (wm_buffer wm) = U @ be_bytes 1 tag @ be_bytes 4 x @ P"
    and lenU: "length U = p"
    and small: "int (length P) + 4 \<le> 2147483647"
  shows "\<exists>wm'. endMessage wm = (Inr (), wm') \<and> messagePos wm' = - 1 \<and> wb_inv (wm_buffer wm')
           \<and> wb_unwrap (wm_buffer wm') = U @ message_frame tag P"
proof -
  define b where "b = wb_buffer (wm_buffer wm)"
  define v where "v = 4 + int (length P)"
  define b' where "b' = take (p + 1) b @ be_bytes 4 v @ drop (p + 1 + 4) b"
  have lb: "p + 5 + length P \<le> length b"
    using inv wpos by (simp add: wb_inv_def b_def)
  have tk: "take (p + 5 + length P) b = U @ be_bytes 1 tag @ be_bytes 4 x @ P"
    using wpos view by (simp add: wb_unwrap_take b_def)
  have w: "writeInt32BE b v (int p + 1) = Inr b'"
    unfolding writeInt32BE_def b'_def
    using Buffer_write_ok[of "- 2147483648" v 2147483647 "p + 1" 4 b] small lb
    by (simp add: v_def add.commute)
  have e: "endMessage wm = (Inr (), wm\<lparr>wm_buffer := (wm_buffer wm)\<lparr>wb_buffer := b'\<rparr>, messagePos := - 1\<rparr>)"
    using w pos wpos by (simp add: endMessage_def wb_position_def b_def v_def)
  have t1: "take (p + 1) b = U @ be_bytes 1 tag"
  proof -
    have "take (p + 1) b = take (p + 1) (take (p + 5 + length P) b)" by simp
    also have "\<dots> = U @ be_bytes 1 tag" unfolding tk using lenU by simp
    finally show ?thesis .
  qed
  have t2: "take (length P) (drop (p + 5) b) = P"
  proof -
    have "take (length P) (drop (p + 5) b) = drop (p + 5) (take (p + 5 + length P) b)"
      by (simp add: drop_take add.commute)
    also have "\<dots> = P" unfolding tk using lenU by simp
    finally show ?thesis .
  qed
  have u: "take (p + 5 + length P) b' = U @ message_frame tag P"
  proof -
    have "length (take (p + 1) b) = p + 1" using lb by simp
    then have "take ((p + 1) + 4 + length P) (take (p + 1) b @ be_bytes 4 v @ drop (p + 1 + 4) b)
        = take (p + 1) b @ be_bytes 4 v @ take (length P) (drop (p + 1 + 4) b)"
      by (intro take_patch) simp_all
    then have "take (p + 5 + length P) b' = take (p + 1) b @ be_bytes 4 v @ take (length P) (drop (p + 5) b)"
      by (simp add: b'_def add.commute add.left_commute)
    then show ?thesis unfolding t1 t2 message_frame_def v_def by simp
  qed
  have lb': "length b' = length b" using lb by (simp add: b'_def)
  have "wb_inv ((wm_buffer wm)\<lparr>wb_buffer := b'\<rparr>)"
    using inv lb' by (simp add: wb_inv_def b_def)
  moreover have "wb_unwrap ((wm_buffer wm)\<lparr>wb_buffer := b'\<rparr>) = U @ message_frame tag P"
    using u wpos by (simp add: wb_unwrap_take)
  ultimately show ?thesis using e by simp
qed

lemma build_message_frame:
  assumes closed: "messagePos wm < 0" and inv: "wb_inv (wm_buffer wm)"
    and tag: "0 \<le> tag" "tag \<le> 255"
    and ok: "list_all typed_write_ok ws"
    and small: "int (length (concat (map typed_write_bytes ws))) + 4 \<le> 2147483647"
  shows "\<exists>wm'. build_message junk tag ws wm = (Inr (), wm') \<and> messagePos wm' = - 1
           \<and> wb_inv (wm_buffer wm')
           \<and> wb_unwrap (wm_buffer wm')
               = wb_unwrap (wm_buffer wm) @ message_frame tag (concat (map typed_write_bytes ws))"
proof -
  define U where "U = wb_unwrap (wm_buffer wm)"
  define P where "P = concat (map typed_write_bytes ws)"
  define p where "p = wb_pos (wm_buffer wm)"
  have lenU: "length U = p"
    using inv by (simp add: U_def p_def wb_unwrap_take wb_inv_def)
  obtain wm1 where 1: "beginMessage junk tag wm = (Inr (), wm1)" "messagePos wm1 = int p"
      "wb_inv (wm_buffer wm1)" "wb_pos (wm_buffer wm1) = p + 5"
      "wb_unwrap (wm_buffer wm1) = U @ be_bytes 1 tag @ be_bytes 4 0"
    using beginMessage_ok[OF closed inv tag, of junk] unfolding U_def p_def by blast
  obtain wm2 where 2: "typed_writes junk ws wm1 = (Inr (), wm2)" "messagePos wm2 = int p"
      "wb_inv (wm_buffer wm2)" "wb_pos (wm_buffer wm2) = p + 5 + length P"
      "wb_unwrap (wm_buffer wm2) = U @ be_bytes 1 tag @ be_bytes 4 0 @ P"
    using typed_writes_ok[of wm1 ws junk] 1 ok unfolding P_def by auto
  obtain wm3 where 3: "endMessage wm2 = (Inr (), wm3)" "messagePos wm3 = - 1" "wb_inv (wm_buffer wm3)"
      "wb_unwrap (wm_buffer wm3) = U @ message_frame tag P"
    using endMessage_ok[OF 2(2,3,4,5) lenU] small unfolding P_def by auto
  show ?thesis using 1 2 3 unfolding U_def P_def by (simp add: build_message_def)
qed

lemma message_frame_fields:
  assumes "0 \<le> tag" "tag \<le> 255" "int (length P) + 4 \<le> 2147483647"
  shows "readUInt8 (message_frame tag P) 0 = Inr tag"
    and "readInt32BE (message_frame tag P) 1 = Inr (int (length (message_frame tag P)) - 1)"
    and "drop 5 (message_frame tag P) = P"
proof -
  show "readUInt8 (message_frame tag P) 0 = Inr tag"
    using assms by (simp add: readUInt8_def Buffer_read_def message_frame_def uint_word_of_int)
  have "Buffer_read 4 (message_frame tag P) 1 = Inr (be_bytes 4 (4 + int (length P)))"
    by (simp add: Buffer_read_def message_frame_def)
  moreover have "be_sint (be_bytes 4 (4 + int (length P))) = 4 + int (length P)"
    using assms by (intro be_sint_be_bytes4) auto
  ultimately show "readInt32BE (message_frame tag P) 1 = Inr (int (length (message_frame tag P)) - 1)"
    by (simp add: readInt32BE_def message_frame_def)
  show "drop 5 (message_frame tag P) = P" by (simp add: message_frame_def)
qed

text \<open>
  Claim C4.  A message built on a WriteMessageBuffer with no open message, as
  \<open>beginMessage(tag)\<close>, typed writes, \<open>endMessage()\<close>, is emitted after what the
  buffer already held as one frame: its first byte is the tag, and the four bytes at
  offset 1, read big-endian, are the size of the whole frame minus 1 (the length counts
  its own four bytes and the payload, not the tag).  The calls all succeed when each
  value fits its width and the frame stays below 2^31 bytes.
\<close>

theorem endMessage_length_covers_frame:
  assumes closed: "messagePos wm < 0" and inv: "wb_inv (wm_buffer wm)"
    and tag: "0 \<le> tag" "tag \<le> 255"
    and ok: "list_all typed_write_ok ws"
    and small: "int (length (concat (map typed_write_bytes ws))) + 4 \<le> 2147483647"
  shows "\<exists>wm' frame. build_message junk tag ws wm = (Inr (), wm')
           \<and> wm_unwrap wm' = Inr (wb_unwrap (wm_buffer wm) @ frame)
           \<and> readUInt8 frame 0 = Inr tag
           \<and> readInt32BE frame 1 = Inr (int (length frame) - 1)
           \<and> drop 5 frame = concat (map typed_write_bytes ws)"
proof -
  obtain wm' where 1: "build_message junk tag ws wm = (Inr (), wm')" "messagePos wm' = - 1"
      "wb_unwrap (wm_buffer wm')
         = wb_unwrap (wm_buffer wm) @ message_frame tag (concat (map typed_write_bytes ws))"
    using build_message_frame[OF assms, of junk] by blast
  have "wm_unwrap wm' = Inr (wb_unwrap (wm_buffer wm) @ message_frame tag (concat (map typed_write_bytes ws)))"
    using 1 by (simp add: wm_unwrap_def)
  then show ?thesis
    using 1(1) message_frame_fields[OF tag small] by blast
qed

theorem endMessage_length_covers_frame_witness:
  "\<exists>wm' frame. build_message (\<lambda>_. 0) 80 [WriteInt16 (- 2), WriteString [97, 98], WriteChar 7]
        (new_WriteMessageBuffer (\<lambda>_. 0)) = (Inr (), wm')
     \<and> wm_unwrap wm' = Inr (wb_unwrap (wm_buffer (new_WriteMessageBuffer (\<lambda>_. 0))) @ frame)
     \<and> readUInt8 frame 0 = Inr 80
     \<and> readInt32BE frame 1 = Inr (int (length frame) - 1)
     \<and> drop 5 frame = concat (map typed_write_bytes [WriteInt16 (- 2), WriteString [97, 98], WriteChar 7])"
  by (rule endMessage_length_covers_frame)
     (simp_all add: new_WriteMessageBuffer_def new_WriteBuffer_inv)

section \<open>Properties of the read buffers\<close>

text \<open>What a successful read does to the two counters of unread bytes.\<close>

lemma ensureFirstBuf_counts:
  "ensureFirstBuf s = (r, s') \<Longrightarrow> curMessageLenUnread s' = curMessageLenUnread s \<and> len s' = len s"
  by (auto simp: ensureFirstBuf_def nextBuf_def ring_deq_def split: if_splits list.splits option.splits)

lemma readBufferCopy_loop_counts:
  "readBufferCopy_loop ret retPos b size' s = (Inr v, s')
     \<Longrightarrow> curMessageLenUnread s' = curMessageLenUnread s \<and> len s' = len s - size'"
proof (induction ret retPos b size' s rule: readBufferCopy_loop.induct)
  case (1 ret retPos b size' s)
  show ?case
  proof (cases "len0 s < pos0 s + size'")
    case True
    from "1.prems" True obtain ret' b' s2 where
      c: "Buffer_copy b ret retPos (pos0 s) (len0 s - pos0 s) = Inr ret'"
      and e: "ensureFirstBuf (s\<lparr>pos0 := len0 s, len := len s - (len0 s - pos0 s)\<rparr>) = (Inr b', s2)"
      and r: "readBufferCopy_loop ret' (retPos + (len0 s - pos0 s)) b' (size' - (len0 s - pos0 s)) s2 = (Inr v, s')"
      by (subst (asm) readBufferCopy_loop.simps) (auto simp: Let_def split: sum.splits prod.splits)
    have ih: "curMessageLenUnread s' = curMessageLenUnread s2 \<and> len s' = len s2 - (size' - (len0 s - pos0 s))"
      using "1.IH"[OF True refl c e[symmetric] refl r] .
    show ?thesis using ih ensureFirstBuf_counts[OF e] by simp
  next
    case False
    then show ?thesis using "1.prems"
      by (subst (asm) readBufferCopy_loop.simps) (auto split: sum.splits)
  qed
qed

lemma priv_readBuffer_counts:
  "priv_readBuffer junk size' s = (Inr v, s')
     \<Longrightarrow> curMessageLenUnread s' = curMessageLenUnread s \<and> len s' = len s - size'"
  by (auto simp: priv_readBuffer_def readBufferCopy_def split: prod.splits sum.splits if_splits
      dest!: ensureFirstBuf_counts readBufferCopy_loop_counts)

lemma rm_readNumber_counts:
  "rm_readNumber junk n reader s = (Inr v, s')
     \<Longrightarrow> curMessageLenUnread s' = curMessageLenUnread s - n \<and> len s' = len s - n"
  by (auto simp: rm_readNumber_def Let_def split: prod.splits sum.splits if_splits
      dest!: ensureFirstBuf_counts priv_readBuffer_counts)

lemma readString_after_prefix:
  assumes "readInt32 junk s = (Inr m, s1)" "curMessageLenUnread s - 4 < m \<or> len s - 4 < m"
  shows "readString junk s = (Inl (BufferError ''buffer overread''), s1)"
    and "curMessageLenUnread s1 = curMessageLenUnread s - 4" and "len s1 = len s - 4"
proof -
  show c: "curMessageLenUnread s1 = curMessageLenUnread s - 4" and l: "len s1 = len s - 4"
    using rm_readNumber_counts[of junk 4 readInt32BE s m s1] assms(1) by (simp_all add: readInt32_def)
  show "readString junk s = (Inl (BufferError ''buffer overread''), s1)"
    using assms c l by (auto simp: readString_def readBuffer_def checkOverread_def)
qed

text \<open>
  Claim C5, as the code has it.  \<open>readBuffer(size)\<close>, \<open>readChar\<close>, \<open>readInt16\<close>,
  \<open>readUInt16\<close>, \<open>readInt32\<close>, \<open>readUInt32\<close> and \<open>readUUID\<close> raise
  \<open>BufferError("buffer overread")\<close> and leave the whole buffer state as it was whenever
  the current message has fewer unread bytes than the call asks for; \<open>readString\<close> does
  so when fewer than the four bytes of its length prefix are unread.  When
  \<open>readString\<close> can read its prefix (\<open>readInt32\<close> returns \<open>m\<close> and leaves the state
  \<open>s1\<close>) and the prefix announces more bytes than are then unread in the message or
  in the buffer, \<open>readString\<close> raises \<open>BufferError("buffer overread")\<close> and leaves
  \<open>s1\<close>, in which the prefix is consumed: both counters of unread bytes are down by 4.
\<close>

theorem overread_raises_and_keeps_state:
  "(curMessageLenUnread s < n \<longrightarrow> readBuffer junk n s = (Inl (BufferError ''buffer overread''), s))
   \<and> (curMessageLenUnread s < 1 \<longrightarrow> readChar s = (Inl (BufferError ''buffer overread''), s))
   \<and> (curMessageLenUnread s < 2 \<longrightarrow>
         readInt16 junk s = (Inl (BufferError ''buffer overread''), s)
       \<and> readUInt16 junk s = (Inl (BufferError ''buffer overread''), s))
   \<and> (curMessageLenUnread s < 4 \<longrightarrow>
         readInt32 junk s = (Inl (BufferError ''buffer overread''), s)
       \<and> readUInt32 junk s = (Inl (BufferError ''buffer overread''), s)
       \<and> readString junk s = (Inl (BufferError ''buffer overread''), s))
   \<and> (curMessageLenUnread s < 16 \<longrightarrow> readUUID junk s = (Inl (BufferError ''buffer overread''), s))
   \<and> (readInt32 junk s = (Inr m, s1) \<and> (curMessageLenUnread s - 4 < m \<or> len s - 4 < m) \<longrightarrow>
         readString junk s = (Inl (BufferError ''buffer overread''), s1)
       \<and> curMessageLenUnread s1 = curMessageLenUnread s - 4
       \<and> len s1 = len s - 4)"
proof -
  have unchanged:
    "(curMessageLenUnread s < n \<longrightarrow> readBuffer junk n s = (Inl (BufferError ''buffer overread''), s))
     \<and> (curMessageLenUnread s < 1 \<longrightarrow> readChar s = (Inl (BufferError ''buffer overread''), s))
     \<and> (curMessageLenUnread s < 2 \<longrightarrow>
           readInt16 junk s = (Inl (BufferError ''buffer overread''), s)
         \<and> readUInt16 junk s = (Inl (BufferError ''buffer overread''), s))
     \<and> (curMessageLenUnread s < 4 \<longrightarrow>
           readInt32 junk s = (Inl (BufferError ''buffer overread''), s)
         \<and> readUInt32 junk s = (Inl (BufferError ''buffer overread''), s)
         \<and> readString junk s = (Inl (BufferError ''buffer overread''), s))
     \<and> (curMessageLenUnread s < 16 \<longrightarrow> readUUID junk s = (Inl (BufferError ''buffer overread''), s))"
    by (simp add: readBuffer_def readChar_def readInt16_def readUInt16_def readInt32_def readUInt32_def
        readString_def readUUID_def rm_readNumber_def checkOverread_def)
  have prefix:
    "readInt32 junk s = (Inr m, s1) \<and> (curMessageLenUnread s - 4 < m \<or> len s - 4 < m) \<longrightarrow>
         readString junk s = (Inl (BufferError ''buffer overread''), s1)
       \<and> curMessageLenUnread s1 = curMessageLenUnread s - 4
       \<and> len s1 = len s - 4"
    using readString_after_prefix[of junk s m s1] by blast
  show ?thesis
    using unchanged prefix by blast
qed

lemma sync_then_tag_state:
  "curMessageReady (snd (takeMessage (\<lambda>_. 0) (snd (feed [83, 0, 0, 0, 4, 90] new_ReadMessageBuffer))))
   \<and> curMessageLenUnread (snd (takeMessage (\<lambda>_. 0) (snd (feed [83, 0, 0, 0, 4, 90] new_ReadMessageBuffer)))) = 0"
  by code_simp

lemma prefix_five_state:
  "fst (readInt32 (\<lambda>_. 0) (snd (takeMessage (\<lambda>_. 0) (snd (feed [67, 0, 0, 0, 10, 0, 0, 0, 5, 97, 98] new_ReadMessageBuffer)))))
     = Inr 5
   \<and> curMessageLenUnread (snd (takeMessage (\<lambda>_. 0) (snd (feed [67, 0, 0, 0, 10, 0, 0, 0, 5, 97, 98] new_ReadMessageBuffer)))) = 6
   \<and> len (snd (takeMessage (\<lambda>_. 0) (snd (feed [67, 0, 0, 0, 10, 0, 0, 0, 5, 97, 98] new_ReadMessageBuffer)))) = 6"
  by code_simp

theorem overread_raises_and_keeps_state_witness:
  "readBuffer (\<lambda>_. 0) 3 (snd (takeMessage (\<lambda>_. 0) (snd (feed [83, 0, 0, 0, 4, 90] new_ReadMessageBuffer))))
     = (Inl (BufferError ''buffer overread''), snd (takeMessage (\<lambda>_. 0) (snd (feed [83, 0, 0, 0, 4, 90] new_ReadMessageBuffer))))
   \<and> readChar (snd (takeMessage (\<lambda>_. 0) (snd (feed [83, 0, 0, 0, 4, 90] new_ReadMessageBuffer))))
     = (Inl (BufferError ''buffer overread''), snd (takeMessage (\<lambda>_. 0) (snd (feed [83, 0, 0, 0, 4, 90] new_ReadMessageBuffer))))
   \<and> readInt16 (\<lambda>_. 0) (snd (takeMessage (\<lambda>_. 0) (snd (feed [83, 0, 0, 0, 4, 90] new_ReadMessageBuffer))))
     = (Inl (BufferError ''buffer overread''), snd (takeMessage (\<lambda>_. 0) (snd (feed [83, 0, 0, 0, 4, 90] new_ReadMessageBuffer))))
   \<and> readUInt32 (\<lambda>_. 0) (snd (takeMessage (\<lambda>_. 0) (snd (feed [83, 0, 0, 0, 4, 90] new_ReadMessageBuffer))))
     = (Inl (BufferError ''buffer overread''), snd (takeMessage (\<lambda>_. 0) (snd (feed [83, 0, 0, 0, 4, 90] new_ReadMessageBuffer))))
   \<and> readString (\<lambda>_. 0) (snd (takeMessage (\<lambda>_. 0) (snd (feed [83, 0, 0, 0, 4, 90] new_ReadMessageBuffer))))
     = (Inl (BufferError ''buffer overread''), snd (takeMessage (\<lambda>_. 0) (snd (feed [83, 0, 0, 0, 4, 90] new_ReadMessageBuffer))))
   \<and> readUUID (\<lambda>_. 0) (snd (takeMessage (\<lambda>_. 0) (snd (feed [83, 0, 0, 0, 4, 90] new_ReadMessageBuffer))))
     = (Inl (BufferError ''buffer overread''), snd (takeMessage (\<lambda>_. 0) (snd (feed [83, 0, 0, 0, 4, 90] new_ReadMessageBuffer))))
   \<and> readString (\<lambda>_. 0) (snd (takeMessage (\<lambda>_. 0) (snd (feed [67, 0, 0, 0, 10, 0, 0, 0, 5, 97, 98] new_ReadMessageBuffer))))
     = (Inl (BufferError ''buffer overread''),
        snd (readInt32 (\<lambda>_. 0) (snd (takeMessage (\<lambda>_. 0) (snd (feed [67, 0, 0, 0, 10, 0, 0, 0, 5, 97, 98] new_ReadMessageBuffer))))))
   \<and> curMessageLenUnread
        (snd (readInt32 (\<lambda>_. 0) (snd (takeMessage (\<lambda>_. 0) (snd (feed [67, 0, 0, 0, 10, 0, 0, 0, 5, 97, 98] new_ReadMessageBuffer))))))
     = 2"
proof -
  define S where "S = snd (takeMessage (\<lambda>_. 0) (snd (feed [67, 0, 0, 0, 10, 0, 0, 0, 5, 97, 98] new_ReadMessageBuffer)))"
  have r: "readInt32 (\<lambda>_. 0) S = (Inr 5, snd (readInt32 (\<lambda>_. 0) S))"
    using prefix_five_state unfolding S_def[symmetric] by (simp add: prod_eq_iff)
  have u: "curMessageLenUnread S = 6" "len S = 6"
    using prefix_five_state unfolding S_def[symmetric] by simp_all
  have 1: "readString (\<lambda>_. 0) S = (Inl (BufferError ''buffer overread''), snd (readInt32 (\<lambda>_. 0) S))
      \<and> curMessageLenUnread (snd (readInt32 (\<lambda>_. 0) S)) = 2"
    using overread_raises_and_keeps_state
      [where s = S and junk = "\<lambda>_. 0" and m = 5 and ?s1.0 = "snd (readInt32 (\<lambda>_. 0) S)"] r u
    by simp
  show ?thesis
    using overread_raises_and_keeps_state
      [where s = "snd (takeMessage (\<lambda>_. 0) (snd (feed [83, 0, 0, 0, 4, 90] new_ReadMessageBuffer)))"
         and n = 3 and junk = "\<lambda>_. 0"]
      1[unfolded S_def]
    by (simp add: sync_then_tag_state)
qed

text \<open>
  Claim C5 as stated fails for \<open>readString\<close>.  A ready message whose six unread bytes
  are a length prefix 5 and two bytes of text: \<open>readString\<close> needs nine bytes, raises
  \<open>BufferError\<close>, and has by then consumed the prefix (position 5 to 9, unread 6 to 2,
  total length down by 4).
\<close>

theorem readString_overread_advances_cursor:
  "curMessageReady (snd (takeMessage (\<lambda>_. 0) (snd (feed [67, 0, 0, 0, 10, 0, 0, 0, 5, 97, 98] new_ReadMessageBuffer))))
   \<and> curMessageLenUnread (snd (takeMessage (\<lambda>_. 0) (snd (feed [67, 0, 0, 0, 10, 0, 0, 0, 5, 97, 98] new_ReadMessageBuffer)))) = 6
   \<and> pos0 (snd (takeMessage (\<lambda>_. 0) (snd (feed [67, 0, 0, 0, 10, 0, 0, 0, 5, 97, 98] new_ReadMessageBuffer)))) = 5
   \<and> fst (readString (\<lambda>_. 0) (snd (takeMessage (\<lambda>_. 0) (snd (feed [67, 0, 0, 0, 10, 0, 0, 0, 5, 97, 98] new_ReadMessageBuffer)))))
       = Inl (BufferError ''buffer overread'')
   \<and> pos0 (snd (readString (\<lambda>_. 0) (snd (takeMessage (\<lambda>_. 0) (snd (feed [67, 0, 0, 0, 10, 0, 0, 0, 5, 97, 98] new_ReadMessageBuffer)))))) = 9
   \<and> curMessageLenUnread (snd (readString (\<lambda>_. 0) (snd (takeMessage (\<lambda>_. 0) (snd (feed [67, 0, 0, 0, 10, 0, 0, 0, 5, 97, 98] new_ReadMessageBuffer)))))) = 2
   \<and> len (snd (readString (\<lambda>_. 0) (snd (takeMessage (\<lambda>_. 0) (snd (feed [67, 0, 0, 0, 10, 0, 0, 0, 5, 97, 98] new_ReadMessageBuffer))))))
       = len (snd (takeMessage (\<lambda>_. 0) (snd (feed [67, 0, 0, 0, 10, 0, 0, 0, 5, 97, 98] new_ReadMessageBuffer)))) - 4"
  by code_simp

text \<open>
  Claim C1 at its own example.  The 15-byte frame with tag 0x50 and payload 1..10, fed
  as chunks of 1, 2, 7 and 5 bytes: \<open>takeMessage\<close> answers false, false, false, true,
  but \<open>consumeMessage\<close> returns the payload with bytes 3 and 4 left as
  \<open>allocUnsafe\<close> found them.  Fed as one chunk, the last five bytes are left so.
  \<open>__readBufferCopy\<close> passes a byte count where \<open>Buffer.copy\<close> takes an end index.
\<close>

theorem frame_assembly_payload_garbled:
  "(case feed_and_take junk [[80], [0, 0], [0, 14, 1, 2, 3, 4, 5], [6, 7, 8, 9, 10]] new_ReadMessageBuffer of
      (rs, s) \<Rightarrow> rs = [Inr False, Inr False, Inr False, Inr True]
         \<and> fst (consumeMessage junk s) = Inr [1, 2, 3, junk 3, junk 4, 6, 7, 8, 9, 10])
   \<and> (case feed_and_take junk [[80, 0, 0, 0, 14, 1, 2, 3, 4, 5, 6, 7, 8, 9, 10]] new_ReadMessageBuffer of
      (rs, s) \<Rightarrow> rs = [Inr True]
         \<and> fst (consumeMessage junk s) = Inr [1, 2, 3, 4, 5, junk 5, junk 6, junk 7, junk 8, junk 9])"
  by code_simp

section \<open>Properties of the integer codecs\<close>

lemma js_shr_32: "js_shr v 32 = sint (word_of_int v :: 32 word)"
  by (simp add: js_shr_def)

lemma js_and_mask: "js_and v 4294967295 = sint (word_of_int v :: 32 word)"
proof -
  have m: "(4294967295 :: 32 word) = - 1" by simp
  show ?thesis by (simp add: js_and_def m)
qed

lemma sint32_range: "- 2147483648 \<le> sint (w :: 32 word) \<and> sint w \<le> 2147483647"
  using sint_ge[of w] sint_lt[of w] by simp

lemma new_WriteBuffer_unwrap: "wb_unwrap (new_WriteBuffer junk) = []"
  by (simp add: wb_unwrap_take new_WriteBuffer_def)

lemma wb_writeInt32_ok:
  assumes "wb_inv wb" "- 2147483648 \<le> v" "v \<le> 2147483647"
  shows "\<exists>wb'. wb_writeInt32 junk v wb = (Inr (), wb') \<and> wb_inv wb' \<and> wb_unwrap wb' = wb_unwrap wb @ be_bytes 4 v"
  using wb_put_ok[OF assms, of junk 4] by (auto simp: wb_writeInt32_def writeInt32BE_def)

lemma wb_writeInt16_ok:
  assumes "wb_inv wb" "- 32768 \<le> v" "v \<le> 32767"
  shows "\<exists>wb'. wb_writeInt16 junk v wb = (Inr (), wb') \<and> wb_inv wb' \<and> wb_unwrap wb' = wb_unwrap wb @ be_bytes 2 v"
  using wb_put_ok[OF assms, of junk 2] by (auto simp: wb_writeInt16_def writeInt16BE_def)

lemma Int32Codec_encoded:
  assumes "- 2147483648 \<le> v" "v \<le> 2147483647"
  shows "encoded (Int32Codec_encode junk v) junk = Inr (be_bytes 4 4 @ be_bytes 4 v)"
proof -
  obtain b1 where 1: "wb_writeInt32 junk 4 (new_WriteBuffer junk) = (Inr (), b1)" "wb_inv b1"
      "wb_unwrap b1 = be_bytes 4 4"
    using wb_writeInt32_ok[OF new_WriteBuffer_inv, of 4 junk junk] by (auto simp: new_WriteBuffer_unwrap)
  obtain b2 where 2: "wb_writeInt32 junk v b1 = (Inr (), b2)" "wb_unwrap b2 = be_bytes 4 4 @ be_bytes 4 v"
    using wb_writeInt32_ok[OF 1(2) assms, of junk] 1(3) by auto
  show ?thesis using 1 2 by (simp add: encoded_def Int32Codec_encode_def)
qed

lemma Int16Codec_encoded:
  assumes "- 32768 \<le> v" "v \<le> 32767"
  shows "encoded (Int16Codec_encode junk v) junk = Inr (be_bytes 4 2 @ be_bytes 2 v)"
proof -
  obtain b1 where 1: "wb_writeInt32 junk 2 (new_WriteBuffer junk) = (Inr (), b1)" "wb_inv b1"
      "wb_unwrap b1 = be_bytes 4 2"
    using wb_writeInt32_ok[OF new_WriteBuffer_inv, of 2 junk junk] by (auto simp: new_WriteBuffer_unwrap)
  obtain b2 where 2: "wb_writeInt16 junk v b1 = (Inr (), b2)" "wb_unwrap b2 = be_bytes 4 2 @ be_bytes 2 v"
    using wb_writeInt16_ok[OF 1(2) assms, of junk] 1(3) by auto
  show ?thesis using 1 2 by (simp add: encoded_def Int16Codec_encode_def)
qed

lemma Int64Codec_encoded:
  "encoded (Int64Codec_encode junk v) junk
     = Inr (be_bytes 4 8 @ be_bytes 4 (sint (word_of_int v :: 32 word)) @ be_bytes 4 (sint (word_of_int v :: 32 word)))"
proof -
  define t where "t = sint (word_of_int v :: 32 word)"
  have r: "- 2147483648 \<le> t" "t \<le> 2147483647" using sint32_range[of "word_of_int v"] by (simp_all add: t_def)
  obtain b1 where 1: "wb_writeInt32 junk 8 (new_WriteBuffer junk) = (Inr (), b1)" "wb_inv b1"
      "wb_unwrap b1 = be_bytes 4 8"
    using wb_writeInt32_ok[OF new_WriteBuffer_inv, of 8 junk junk] by (auto simp: new_WriteBuffer_unwrap)
  obtain b2 where 2: "wb_writeInt32 junk t b1 = (Inr (), b2)" "wb_inv b2" "wb_unwrap b2 = be_bytes 4 8 @ be_bytes 4 t"
    using wb_writeInt32_ok[OF 1(2) r, of junk] 1(3) by auto
  obtain b3 where 3: "wb_writeInt32 junk t b2 = (Inr (), b3)" "wb_unwrap b3 = be_bytes 4 8 @ be_bytes 4 t @ be_bytes 4 t"
    using wb_writeInt32_ok[OF 2(2) r, of junk] 2(3) by auto
  show ?thesis using 1 2 3 by (simp add: encoded_def Int64Codec_encode_def js_shr_32 js_and_mask flip: t_def)
qed

lemma decode_Int32:
  assumes "- 2147483648 \<le> v" "v \<le> 2147483647"
  shows "decode_value Int32Codec_decode (be_bytes 4 4 @ be_bytes 4 v) = Inr v"
proof -
  have 4: "be_sint (be_bytes 4 4) = 4" by (rule be_sint_be_bytes4) simp_all
  have v: "be_sint (be_bytes 4 v) = v" using assms by (rule be_sint_be_bytes4)
  show ?thesis
    by (simp add: decode_value_def Int32Codec_decode_def rb_readInt32_def rb_readNumber_def new_ReadBuffer_def
        readInt32BE_def Buffer_read_def rb_consumeInto_def 4 v)
qed

lemma Int32_round_trip:
  assumes "- 2147483648 \<le> v" "v \<le> 2147483647"
  shows "round_trip (Int32Codec_encode junk v) Int32Codec_decode junk = Inr v"
  using assms by (simp add: round_trip_def Int32Codec_encoded decode_Int32)

text \<open>
  Claim C3 at its own example and at the value 1 of Int64Codec.  Int32Codec encodes
  -123456 as 00 00 00 04 FF FE 1D C0 and decodes it back.  Int64Codec writes
  \<open>val >> 32\<close> as the high word, which JavaScript evaluates as a shift by 0: the value
  1 is encoded with high word 1 and decoded as 4294967297.
\<close>

theorem int_codecs_at_examples: 
  "encoded (Int32Codec_encode junk (- 123456)) junk = Inr [0, 0, 0, 4, 255, 254, 29, 192]
   \<and> round_trip (Int32Codec_encode junk (- 123456)) Int32Codec_decode junk = Inr (- 123456)
   \<and> encoded (Int64Codec_encode junk 1) junk = Inr [0, 0, 0, 8, 0, 0, 0, 1, 0, 0, 0, 1]
   \<and> round_trip (Int64Codec_encode junk 1) Int64Codec_decode junk = Inr 4294967297"
proof -
  have a: "encoded (Int32Codec_encode junk (- 123456)) junk = Inr [0, 0, 0, 4, 255, 254, 29, 192]"
    by (simp add: Int32Codec_encoded be_bytes_numeral)
  have b: "encoded (Int64Codec_encode junk 1) junk = Inr [0, 0, 0, 8, 0, 0, 0, 1, 0, 0, 0, 1]"
    by (simp add: Int64Codec_encoded be_bytes_numeral)
  have c: "decode_value Int64Codec_decode [0, 0, 0, 8, 0, 0, 0, 1, 0, 0, 0, 1] = Inr 4294967297"
    by code_simp
  have d: "round_trip (Int32Codec_encode junk (- 123456)) Int32Codec_decode junk = Inr (- 123456)"
    by (rule Int32_round_trip) simp_all
  have e: "round_trip (Int64Codec_encode junk 1) Int64Codec_decode junk = Inr 4294967297"
    by (simp add: round_trip_def b c)
  show ?thesis by (intro conjI a d b e)
qed

section \<open>Properties of the configuration resolver\<close>

lemmas setter_defs = setHost_def setPort_def setDatabase_def setUser_def setPassword_def
  setTlsCAData_def setTlsCAFile_def setTlsVerifyHostname_def setParam_def

lemma validateHost_Inr: "validateHost a = Inr a' \<Longrightarrow> a' = a"
  by (auto simp: validateHost_def split: if_splits)

lemma set_fields_stay:
  "u_host c \<noteq> None \<longrightarrow> setHost v l c = (Inr False, c)"
  "u_port c \<noteq> None \<longrightarrow> setPort pv l c = (Inr False, c)"
  "u_database c \<noteq> None \<longrightarrow> setDatabase v l c = (Inr False, c)"
  "u_user c \<noteq> None \<longrightarrow> setUser v l c = (Inr False, c)"
  "u_password c \<noteq> None \<longrightarrow> setPassword v l c = (Inr False, c)"
  "u_tlsCAData c \<noteq> None \<longrightarrow> setTlsCAData v l c = (Inr False, c) \<and> setTlsCAFile w v l c = (Inr False, c)"
  "u_tlsVerifyHostname c \<noteq> None \<longrightarrow> setTlsVerifyHostname vv l c = (Inr False, c)"
  by (simp_all add: setter_defs)

lemma first_source_wins:
  "u_host c = None \<and> validateHost a = Inr a \<longrightarrow>
     (\<exists>c'. two_sources setHost a l1 b l2 c = (Inr False, c') \<and> u_host c' = Some a \<and> u_hostSource c' = Some l1)"
  "u_port c = None \<and> parseValidatePort pa = Inr p \<longrightarrow>
     (\<exists>c'. two_sources setPort pa l1 pb l2 c = (Inr False, c') \<and> u_port c' = Some p \<and> u_portSource c' = Some l1)"
  "u_database c = None \<and> a \<noteq> [] \<longrightarrow>
     (\<exists>c'. two_sources setDatabase a l1 b l2 c = (Inr False, c') \<and> u_database c' = Some a \<and> u_databaseSource c' = Some l1)"
  "u_user c = None \<and> a \<noteq> [] \<longrightarrow>
     (\<exists>c'. two_sources setUser a l1 b l2 c = (Inr False, c') \<and> u_user c' = Some a \<and> u_userSource c' = Some l1)"
  "u_password c = None \<longrightarrow>
     (\<exists>c'. two_sources setPassword a l1 b l2 c = (Inr False, c') \<and> u_password c' = Some a \<and> u_passwordSource c' = Some l1)"
  "u_tlsCAData c = None \<longrightarrow>
     (\<exists>c'. two_sources setTlsCAData a l1 b l2 c = (Inr False, c') \<and> u_tlsCAData c' = Some a \<and> u_tlsCADataSource c' = Some l1)"
  "u_tlsCAData c = None \<and> readFileUtf8Sync w a = Inr content \<longrightarrow>
     (\<exists>c'. two_sources (setTlsCAFile w) a l1 b l2 c = (Inr False, c') \<and> u_tlsCAData c' = Some content \<and> u_tlsCADataSource c' = Some l1)"
  "u_tlsVerifyHostname c = None
     \<and> (case va of VerifyBool x \<Rightarrow> Inr x | VerifyString s \<Rightarrow> parseVerifyHostname s) = Inr flag \<longrightarrow>
     (\<exists>c'. two_sources setTlsVerifyHostname va l1 vb l2 c = (Inr False, c')
        \<and> u_tlsVerifyHostname c' = Some flag \<and> u_tlsVerifyHostnameSource c' = Some l1)"
  by (simp_all add: two_sources_def setter_defs Let_def)

lemma defaults_at_read_time:
  "address new_ResolvedConnectConfig = (''localhost'', 5656)"
  "database new_ResolvedConnectConfig = ''edgedb''"
  "user new_ResolvedConnectConfig = ''edgedb''"
  "u_host c = None \<longrightarrow> fst (address c) = ''localhost'' \<and> u_host (snd (setHost None l c)) = None"
  "u_port c = None \<longrightarrow> snd (address c) = 5656 \<and> u_port (snd (setPort None l c)) = None"
  "u_database c = None \<longrightarrow> database c = ''edgedb'' \<and> u_database (snd (setDatabase None l c)) = None"
  "u_user c = None \<longrightarrow> user c = ''edgedb'' \<and> u_user (snd (setUser None l c)) = None"
  "u_host c = Some h \<longrightarrow> fst (address c) = h"
  "u_port c = Some p \<longrightarrow> snd (address c) = p"
  "u_database c = Some d \<longrightarrow> database c = d"
  "u_user c = Some u \<longrightarrow> user c = u"
  by (simp_all add: address_def database_def user_def new_ResolvedConnectConfig_def setter_defs Let_def)


text \<open>
  Claim C6.  A setter called on a field that is already set changes nothing, whatever
  value and label it brings.  When a field is unset and a first source gives a value its
  validator accepts, then a second source gives another value, the field holds the first
  value (as validated) and the first label.  The getters give \<open>localhost\<close>, \<open>5656\<close>,
  \<open>edgedb\<close> and \<open>edgedb\<close> for unset fields and the stored value otherwise; a setter
  called without a value does not store a default.
\<close>

theorem config_fields_are_sticky:
  "(u_host c \<noteq> None \<longrightarrow> setHost v l c = (Inr False, c))
   \<and> (u_port c \<noteq> None \<longrightarrow> setPort pv l c = (Inr False, c))
   \<and> (u_database c \<noteq> None \<longrightarrow> setDatabase v l c = (Inr False, c))
   \<and> (u_user c \<noteq> None \<longrightarrow> setUser v l c = (Inr False, c))
   \<and> (u_password c \<noteq> None \<longrightarrow> setPassword v l c = (Inr False, c))
   \<and> (u_tlsCAData c \<noteq> None \<longrightarrow> setTlsCAData v l c = (Inr False, c) \<and> setTlsCAFile w v l c = (Inr False, c))
   \<and> (u_tlsVerifyHostname c \<noteq> None \<longrightarrow> setTlsVerifyHostname vv l c = (Inr False, c))
   \<and> (u_host c = None \<and> validateHost a = Inr a \<longrightarrow>
        (\<exists>c'. two_sources setHost a l1 b l2 c = (Inr False, c') \<and> u_host c' = Some a \<and> u_hostSource c' = Some l1))
   \<and> (u_port c = None \<and> parseValidatePort pa = Inr p \<longrightarrow>
        (\<exists>c'. two_sources setPort pa l1 pb l2 c = (Inr False, c') \<and> u_port c' = Some p \<and> u_portSource c' = Some l1))
   \<and> (u_database c = None \<and> a \<noteq> [] \<longrightarrow>
        (\<exists>c'. two_sources setDatabase a l1 b l2 c = (Inr False, c') \<and> u_database c' = Some a \<and> u_databaseSource c' = Some l1))
   \<and> (u_user c = None \<and> a \<noteq> [] \<longrightarrow>
        (\<exists>c'. two_sources setUser a l1 b l2 c = (Inr False, c') \<and> u_user c' = Some a \<and> u_userSource c' = Some l1))
   \<and> (u_password c = None \<longrightarrow>
        (\<exists>c'. two_sources setPassword a l1 b l2 c = (Inr False, c') \<and> u_password c' = Some a \<and> u_passwordSource c' = Some l1))
   \<and> (u_tlsCAData c = None \<longrightarrow>
        (\<exists>c'. two_sources setTlsCAData a l1 b l2 c = (Inr False, c') \<and> u_tlsCAData c' = Some a \<and> u_tlsCADataSource c' = Some l1))
   \<and> (u_tlsCAData c = None \<and> readFileUtf8Sync w a = Inr content \<longrightarrow>
        (\<exists>c'. two_sources (setTlsCAFile w) a l1 b l2 c = (Inr False, c') \<and> u_tlsCAData c' = Some content
           \<and> u_tlsCADataSource c' = Some l1))
   \<and> (u_tlsVerifyHostname c = None
        \<and> (case va of VerifyBool x \<Rightarrow> Inr x | VerifyString s \<Rightarrow> parseVerifyHostname s) = Inr flag \<longrightarrow>
        (\<exists>c'. two_sources setTlsVerifyHostname va l1 vb l2 c = (Inr False, c')
           \<and> u_tlsVerifyHostname c' = Some flag \<and> u_tlsVerifyHostnameSource c' = Some l1))
   \<and> address new_ResolvedConnectConfig = (''localhost'', 5656)
   \<and> database new_ResolvedConnectConfig = ''edgedb''
   \<and> user new_ResolvedConnectConfig = ''edgedb''
   \<and> (u_host c = None \<longrightarrow> fst (address c) = ''localhost'' \<and> u_host (snd (setHost None l c)) = None)
   \<and> (u_port c = None \<longrightarrow> snd (address c) = 5656 \<and> u_port (snd (setPort None l c)) = None)
   \<and> (u_database c = None \<longrightarrow> database c = ''edgedb'' \<and> u_database (snd (setDatabase None l c)) = None)
   \<and> (u_user c = None \<longrightarrow> user c = ''edgedb'' \<and> u_user (snd (setUser None l c)) = None)
   \<and> (u_host c = Some h \<longrightarrow> fst (address c) = h)
   \<and> (u_port c = Some p \<longrightarrow> snd (address c) = p)
   \<and> (u_database c = Some d \<longrightarrow> database c = d)
   \<and> (u_user c = Some u \<longrightarrow> user c = u)"
  by (intro conjI set_fields_stay first_source_wins defaults_at_read_time)

theorem config_fields_are_sticky_witness:
  "(\<exists>c'. two_sources setHost ''a'' ''S1'' ''b'' ''S2'' new_ResolvedConnectConfig = (Inr False, c')
        \<and> u_host c' = Some ''a'' \<and> u_hostSource c' = Some ''S1'')
   \<and> (\<exists>c'. two_sources setPort (PortString ''1234'') ''S1'' (PortNumber 99) ''S2'' new_ResolvedConnectConfig = (Inr False, c')
        \<and> u_port c' = Some 1234 \<and> u_portSource c' = Some ''S1'')
   \<and> (\<exists>c'. two_sources setDatabase ''a'' ''S1'' ''b'' ''S2'' new_ResolvedConnectConfig = (Inr False, c')
        \<and> u_database c' = Some ''a'' \<and> u_databaseSource c' = Some ''S1'')
   \<and> (\<exists>c'. two_sources setUser ''a'' ''S1'' ''b'' ''S2'' new_ResolvedConnectConfig = (Inr False, c')
        \<and> u_user c' = Some ''a'' \<and> u_userSource c' = Some ''S1'')
   \<and> (\<exists>c'. two_sources setPassword ''a'' ''S1'' ''b'' ''S2'' new_ResolvedConnectConfig = (Inr False, c')
        \<and> u_password c' = Some ''a'' \<and> u_passwordSource c' = Some ''S1'')
   \<and> (\<exists>c'. two_sources setTlsCAData ''a'' ''S1'' ''b'' ''S2'' new_ResolvedConnectConfig = (Inr False, c')
        \<and> u_tlsCAData c' = Some ''a'' \<and> u_tlsCADataSource c' = Some ''S1'')
   \<and> (\<exists>c'. two_sources setTlsVerifyHostname (VerifyString ''Yes'') ''S1'' (VerifyBool False) ''S2''
               new_ResolvedConnectConfig = (Inr False, c')
        \<and> u_tlsVerifyHostname c' = Some True \<and> u_tlsVerifyHostnameSource c' = Some ''S1'')
   \<and> fst (address new_ResolvedConnectConfig) = ''localhost''
   \<and> snd (address new_ResolvedConnectConfig) = 5656
   \<and> database new_ResolvedConnectConfig = ''edgedb''
   \<and> user new_ResolvedConnectConfig = ''edgedb''
   \<and> setHost (Some ''b'') (Some ''S2'') (snd (setHost (Some ''a'') (Some ''S1'') new_ResolvedConnectConfig))
        = (Inr False, snd (setHost (Some ''a'') (Some ''S1'') new_ResolvedConnectConfig))
   \<and> fst (address (snd (setHost (Some ''a'') (Some ''S1'') new_ResolvedConnectConfig))) = ''a''"
proof -
  have unset: "u_host new_ResolvedConnectConfig = None" "u_port new_ResolvedConnectConfig = None"
      "u_database new_ResolvedConnectConfig = None" "u_user new_ResolvedConnectConfig = None"
      "u_password new_ResolvedConnectConfig = None" "u_tlsCAData new_ResolvedConnectConfig = None"
      "u_tlsVerifyHostname new_ResolvedConnectConfig = None"
    by (simp_all add: new_ResolvedConnectConfig_def)
  have ok: "validateHost ''a'' = Inr ''a''" "parseValidatePort (PortString ''1234'') = Inr 1234"
      "parseVerifyHostname ''Yes'' = Inr True"
    by code_simp+
  have set: "u_host (snd (setHost (Some ''a'') (Some ''S1'') new_ResolvedConnectConfig)) = Some ''a''"
    by (simp add: setHost_def setParam_def ok new_ResolvedConnectConfig_def)
  note t1 = config_fields_are_sticky[where c = new_ResolvedConnectConfig and a = "''a''" and b = "''b''"
      and ?l1.0 = "''S1''" and ?l2.0 = "''S2''" and pa = "PortString ''1234''" and pb = "PortNumber 99" and p = 1234
      and va = "VerifyString ''Yes''" and vb = "VerifyBool False" and flag = True]
  note t2 = config_fields_are_sticky[where c = "snd (setHost (Some ''a'') (Some ''S1'') new_ResolvedConnectConfig)"
      and v = "Some ''b''" and l = "Some ''S2''" and h = "''a''"]
  show ?thesis
    using t1 t2 unset ok set by simp
qed

lemma resolveConfigOptions_compound_raises:
  "1 < compoundParamsCount config \<Longrightarrow> isl (fst (resolveConfigOptions w config sources err c))"
  by (auto simp: resolveConfigOptions_def bindE_def Let_def split: prod.splits sum.splits)

lemma bindE_Inr:
  "bindE m f s = (Inr y, s') \<longleftrightarrow> (\<exists>x s1. m s = (Inr x, s1) \<and> f x s1 = (Inr y, s'))"
  by (auto simp: bindE_def split: prod.splits sum.splits)

lemma scalar_setters_keep_port:
  "setDatabase v l c = (r, c') \<Longrightarrow> u_port c' = u_port c"
  "setUser v l c = (r, c') \<Longrightarrow> u_port c' = u_port c"
  "setPassword v l c = (r, c') \<Longrightarrow> u_port c' = u_port c"
  "setTlsCAFile w v l c = (r, c') \<Longrightarrow> u_port c' = u_port c"
  "setTlsVerifyHostname vv l c = (r, c') \<Longrightarrow> u_port c' = u_port c"
  by (auto simp: setter_defs Let_def split: option.splits sum.splits if_splits)

lemma resolveConfigOptions_no_compound:
  assumes "compoundParamsCount config = 0" "resolveConfigOptions w config sources err c = (Inr (hc, used), c')"
  shows "\<not> hc \<and> u_port c' = u_port c"
  using assms unfolding resolveConfigOptions_def bindE_Inr
  by (auto simp: Let_def addServerSettings_def dest!: scalar_setters_keep_port)

lemma env_options_port: "u_port c = u_port c' \<Longrightarrow> env_options w c = env_options w c'"
  by (simp add: env_options_def)

lemma explicit_compound_count:
  "compoundParamsCount (explicit_options opts)
     = length (filter (\<lambda>given. given)
         [cc_dsn opts \<noteq> None, cc_credentialsFile opts \<noteq> None, cc_host opts \<noteq> None \<or> cc_port opts \<noteq> None])"
  by (auto simp: compoundParamsCount_def explicit_options_def Let_def split: option.splits)

lemma env_compound_count:
  "compoundParamsCount (env_options w new_ResolvedConnectConfig)
     = length (filter (\<lambda>given. given)
         [process_env w ''EDGEDB_DSN'' \<noteq> None, process_env w ''EDGEDB_INSTANCE'' \<noteq> None,
          process_env w ''EDGEDB_CREDENTIALS_FILE'' \<noteq> None,
          process_env w ''EDGEDB_HOST'' \<noteq> None
          \<or> (case process_env w ''EDGEDB_PORT'' of None \<Rightarrow> False | Some p \<Rightarrow> take 6 p \<noteq> ''tcp://'')])"
  by (auto simp: compoundParamsCount_def env_options_def Let_def new_ResolvedConnectConfig_def
      split: option.splits)

lemma explicit_compound_raises:
  assumes a: "1 < compoundParamsCount (explicit_options opts)"
  shows "isl (parseConnectArguments w opts)"
  using resolveConfigOptions_compound_raises[OF a, of w explicit_sources explicit_compound_error new_ResolvedConnectConfig]
  by (auto simp: parseConnectArguments_def parseConnectDsnAndArgs_def split: prod.splits sum.splits)

lemma env_compound_raises:
  assumes a: "compoundParamsCount (explicit_options opts) = 0"
    and b: "1 < compoundParamsCount (env_options w new_ResolvedConnectConfig)"
  shows "isl (parseConnectArguments w opts)"
proof -
  obtain r1 c1 where 1: "resolveConfigOptions w (explicit_options opts) explicit_sources explicit_compound_error
             new_ResolvedConnectConfig = (r1, c1)"
    by (cases "resolveConfigOptions w (explicit_options opts) explicit_sources explicit_compound_error
             new_ResolvedConnectConfig")
  show ?thesis
  proof (cases r1)
    case (Inl e)
    then show ?thesis using 1 by (simp add: parseConnectArguments_def parseConnectDsnAndArgs_def)
  next
    case (Inr p)
    obtain hc used where p: "p = (hc, used)" by (cases p)
    have nc: "\<not> hc" and port: "u_port c1 = u_port new_ResolvedConnectConfig"
      using resolveConfigOptions_no_compound[of "explicit_options opts" w explicit_sources explicit_compound_error
          new_ResolvedConnectConfig hc used c1] a 1 Inr p by auto
    have e: "env_options w c1 = env_options w new_ResolvedConnectConfig"
      using port by (rule env_options_port)
    have "isl (fst (resolveConfigOptions w (env_options w c1) env_sources env_compound_error c1))"
      using b unfolding e by (intro resolveConfigOptions_compound_raises) simp
    then show ?thesis using 1 Inr p nc
      by (auto simp: parseConnectArguments_def parseConnectDsnAndArgs_def split: prod.splits sum.splits)
  qed
qed

text \<open>
  Claim C7, as the code has it.  The explicit options have three compound groups: the
  option \<open>dsn\<close> (a DSN or an instance name), \<open>credentialsFile\<close>, and \<open>host\<close> or \<open>port\<close>.
  When two or more of them are given, resolution raises.  The environment has four:
  \<open>EDGEDB_DSN\<close>, \<open>EDGEDB_INSTANCE\<close>, \<open>EDGEDB_CREDENTIALS_FILE\<close>, and \<open>EDGEDB_HOST\<close> or
  an \<open>EDGEDB_PORT\<close> that does not start with \<open>tcp://\<close>.  When two or more of them are
  set and none of the explicit compound options is given, resolution raises.
  \<open>parseConnectArguments({dsn: "edgedb://h", host: "x"})\<close> raises the error that starts
  with "Cannot have more than one", in every environment.
\<close>

theorem compound_options_rule:
  "(2 \<le> length (filter (\<lambda>given. given)
            [cc_dsn opts \<noteq> None, cc_credentialsFile opts \<noteq> None,
             cc_host opts \<noteq> None \<or> cc_port opts \<noteq> None])
      \<longrightarrow> isl (parseConnectArguments w opts))
   \<and> (cc_dsn opts = None \<and> cc_credentialsFile opts = None \<and> cc_host opts = None \<and> cc_port opts = None
        \<and> 2 \<le> length (filter (\<lambda>given. given)
              [process_env w ''EDGEDB_DSN'' \<noteq> None, process_env w ''EDGEDB_INSTANCE'' \<noteq> None,
               process_env w ''EDGEDB_CREDENTIALS_FILE'' \<noteq> None,
               process_env w ''EDGEDB_HOST'' \<noteq> None
               \<or> (case process_env w ''EDGEDB_PORT'' of None \<Rightarrow> False | Some p \<Rightarrow> take 6 p \<noteq> ''tcp://'')])
      \<longrightarrow> isl (parseConnectArguments w opts))
   \<and> parseConnectArguments w (no_options\<lparr>cc_dsn := Some ''edgedb://h'', cc_host := Some ''x''\<rparr>)
        = Inl (Error explicit_compound_error)
   \<and> take 25 explicit_compound_error = ''Cannot have more than one''"
proof (intro conjI impI)
  assume "2 \<le> length (filter (\<lambda>given. given)
            [cc_dsn opts \<noteq> None, cc_credentialsFile opts \<noteq> None,
             cc_host opts \<noteq> None \<or> cc_port opts \<noteq> None])"
  then have "1 < compoundParamsCount (explicit_options opts)"
    unfolding explicit_compound_count by simp
  then show "isl (parseConnectArguments w opts)" by (rule explicit_compound_raises)
next
  assume a: "cc_dsn opts = None \<and> cc_credentialsFile opts = None \<and> cc_host opts = None \<and> cc_port opts = None
        \<and> 2 \<le> length (filter (\<lambda>given. given)
              [process_env w ''EDGEDB_DSN'' \<noteq> None, process_env w ''EDGEDB_INSTANCE'' \<noteq> None,
               process_env w ''EDGEDB_CREDENTIALS_FILE'' \<noteq> None,
               process_env w ''EDGEDB_HOST'' \<noteq> None
               \<or> (case process_env w ''EDGEDB_PORT'' of None \<Rightarrow> False | Some p \<Rightarrow> take 6 p \<noteq> ''tcp://'')])"
  have 0: "compoundParamsCount (explicit_options opts) = 0"
    unfolding explicit_compound_count using a by simp
  have 1: "1 < compoundParamsCount (env_options w new_ResolvedConnectConfig)"
    unfolding env_compound_count using a by simp
  show "isl (parseConnectArguments w opts)" using 0 1 by (rule env_compound_raises)
next
  show "parseConnectArguments w (no_options\<lparr>cc_dsn := Some ''edgedb://h'', cc_host := Some ''x''\<rparr>)
        = Inl (Error explicit_compound_error)"
    by (simp add: parseConnectArguments_def parseConnectDsnAndArgs_def resolveConfigOptions_def
      no_options_def explicit_options_def explicit_sources_def bindE_def Let_def
      new_ResolvedConnectConfig_def compoundParamsCount_def setter_defs or_null_def is_dsn_def is_alpha_def)
next
  show "take 25 explicit_compound_error = ''Cannot have more than one''"
    by (simp add: explicit_compound_error_def)
qed

theorem compound_options_rule_witness:
  "isl (parseConnectArguments (bare_world (\<lambda>k. None) example_urls)
          (no_options\<lparr>cc_dsn := Some ''inst'', cc_credentialsFile := Some ''/c.json''\<rparr>))
   \<and> isl (parseConnectArguments (bare_world (\<lambda>k. None) example_urls)
          (no_options\<lparr>cc_credentialsFile := Some ''/c.json'', cc_port := Some 5656\<rparr>))
   \<and> isl (parseConnectArguments (bare_world env_instance_and_credentials example_urls) no_options)
   \<and> isl (parseConnectArguments (bare_world env_dsn_and_host example_urls) no_options)"
  using compound_options_rule[of "no_options\<lparr>cc_dsn := Some ''inst'', cc_credentialsFile := Some ''/c.json''\<rparr>"
        "bare_world (\<lambda>k. None) example_urls"]
    compound_options_rule[of "no_options\<lparr>cc_credentialsFile := Some ''/c.json'', cc_port := Some 5656\<rparr>"
        "bare_world (\<lambda>k. None) example_urls"]
    compound_options_rule[of no_options "bare_world env_instance_and_credentials example_urls"]
    compound_options_rule[of no_options "bare_world env_dsn_and_host example_urls"]
  by (simp add: no_options_def bare_world_def env_instance_and_credentials_def env_dsn_and_host_def)

text \<open>
  Claim C7 as stated fails at the level of the environment variables: with the explicit
  option \<open>dsn = "edgedb://h"\<close>, the variables \<open>EDGEDB_DSN\<close> and \<open>EDGEDB_HOST\<close> are
  both present, and resolution succeeds with the address \<open>["h", 5656]\<close>.
\<close>

theorem env_compound_options_not_consulted:
  "compoundParamsCount (env_options (bare_world env_dsn_and_host example_urls) new_ResolvedConnectConfig) = 2
   \<and> map_sum id (\<lambda>r. address (connectionParams r))
        (parseConnectArguments (bare_world env_dsn_and_host example_urls) (no_options\<lparr>cc_dsn := Some ''edgedb://h''\<rparr>))
       = Inr (''h'', 5656)"
  by code_simp


lemmas resolver_defs = parseConnectArguments_def parseConnectDsnAndArgs_def resolveConfigOptions_def
  no_options_def explicit_options_def explicit_sources_def bindE_def Let_def
  new_ResolvedConnectConfig_def addServerSettings_def compoundParamsCount_def
  useDSN_def parseDSNIntoConfig_def handleDSNPart_def dsn_param_env_def dsn_param_file_def
  or_null_def is_dsn_def is_alpha_def map_delete_def validateHost_def parseValidatePort_def
  parseInt_def is_digit_def stripLeadingSlash_def address_def user_def password_def database_def

text \<open>
  Claim C8.  With the single option \<open>dsn = "edgedb://u:p@h:1234/db"\<close>, whatever the
  environment, the files and the project directory are, the resolved config has address
  \<open>["h", 1234]\<close>, user \<open>u\<close>, password \<open>p\<close> and database \<open>db\<close>.  The URL
  constructor is taken to split that DSN into its components as the URL standard does.
\<close>

theorem dsn_option_resolves:
  assumes "new_URL w ''edgedb://u:p@h:1234/db'' = Some url_full"
  shows "\<exists>r. parseConnectArguments w (no_options\<lparr>cc_dsn := Some ''edgedb://u:p@h:1234/db''\<rparr>) = Inr r
     \<and> address (connectionParams r) = (''h'', 1234)
     \<and> user (connectionParams r) = ''u''
     \<and> password (connectionParams r) = Some ''p''
     \<and> database (connectionParams r) = ''db''"
  using assms by (simp add: resolver_defs setter_defs url_full_def)

theorem dsn_option_resolves_witness:
  "\<exists>r. parseConnectArguments (bare_world (\<lambda>k. None) example_urls)
          (no_options\<lparr>cc_dsn := Some ''edgedb://u:p@h:1234/db''\<rparr>) = Inr r
     \<and> address (connectionParams r) = (''h'', 1234)
     \<and> user (connectionParams r) = ''u''
     \<and> password (connectionParams r) = Some ''p''
     \<and> database (connectionParams r) = ''db''"
  by (rule dsn_option_resolves) (simp add: bare_world_def example_urls_def)

text \<open>
  Claim C10.  \<open>addServerSettings\<close> leaves every key that the config's server settings
  already have with its value, and takes the other keys from the new settings.
\<close>

theorem server_settings_keep_existing:
  "(serverSettings c k = Some v \<longrightarrow> serverSettings (addServerSettings settings c) k = Some v)
   \<and> (serverSettings c k = None \<longrightarrow> serverSettings (addServerSettings settings c) k = settings k)"
  by (simp add: addServerSettings_def map_add_def)

theorem server_settings_keep_existing_witness:
  "serverSettings (addServerSettings [''a'' \<mapsto> ''2'', ''b'' \<mapsto> ''3'']
       (addServerSettings [''a'' \<mapsto> ''1''] new_ResolvedConnectConfig)) ''a'' = Some ''1''
   \<and> serverSettings (addServerSettings [''a'' \<mapsto> ''2'', ''b'' \<mapsto> ''3'']
       (addServerSettings [''a'' \<mapsto> ''1''] new_ResolvedConnectConfig)) ''b'' = Some ''3''"
  using server_settings_keep_existing
    [of "addServerSettings [''a'' \<mapsto> ''1''] new_ResolvedConnectConfig" "''a''" "''1''" "[''a'' \<mapsto> ''2'', ''b'' \<mapsto> ''3'']"]
    server_settings_keep_existing
    [of "addServerSettings [''a'' \<mapsto> ''1''] new_ResolvedConnectConfig" "''b''" "''1''" "[''a'' \<mapsto> ''2'', ''b'' \<mapsto> ''3'']"]
  by (simp add: addServerSettings_def new_ResolvedConnectConfig_def)

section \<open>Reading frames out of one chunk\<close>

lemma drop_view:
  assumes "drop q b = xs @ rest"
  shows "q + length xs + length rest = length b \<or> (xs @ rest = [] \<and> length b \<le> q)"
    and "take (length xs) (drop q b) = xs"
    and "drop (q + length xs) b = rest"
proof -
  have "length (drop q b) = length xs + length rest" using assms by simp
  then show "q + length xs + length rest = length b \<or> (xs @ rest = [] \<and> length b \<le> q)"
    by (cases "q \<le> length b") auto
  show "take (length xs) (drop q b) = xs" using assms by simp
  have "drop (q + length xs) b = drop (length xs) (drop q b)" by (simp add: add.commute)
  then show "drop (q + length xs) b = rest" using assms by simp
qed

lemma at_buffer_sel:
  "bufs (at_buffer b q t l n r) = []"
  "len (at_buffer b q t l n r) = int (length b) - int q"
  "buf0 (at_buffer b q t l n r) = Some b"
  "pos0 (at_buffer b q t l n r) = int q"
  "len0 (at_buffer b q t l n r) = int (length b)"
  "curMessageType (at_buffer b q t l n r) = t"
  "curMessageLen (at_buffer b q t l n r) = l"
  "curMessageLenUnread (at_buffer b q t l n r) = n"
  "curMessageReady (at_buffer b q t l n r) = r"
  by (simp_all add: at_buffer_def)

lemma ensureFirstBuf_at:
  "q < length b \<Longrightarrow> ensureFirstBuf (at_buffer b q t l n r) = (Inr b, at_buffer b q t l n r)"
  by (auto simp: ensureFirstBuf_def at_buffer_def)

lemma readNumber_at:
  assumes view: "drop q b = xs @ rest" and k: "length xs = k" "0 < k" and rest: "rest \<noteq> []" and n: "int k \<le> n"
    and rd: "\<And>bb off. reader bb off = map_sum id dec (Buffer_read k bb off)"
  shows "rm_readNumber junk (int k) reader (at_buffer b q t l n r)
           = (Inr (dec xs), at_buffer b (q + k) t l (n - int k) r)"
proof -
  have len: "q + k + length rest = length b" using drop_view(1)[OF view] k by auto
  have lt: "q + k < length b" using len rest by (cases rest) auto
  have tk: "take k (drop q b) = xs" using drop_view(2)[OF view] k by simp
  have e: "ensureFirstBuf (at_buffer b q t l n r) = (Inr b, at_buffer b q t l n r)"
    using lt by (intro ensureFirstBuf_at) simp
  have c: "checkOverread (int k) (at_buffer b q t l n r) = Inr ()"
    using n lt by (simp add: checkOverread_def at_buffer_def)
  have r: "reader b (int q) = Inr (dec xs)"
    using lt tk by (simp add: rd Buffer_read_def)
  show ?thesis
    using lt by (simp add: rm_readNumber_def c e r at_buffer_sel)
qed



lemma readUInt32_at:
  assumes "drop q b = [x1, x2, x3, x4] @ rest" "rest \<noteq> []" "4 \<le> n"
  shows "readUInt32 junk (at_buffer b q t l n r) = (Inr (be_uint [x1, x2, x3, x4]), at_buffer b (q + 4) t l (n - 4) r)"
  using readNumber_at[OF assms(1) _ _ assms(2), of 4 n readUInt32BE be_uint junk t l r] assms(3)
  by (simp add: readUInt32_def readUInt32BE_def)









lemma takeMessage_ready:
  "takeMessage junk (at_buffer b q t l n True) = (Inr True, at_buffer b q t l n True)"
  by (simp add: takeMessage_def at_buffer_def)








section \<open>Properties of the connection\<close>










































end
